(* ===== verification/Prelude.thy ===== *)
theory Prelude
  imports Complex_Main
begin

text \<open>
  Shared vocabulary of the development: the identities of the engine objects the
  component refers to (actors, mesh components, scene components, sounds, physical
  materials), the engine's 3-vector \<open>FVector\<close> with the arithmetic the component uses,
  the rule collections the component theories feed, and the generic lemmas on vectors
  and options that the component proofs share. Engine floats are modelled as \<open>real\<close>:
  the component compares, scales and clamps them and never relies on rounding, so every
  theorem is stated for exact arithmetic (see the root theory's header).
\<close>

section \<open>Rule collections\<close>

named_theorems vec_simps "evaluation rules of the FVector arithmetic"
named_theorems handler_defs "definitions of the component's handlers, unfolded by the proofs"

section \<open>Identities of engine objects\<close>

text \<open>Pointers to engine objects are modelled by opaque identities; a null pointer is \<open>None\<close>.\<close>

type_synonym actor = nat        \<comment> \<open>\<open>AActor*\<close>\<close>
type_synonym mesh_id = nat      \<comment> \<open>\<open>UStaticMeshComponent*\<close>\<close>
type_synonym holder_id = nat    \<comment> \<open>\<open>USceneComponent*\<close>\<close>
type_synonym sound_id = nat     \<comment> \<open>\<open>USoundBase*\<close>\<close>
type_synonym physmat_id = nat   \<comment> \<open>\<open>UPhysicalMaterial*\<close>\<close>
type_synonym bone = string      \<comment> \<open>\<open>FName BoneName\<close>\<close>

section \<open>FVector\<close>

datatype vec = Vec (vx: real) (vy: real) (vz: real)

definition zero_vec :: vec where
  "zero_vec = Vec 0 0 0"

definition up_vec :: vec where
  "up_vec = Vec 0 0 1"

fun vadd :: "vec \<Rightarrow> vec \<Rightarrow> vec" where
  "vadd (Vec a b c) (Vec x y z) = Vec (a + x) (b + y) (c + z)"

fun vsub :: "vec \<Rightarrow> vec \<Rightarrow> vec" where
  "vsub (Vec a b c) (Vec x y z) = Vec (a - x) (b - y) (c - z)"

text \<open>\<open>V * k\<close>: the vector scaled by a float.\<close>

fun vscale :: "real \<Rightarrow> vec \<Rightarrow> vec" where
  "vscale k (Vec x y z) = Vec (k * x) (k * y) (k * z)"

text \<open>\<open>FVector::SizeSquared\<close> and \<open>FVector::Size\<close>.\<close>

fun vsize_sq :: "vec \<Rightarrow> real" where
  "vsize_sq (Vec x y z) = x * x + y * y + z * z"

definition vsize :: "vec \<Rightarrow> real" where
  "vsize v = sqrt (vsize_sq v)"

text \<open>\<open>FVector::DistSquared(A, B)\<close> and \<open>FVector::Distance(A, B)\<close>.\<close>

definition vdist_sq :: "vec \<Rightarrow> vec \<Rightarrow> real" where
  "vdist_sq a b = vsize_sq (vsub b a)"

definition vdist :: "vec \<Rightarrow> vec \<Rightarrow> real" where
  "vdist a b = sqrt (vdist_sq a b)"

declare zero_vec_def [vec_simps] up_vec_def [vec_simps] vsize_def [vec_simps]
  vdist_sq_def [vec_simps] vdist_def [vec_simps]

section \<open>Generic lemmas\<close>

lemma vsize_sq_nonneg [simp]: "0 \<le> vsize_sq v"
  by (cases v) simp

lemma vsize_nonneg [simp]: "0 \<le> vsize v"
  by (simp add: vsize_def)

lemma vdist_sq_nonneg [simp]: "0 \<le> vdist_sq a b"
  by (simp add: vdist_sq_def)

lemma vdist_nonneg [simp]: "0 \<le> vdist a b"
  by (simp add: vdist_def)

lemma vsize_sq_scale: "vsize_sq (vscale k v) = k * k * vsize_sq v"
  by (cases v) (simp add: algebra_simps)

lemma vsize_scale: "vsize (vscale k v) = \<bar>k\<bar> * vsize v"
proof -
  have "sqrt (k * k * vsize_sq v) = sqrt (k * k) * sqrt (vsize_sq v)"
    by (simp add: real_sqrt_mult)
  then show ?thesis
    by (simp add: vsize_def vsize_sq_scale)
qed

lemma vadd_vsub_cancel [simp]: "vadd a (vsub b a) = b"
  by (cases a, cases b) simp

lemma vsub_self [simp]: "vsub a a = zero_vec"
  by (cases a) (simp add: zero_vec_def)

lemma vdist_sq_sym: "vdist_sq a b = vdist_sq b a"
  by (cases a, cases b) (simp add: vdist_sq_def algebra_simps)

lemma vdist_sq_self [simp]: "vdist_sq a a = 0"
  by (simp add: vdist_sq_def zero_vec_def)

lemma vdist_sq_vadd_vscale:
  "vdist_sq (vadd c (vscale t (vsub g c))) g = (1 - t) * (1 - t) * vdist_sq c g"
  by (cases c, cases g) (simp add: vdist_sq_def algebra_simps)

lemma vdist_vadd: "vdist a (vadd a x) = vsize x"
  by (cases a, cases x) (simp add: vdist_def vdist_sq_def vsize_def)

lemma vsize_unit: "vsize_sq v = 1 \<Longrightarrow> vsize v = 1"
  by (simp add: vsize_def)

lemma vsize_sq_eq_0_iff: "vsize_sq v = 0 \<longleftrightarrow> v = zero_vec"
proof (cases v)
  case (Vec x y z)
  have "x * x + y * y + z * z = 0 \<longleftrightarrow> x = 0 \<and> y = 0 \<and> z = 0"
    by (smt (verit) mult_nonneg_nonneg mult_nonpos_nonpos mult_eq_0_iff)
  with Vec show ?thesis by (simp add: zero_vec_def)
qed

text \<open>A fixed point of a step function stays fixed under any number of steps.\<close>

lemma funpow_fixed: "f x = x \<Longrightarrow> (f ^^ k) x = x"
  by (induction k) simp_all

lemma option_case_None_eq [simp]: "(case x of None \<Rightarrow> a | Some y \<Rightarrow> a) = a"
  by (cases x) simp_all

end
