(* ===== verification/Engine_Math.thy ===== *)
theory Engine_Math
  imports Prelude
begin

text \<open>
  The engine math routines that \<open>PhysicsPropComponent.cpp\<close> calls: \<open>FMath::Clamp\<close>,
  \<open>FVector::GetSafeNormal\<close>, \<open>FMath::VInterpTo\<close>, \<open>FMath::RInterpTo\<close> with the
  \<open>FRotator\<close> axis normalisation, \<open>FRotator::Vector\<close>,
  \<open>FMath::GetMappedRangeValueClamped\<close> and \<open>FMath::RandRange\<close>. They are engine code,
  not part of the repository, and are written after the engine's definitions with the
  engine's tolerance constants (\<open>SMALL_NUMBER = 1e-8\<close>, \<open>KINDA_SMALL_NUMBER = 1e-4\<close>).
  A random draw \<open>FMath::FRand()\<close> is a parameter \<open>r\<close> with \<open>0 \<le> r \<le> 1\<close>.
  The lemmas are the bounds the component's properties rest on.
\<close>

section \<open>Definitions\<close>

definition small_number :: real where
  "small_number = 1 / 100000000"

definition kinda_small_number :: real where
  "kinda_small_number = 1 / 10000"

text \<open>\<open>FMath::Clamp(X, Min, Max)\<close>: \<open>X < Min ? Min : X < Max ? X : Max\<close>.\<close>

definition fclamp :: "real \<Rightarrow> real \<Rightarrow> real \<Rightarrow> real" where
  "fclamp x lo hi = (if x < lo then lo else if x < hi then x else hi)"

text \<open>\<open>FVector::GetSafeNormal()\<close>: the unit vector, the zero vector when the squared
  length is below the tolerance, the vector itself when it is already unit.\<close>

definition get_safe_normal :: "vec \<Rightarrow> vec" where
  "get_safe_normal v =
     (let sq = vsize_sq v in
      if sq = 1 then v
      else if sq < small_number then zero_vec
      else vscale (1 / sqrt sq) v)"

text \<open>\<open>FMath::VInterpTo(Current, Target, DeltaTime, InterpSpeed)\<close>.\<close>

definition vinterp_to :: "vec \<Rightarrow> vec \<Rightarrow> real \<Rightarrow> real \<Rightarrow> vec" where
  "vinterp_to cur tgt dt speed =
     (if speed \<le> 0 then tgt
      else let dist = vsub tgt cur in
        if vsize_sq dist < kinda_small_number then tgt
        else vadd cur (vscale (fclamp (dt * speed) 0 1) dist))"

subsection \<open>FRotator\<close>

datatype rot = Rot (pitch: real) (yaw: real) (roll: real)

text \<open>C's \<open>fmod\<close>: the remainder of the division truncated towards zero.\<close>

definition fmod :: "real \<Rightarrow> real \<Rightarrow> real" where
  "fmod a b = (if 0 \<le> a / b then a - b * of_int \<lfloor>a / b\<rfloor> else a - b * of_int \<lceil>a / b\<rceil>)"

text \<open>\<open>FRotator::ClampAxis\<close> into \<open>[0, 360)\<close> and \<open>FRotator::NormalizeAxis\<close>
  into \<open>(-180, 180]\<close>.\<close>

definition clamp_axis :: "real \<Rightarrow> real" where
  "clamp_axis a = (let m = fmod a 360 in if m < 0 then m + 360 else m)"

definition normalize_axis :: "real \<Rightarrow> real" where
  "normalize_axis a = (let c = clamp_axis a in if 180 < c then c - 360 else c)"

fun rot_normalized :: "rot \<Rightarrow> rot" where
  "rot_normalized (Rot p y r) = Rot (normalize_axis p) (normalize_axis y) (normalize_axis r)"

fun rot_sub :: "rot \<Rightarrow> rot \<Rightarrow> rot" where
  "rot_sub (Rot a b c) (Rot p y r) = Rot (a - p) (b - y) (c - r)"

fun rot_add :: "rot \<Rightarrow> rot \<Rightarrow> rot" where
  "rot_add (Rot a b c) (Rot p y r) = Rot (a + p) (b + y) (c + r)"

fun rot_scale :: "real \<Rightarrow> rot \<Rightarrow> rot" where
  "rot_scale k (Rot p y r) = Rot (k * p) (k * y) (k * r)"

text \<open>\<open>FRotator::IsNearlyZero(KINDA_SMALL_NUMBER)\<close>.\<close>

fun rot_nearly_zero :: "rot \<Rightarrow> bool" where
  "rot_nearly_zero (Rot p y r) =
     (\<bar>normalize_axis p\<bar> \<le> kinda_small_number \<and> \<bar>normalize_axis y\<bar> \<le> kinda_small_number
      \<and> \<bar>normalize_axis r\<bar> \<le> kinda_small_number)"

text \<open>\<open>FMath::RInterpTo(Current, Target, DeltaTime, InterpSpeed)\<close>.\<close>

definition rinterp_to :: "rot \<Rightarrow> rot \<Rightarrow> real \<Rightarrow> real \<Rightarrow> rot" where
  "rinterp_to cur tgt dt speed =
     (if dt = 0 \<or> cur = tgt then cur
      else if speed \<le> 0 then tgt
      else let delta = rot_normalized (rot_sub tgt cur) in
        if rot_nearly_zero delta then tgt
        else rot_normalized (rot_add cur (rot_scale (fclamp (speed * dt) 0 1) delta)))"

text \<open>\<open>FRotator::Vector()\<close>: the unit direction of a rotation given in degrees.\<close>

fun rot_vector :: "rot \<Rightarrow> vec" where
  "rot_vector (Rot p y r) =
     (let cp = cos (p * pi / 180); sp = sin (p * pi / 180);
          cy = cos (y * pi / 180); sy = sin (y * pi / 180)
      in Vec (cp * cy) (cp * sy) sp)"

subsection \<open>Ranges and random draws\<close>

text \<open>\<open>FMath::GetRangePct\<close> (with the engine's guard against an empty range),
  \<open>FMath::Lerp\<close> and \<open>FMath::GetMappedRangeValueClamped\<close>.\<close>

definition get_range_pct :: "real \<Rightarrow> real \<Rightarrow> real \<Rightarrow> real" where
  "get_range_pct lo hi x =
     (let d = hi - lo in
      if \<bar>d\<bar> \<le> small_number then (if hi \<le> x then 1 else 0) else (x - lo) / d)"

definition lerp :: "real \<Rightarrow> real \<Rightarrow> real \<Rightarrow> real" where
  "lerp a b alpha = a + alpha * (b - a)"

definition mapped_range_clamped :: "real \<times> real \<Rightarrow> real \<times> real \<Rightarrow> real \<Rightarrow> real" where
  "mapped_range_clamped inr outr x =
     lerp (fst outr) (snd outr) (fclamp (get_range_pct (fst inr) (snd inr) x) 0 1)"

text \<open>\<open>FMath::RandRange(Min, Max) = Min + (Max - Min) * FRand()\<close>, the draw given as \<open>r\<close>.\<close>

definition rand_range :: "real \<Rightarrow> real \<Rightarrow> real \<Rightarrow> real" where
  "rand_range lo hi r = lo + (hi - lo) * r"

section \<open>Lemmas\<close>

lemma fclamp_bounds: "lo \<le> hi \<Longrightarrow> lo \<le> fclamp x lo hi \<and> fclamp x lo hi \<le> hi"
  by (simp add: fclamp_def)

lemma fclamp_id: "lo \<le> x \<Longrightarrow> x \<le> hi \<Longrightarrow> x < hi \<or> x = hi \<Longrightarrow> fclamp x lo hi = x"
  by (auto simp: fclamp_def)

lemma fclamp_unit [simp]: "0 \<le> fclamp x 0 1" "fclamp x 0 1 \<le> 1"
  by (simp_all add: fclamp_def)

lemma fclamp_eq: "fclamp x lo hi = (if x < lo then lo else min x hi)"
  by (simp add: fclamp_def)

lemma get_safe_normal_unit:
  assumes "small_number \<le> vsize_sq v"
  shows "vsize_sq (get_safe_normal v) = 1"
proof -
  have pos: "0 < vsize_sq v"
    using assms by (simp add: small_number_def)
  have "vsize_sq (vscale (1 / sqrt (vsize_sq v)) v) = 1"
    using pos by (simp add: vsize_sq_scale)
  with assms show ?thesis
    by (simp add: get_safe_normal_def Let_def)
qed

lemma get_safe_normal_vsize:
  "small_number \<le> vsize_sq v \<Longrightarrow> vsize (get_safe_normal v) = 1"
  by (simp add: vsize_def get_safe_normal_unit)

lemma get_safe_normal_small:
  "vsize_sq v < small_number \<Longrightarrow> get_safe_normal v = zero_vec"
  by (auto simp: get_safe_normal_def Let_def small_number_def)

text \<open>One interpolation step moves along the segment towards the target and never
  overshoots it: the squared distance to the target does not grow.\<close>

lemma vinterp_to_closer: "vdist_sq (vinterp_to cur tgt dt speed) tgt \<le> vdist_sq cur tgt"
proof -
  define t where "t = fclamp (dt * speed) 0 1"
  have t: "0 \<le> t" "t \<le> 1" by (simp_all add: t_def)
  have "(1 - t) * (1 - t) \<le> 1"
    using t by (simp add: mult_le_one)
  then have "(1 - t) * (1 - t) * vdist_sq cur tgt \<le> vdist_sq cur tgt"
    using vdist_sq_nonneg [of cur tgt] by (simp add: mult_left_le_one_le)
  then show ?thesis
    by (auto simp: vinterp_to_def Let_def vdist_sq_vadd_vscale t_def)
qed

lemma vinterp_to_contracts:
  "vdist_sq (vinterp_to cur tgt dt speed) tgt \<le>
     (1 - fclamp (dt * speed) 0 1) * (1 - fclamp (dt * speed) 0 1) * vdist_sq cur tgt"
  using vdist_sq_nonneg [of cur tgt] mult_nonneg_nonneg [of "(1 - fclamp (dt * speed) 0 1) * (1 - fclamp (dt * speed) 0 1)" "vdist_sq cur tgt"]
  by (auto simp: vinterp_to_def Let_def vdist_sq_vadd_vscale)

lemma vinterp_to_snaps:
  "0 < speed \<Longrightarrow> vdist_sq cur tgt < kinda_small_number \<Longrightarrow> vinterp_to cur tgt dt speed = tgt"
  by (simp add: vinterp_to_def vdist_sq_def)

lemma vinterp_to_target [simp]: "vinterp_to tgt tgt dt speed = tgt"
  by (cases tgt) (simp add: vinterp_to_def kinda_small_number_def zero_vec_def)

lemma vinterp_to_iter_bound:
  "vdist_sq (((\<lambda>c. vinterp_to c tgt dt speed) ^^ n) cur) tgt \<le>
     ((1 - fclamp (dt * speed) 0 1) * (1 - fclamp (dt * speed) 0 1)) ^ n * vdist_sq cur tgt"
proof (induction n)
  case (Suc n)
  let ?q = "(1 - fclamp (dt * speed) 0 1) * (1 - fclamp (dt * speed) 0 1)"
  have "0 \<le> ?q" by simp
  then have "?q * vdist_sq (((\<lambda>c. vinterp_to c tgt dt speed) ^^ n) cur) tgt \<le> ?q * (?q ^ n * vdist_sq cur tgt)"
    using Suc.IH by (rule mult_left_mono [rotated])
  then show ?case
    using vinterp_to_contracts [of "((\<lambda>c. vinterp_to c tgt dt speed) ^^ n) cur" tgt dt speed]
    by (simp add: mult.assoc)
qed simp

text \<open>Repeated interpolation at a positive rate and time step reaches its target after
  finitely many steps: the distance shrinks geometrically until it falls below the
  snapping tolerance.\<close>

lemma vinterp_to_reaches:
  assumes "0 < speed" and "0 < dt"
  shows "\<exists>n. ((\<lambda>c. vinterp_to c tgt dt speed) ^^ n) cur = tgt"
proof -
  let ?f = "\<lambda>c. vinterp_to c tgt dt speed"
  define q where "q = (1 - fclamp (dt * speed) 0 1) * (1 - fclamp (dt * speed) 0 1)"
  have "0 < dt * speed" using assms by simp
  then have t: "0 < fclamp (dt * speed) 0 1" "fclamp (dt * speed) 0 1 \<le> 1"
    by (auto simp: fclamp_def)
  have "(1 - fclamp (dt * speed) 0 1) * (1 - fclamp (dt * speed) 0 1) \<le> 1 * (1 - fclamp (dt * speed) 0 1)"
    by (rule mult_right_mono) (use t in auto)
  then have "(1 - fclamp (dt * speed) 0 1) * (1 - fclamp (dt * speed) 0 1) \<le> 1 - fclamp (dt * speed) 0 1"
    by simp
  then have q: "q < 1"
    unfolding q_def using t by linarith
  obtain n where n: "q ^ n * vdist_sq cur tgt < kinda_small_number"
  proof (cases "vdist_sq cur tgt = 0")
    case True
    then show ?thesis using that [of 0] by (simp add: kinda_small_number_def)
  next
    case False
    then have d: "0 < vdist_sq cur tgt" using vdist_sq_nonneg [of cur tgt] by linarith
    obtain n where "q ^ n < kinda_small_number / vdist_sq cur tgt"
      using real_arch_pow_inv [OF _ q, of "kinda_small_number / vdist_sq cur tgt"] d
      by (auto simp: kinda_small_number_def)
    then show ?thesis using that [of n] d by (simp add: pos_less_divide_eq)
  qed
  then have "vdist_sq ((?f ^^ n) cur) tgt < kinda_small_number"
    using vinterp_to_iter_bound [where tgt = tgt and dt = dt and speed = speed and n = n and cur = cur] by (simp add: q_def)
  then have "?f ((?f ^^ n) cur) = tgt"
    by (rule vinterp_to_snaps [OF assms(1)])
  then have "(?f ^^ Suc n) cur = tgt"
    by (simp only: funpow.simps comp_def)
  then show ?thesis ..
qed

text \<open>Having reached its target, the interpolation stays there.\<close>

lemma vinterp_to_stays:
  assumes "0 < speed" and "0 < dt"
  shows "\<exists>n. \<forall>k. ((\<lambda>c. vinterp_to c tgt dt speed) ^^ (n + k)) cur = tgt"
proof -
  obtain n where "((\<lambda>c. vinterp_to c tgt dt speed) ^^ n) cur = tgt"
    using vinterp_to_reaches [OF assms] ..
  then have "\<forall>k. ((\<lambda>c. vinterp_to c tgt dt speed) ^^ (n + k)) cur = tgt"
    by (simp add: funpow_add add.commute [of n] funpow_fixed)
  then show ?thesis ..
qed

lemma mapped_range_clamped_bounds:
  assumes "a \<le> b"
  shows "a \<le> mapped_range_clamped inr (a, b) x \<and> mapped_range_clamped inr (a, b) x \<le> b"
proof -
  define t where "t = fclamp (get_range_pct (fst inr) (snd inr) x) 0 1"
  have t: "0 \<le> t" "t \<le> 1" by (simp_all add: t_def)
  have "a \<le> a + t * (b - a)" using t assms by simp
  moreover have "a + t * (b - a) \<le> b"
    using t assms mult_left_le_one_le [of "b - a" t] by simp
  ultimately show ?thesis
    by (simp add: mapped_range_clamped_def lerp_def t_def)
qed

lemma rand_range_bounds:
  "lo \<le> hi \<Longrightarrow> 0 \<le> r \<Longrightarrow> r \<le> 1 \<Longrightarrow> lo \<le> rand_range lo hi r \<and> rand_range lo hi r \<le> hi"
  using mult_left_le_one_le [of "hi - lo" r] by (simp add: rand_range_def mult.commute)

end
