(* ===== verification/Host.thy ===== *)
theory Host
  imports Engine_Math
begin

text \<open>
  The host the component runs in: the state of the engine objects it reads and
  mutates, and the calls it makes on them. Every handler of the component is modelled
  as a function that reads the host state and returns the list of calls it makes, in
  the order the source makes them; \<open>apply_calls\<close> gives the effect of such a list on
  the host. The engine is not part of the repository: the effect of each call is the
  documented meaning of the engine function (a flag set, a field written, a delegate
  bound, an actor destroyed), and rigid-body dynamics (what an impulse does to the
  velocity) is outside the model, so impulses and sounds are effects visible only in
  the call list.
\<close>

section \<open>Host state\<close>

datatype delegate = OnSleep | OnWake | OnHit | OnAnyDamage | OnPointDamage | OnRadialDamage

text \<open>A \<open>UStaticMeshComponent\<close> with its \<open>FBodyInstance\<close>.\<close>

record mesh =
  m_simulating :: bool
  m_awake :: bool
  m_use_ccd :: bool
  m_notify_hit :: bool
  m_overlap_events :: bool
  m_sleep_sensitive :: bool
  m_linear_damping :: real
  m_angular_damping :: real
  m_tick_interval :: real
  m_velocity :: vec
  m_location :: vec
  m_mass :: real
  m_has_body :: bool
  m_ignored :: "actor set"
  m_bindings :: "delegate set"

text \<open>What the component reads of a holder \<open>USceneComponent\<close> and of its owning actor.\<close>

record holder_info =
  h_location :: vec
  h_forward :: vec
  h_rotation :: rot
  h_owner :: "actor option"
  h_owner_is_pawn :: bool
  h_owner_velocity :: vec

text \<open>The owning actor, the component's own tick flag, the world (time, first player
  view point, sweep query, timer manager) and the holders.\<close>

record host =
  meshes :: "mesh_id \<Rightarrow> mesh"
  owner :: actor
  owner_location :: vec
  owner_rotation :: rot
  owner_static_mesh :: "mesh_id option"
  owner_authority :: bool
  owner_alive :: bool
  owner_bindings :: "delegate set"
  actor_tick :: bool
  comp_tick :: bool
  replicate_movement :: bool
  move_ignores :: "(actor \<times> actor) set"
  holders :: "holder_id \<Rightarrow> holder_info"
  first_view :: "vec option"
  world_time :: real
  delta_seconds :: real
  sweep :: "vec \<Rightarrow> vec \<Rightarrow> real \<Rightarrow> actor set \<Rightarrow> (vec \<times> vec) option"
  timer :: "(real \<times> bool) option"

section \<open>Calls\<close>

datatype falloff = RIF_Constant | RIF_Linear

datatype mesh_op =
    SetSimulatePhysics bool
  | SetNotifyRigidBodyCollision bool
  | SetGenerateOverlapEvents bool
  | SetSleepFamilySensitive
  | SetLinearDamping real
  | SetAngularDamping real
  | SetUseCCD bool
  | SetComponentTickInterval real
  | WakeAllRigidBodies
  | PutAllRigidBodiesToSleep
  | SetPhysicsLinearVelocity vec
  | AddImpulse vec bool
  | AddImpulseAtLocation vec vec bone
  | AddRadialImpulse vec real real falloff bool
  | IgnoreActorWhenMoving actor bool
  | BindMesh delegate

datatype ecall =
    MeshCall mesh_id mesh_op
  | SetActorTickEnabled bool
  | SetComponentTickEnabled bool
  | SetReplicateMovement bool
  | DestroyOwner
  | SetTimer real bool
  | BindOwner delegate
  | MoveIgnoreActorAdd actor actor
  | MoveIgnoreActorRemove actor actor
  | PlaySoundAtLocation sound_id vec real real
  | SetActorLocationAndRotation vec rot bool

section \<open>Effect of a call\<close>

fun apply_mesh_op :: "mesh \<Rightarrow> mesh_op \<Rightarrow> mesh" where
  "apply_mesh_op m (SetSimulatePhysics b) = m\<lparr>m_simulating := b\<rparr>"
| "apply_mesh_op m (SetNotifyRigidBodyCollision b) = m\<lparr>m_notify_hit := b\<rparr>"
| "apply_mesh_op m (SetGenerateOverlapEvents b) = m\<lparr>m_overlap_events := b\<rparr>"
| "apply_mesh_op m SetSleepFamilySensitive = m\<lparr>m_sleep_sensitive := True\<rparr>"
| "apply_mesh_op m (SetLinearDamping d) = m\<lparr>m_linear_damping := d\<rparr>"
| "apply_mesh_op m (SetAngularDamping d) = m\<lparr>m_angular_damping := d\<rparr>"
| "apply_mesh_op m (SetUseCCD b) = m\<lparr>m_use_ccd := b\<rparr>"
| "apply_mesh_op m (SetComponentTickInterval t) = m\<lparr>m_tick_interval := t\<rparr>"
| "apply_mesh_op m WakeAllRigidBodies = m\<lparr>m_awake := True\<rparr>"
| "apply_mesh_op m PutAllRigidBodiesToSleep = m\<lparr>m_awake := False\<rparr>"
| "apply_mesh_op m (SetPhysicsLinearVelocity v) = m\<lparr>m_velocity := v\<rparr>"
| "apply_mesh_op m (AddImpulse i vc) = m"
| "apply_mesh_op m (AddImpulseAtLocation i l b) = m"
| "apply_mesh_op m (AddRadialImpulse org r s f vc) = m"
| "apply_mesh_op m (IgnoreActorWhenMoving a b) =
     m\<lparr>m_ignored := (if b then insert a (m_ignored m) else m_ignored m - {a})\<rparr>"
| "apply_mesh_op m (BindMesh d) = m\<lparr>m_bindings := insert d (m_bindings m)\<rparr>"

text \<open>\<open>FTimerManager::SetTimer\<close> first clears the timer the handle names and starts a new
  one only for a positive rate; for a rate \<open>\<le> 0\<close> the handle is left invalid.\<close>

fun apply_call :: "host \<Rightarrow> ecall \<Rightarrow> host" where
  "apply_call h (MeshCall mi op) = h\<lparr>meshes := (meshes h)(mi := apply_mesh_op (meshes h mi) op)\<rparr>"
| "apply_call h (SetActorTickEnabled b) = h\<lparr>actor_tick := b\<rparr>"
| "apply_call h (SetComponentTickEnabled b) = h\<lparr>comp_tick := b\<rparr>"
| "apply_call h (SetReplicateMovement b) = h\<lparr>replicate_movement := b\<rparr>"
| "apply_call h DestroyOwner = h\<lparr>owner_alive := False\<rparr>"
| "apply_call h (SetTimer p l) = h\<lparr>timer := (if 0 < p then Some (p, l) else None)\<rparr>"
| "apply_call h (BindOwner d) = h\<lparr>owner_bindings := insert d (owner_bindings h)\<rparr>"
| "apply_call h (MoveIgnoreActorAdd p a) = h\<lparr>move_ignores := insert (p, a) (move_ignores h)\<rparr>"
| "apply_call h (MoveIgnoreActorRemove p a) = h\<lparr>move_ignores := move_ignores h - {(p, a)}\<rparr>"
| "apply_call h (PlaySoundAtLocation s l v p) = h"
| "apply_call h (SetActorLocationAndRotation l r sw) = h\<lparr>owner_location := l, owner_rotation := r\<rparr>"

definition apply_calls :: "host \<Rightarrow> ecall list \<Rightarrow> host" where
  "apply_calls h cs = foldl apply_call h cs"

text \<open>The calls of a list that act on one mesh, in order.\<close>

fun mesh_ops :: "mesh_id \<Rightarrow> ecall list \<Rightarrow> mesh_op list" where
  "mesh_ops mi [] = []"
| "mesh_ops mi (MeshCall mj op # cs) = (if mi = mj then op # mesh_ops mi cs else mesh_ops mi cs)"
| "mesh_ops mi (c # cs) = mesh_ops mi cs"

text \<open>A host at rest, from which the concrete instances of the properties start: one
  simulating, awake mesh of unit mass at the origin, a holder at the origin facing
  \<open>+X\<close> with no owner, no player view, no obstacle in any sweep.\<close>

definition idle_mesh :: mesh where
  "idle_mesh =
     \<lparr>m_simulating = True, m_awake = True, m_use_ccd = False, m_notify_hit = False,
      m_overlap_events = True, m_sleep_sensitive = False, m_linear_damping = 0,
      m_angular_damping = 0, m_tick_interval = 0, m_velocity = zero_vec,
      m_location = zero_vec, m_mass = 1, m_has_body = True, m_ignored = {},
      m_bindings = {}\<rparr>"

definition idle_holder :: holder_info where
  "idle_holder =
     \<lparr>h_location = zero_vec, h_forward = Vec 1 0 0, h_rotation = Rot 0 0 0, h_owner = None,
      h_owner_is_pawn = False, h_owner_velocity = zero_vec\<rparr>"

definition idle_host :: host where
  "idle_host =
     \<lparr>meshes = (\<lambda>_. idle_mesh), owner = 0, owner_location = zero_vec,
      owner_rotation = Rot 0 0 0, owner_static_mesh = None, owner_authority = True,
      owner_alive = True, owner_bindings = {}, actor_tick = True, comp_tick = False,
      replicate_movement = True, move_ignores = {}, holders = (\<lambda>_. idle_holder),
      first_view = None, world_time = 0, delta_seconds = 1 / 60,
      sweep = (\<lambda>_ _ _ _. None), timer = None\<rparr>"

lemmas idle_defs = idle_mesh_def idle_holder_def idle_host_def

lemma idle_mesh_fields [simp]:
  "m_simulating idle_mesh" "m_awake idle_mesh" "\<not> m_use_ccd idle_mesh" "m_has_body idle_mesh"
  "m_velocity idle_mesh = zero_vec" "m_location idle_mesh = zero_vec" "m_mass idle_mesh = 1"
  "m_tick_interval idle_mesh = 0" "m_ignored idle_mesh = {}"
  by (simp_all add: idle_mesh_def)

lemma idle_host_fields [simp]:
  "meshes idle_host = (\<lambda>_. idle_mesh)" "owner idle_host = 0" "holders idle_host = (\<lambda>_. idle_holder)"
  "owner_location idle_host = zero_vec" "owner_rotation idle_host = Rot 0 0 0"
  "owner_static_mesh idle_host = None" "owner_authority idle_host" "owner_alive idle_host"
  "move_ignores idle_host = {}" "first_view idle_host = None" "world_time idle_host = 0"
  "delta_seconds idle_host = 1 / 60" "sweep idle_host = (\<lambda>_ _ _ _. None)" "timer idle_host = None"
  by (simp_all add: idle_host_def)

section \<open>Lemmas\<close>

lemma apply_calls_Nil [simp]: "apply_calls h [] = h"
  by (simp add: apply_calls_def)

lemma apply_calls_Cons [simp]: "apply_calls h (c # cs) = apply_calls (apply_call h c) cs"
  by (simp add: apply_calls_def)

lemma apply_calls_append [simp]: "apply_calls h (cs @ ds) = apply_calls (apply_calls h cs) ds"
  by (simp add: apply_calls_def)

lemma mesh_ops_append [simp]: "mesh_ops mi (cs @ ds) = mesh_ops mi cs @ mesh_ops mi ds"
  by (induction mi cs rule: mesh_ops.induct) simp_all

text \<open>The state of one mesh after a list of calls is the state reached by the calls that
  name it: calls on other objects do not touch it.\<close>

lemma meshes_apply_calls:
  "meshes (apply_calls h cs) mi = foldl apply_mesh_op (meshes h mi) (mesh_ops mi cs)"
proof (induction cs arbitrary: h)
  case Nil
  then show ?case by simp
next
  case (Cons c cs)
  then show ?case by (cases c) auto
qed

lemma holders_apply_calls [simp]: "holders (apply_calls h cs) = holders h"
proof (induction cs arbitrary: h)
  case (Cons c cs)
  then show ?case by (cases c) auto
qed simp

lemma owner_apply_calls [simp]: "owner (apply_calls h cs) = owner h"
proof (induction cs arbitrary: h)
  case (Cons c cs)
  then show ?case by (cases c) auto
qed simp

lemma world_apply_calls [simp]:
  "first_view (apply_calls h cs) = first_view h"
  "world_time (apply_calls h cs) = world_time h"
  "delta_seconds (apply_calls h cs) = delta_seconds h"
  "owner_authority (apply_calls h cs) = owner_authority h"
  "owner_static_mesh (apply_calls h cs) = owner_static_mesh h"
proof (induction cs arbitrary: h)
  case (Cons c cs)
  { case 1 then show ?case using Cons.IH(1) by (cases c) auto }
  { case 2 then show ?case using Cons.IH(2) by (cases c) auto }
  { case 3 then show ?case using Cons.IH(3) by (cases c) auto }
  { case 4 then show ?case using Cons.IH(4) by (cases c) auto }
  { case 5 then show ?case using Cons.IH(5) by (cases c) auto }
qed simp_all

end
