(* ===== verification/Prop_Component.thy ===== *)
theory Prop_Component
  imports Host
begin

text \<open>
  The data of the repository: the fields of \<open>UPhysicsPropComponent\<close>
  (\<open>Public/PhysicsPropComponent.h\<close>) with the values its constructor and initialisers
  give them, the damage-type classes the damage handlers distinguish
  (\<open>Public/PhysicsPropDamageType.h\<close>; \<open>UGenericDamageType\<close> is included from outside the
  repository), and the impact sound table (\<open>Public/PropPhysicsImpactData.h\<close>).
\<close>

section \<open>Impact sound table\<close>

text \<open>\<open>FImpactSoundEntry\<close>: a sound (null when unset) and a volume multiplier.\<close>

record impact_sound_entry =
  impact_sound :: "sound_id option"
  volume_multiplier :: real

definition default_impact_sound_entry :: impact_sound_entry where
  "default_impact_sound_entry = \<lparr>impact_sound = None, volume_multiplier = 1\<rparr>"

text \<open>\<open>UPropPhysicsImpactData\<close>: \<open>TMap<UPhysicalMaterial*, FImpactSoundEntry>\<close>, whose
  key may be the null material, and the fallback entry.\<close>

record impact_data =
  impact_map :: "physmat_id option \<rightharpoonup> impact_sound_entry"
  default_sound :: impact_sound_entry

section \<open>Damage types\<close>

text \<open>
  The damage type a damage event carries, as the handlers see it through \<open>Cast<>\<close>:
  a \<open>UPhysicsPropDamageType\<close> with its \<open>ImpulsePower\<close> and \<open>bForceWake\<close>, a
  \<open>UGenericDamageType\<close> with its \<open>ImpulseModifier\<close>, or any other (or no) damage type.
\<close>

datatype damage_type =
    OtherDamageType
  | PhysicsPropDamageType (impulse_power: real) (force_wake: bool)
  | GenericDamageType (impulse_modifier: real)

definition physics_prop_damage_type_default :: damage_type where
  "physics_prop_damage_type_default = PhysicsPropDamageType 1000 True"

section \<open>The component\<close>

record prop_comp =
  physics_cull_distance :: real
  distance_check_interval :: real
  ccd_speed_threshold :: real
  impact_table :: "impact_data option"
  min_impact_threshold :: real
  impact_cooldown :: real
  managed_mesh :: "mesh_id option"
  last_impact_time :: real
  is_grabbed :: bool
  current_holder :: "holder_id option"
  hold_distance :: real

text \<open>The constructor and the member initialisers. The tick settings of the
  constructor (\<open>bCanEverTick\<close>, ticking disabled at start) are host state: the host
  starts with \<open>comp_tick = False\<close>.\<close>

definition new_prop :: prop_comp where
  "new_prop =
     \<lparr>physics_cull_distance = 3000, distance_check_interval = 1, ccd_speed_threshold = 500,
      impact_table = None, min_impact_threshold = 10000, impact_cooldown = 1 / 10,
      managed_mesh = None, last_impact_time = 0, is_grabbed = False, current_holder = None,
      hold_distance = 0\<rparr>"

lemma new_prop_fields [simp]:
  "physics_cull_distance new_prop = 3000" "distance_check_interval new_prop = 1"
  "ccd_speed_threshold new_prop = 500" "impact_table new_prop = None"
  "min_impact_threshold new_prop = 10000" "impact_cooldown new_prop = 1 / 10"
  "managed_mesh new_prop = None" "last_impact_time new_prop = 0" "is_grabbed new_prop = False"
  "current_holder new_prop = None" "hold_distance new_prop = 0"
  by (simp_all add: new_prop_def)

section \<open>Running a handler\<close>

text \<open>A handler reads the component and the host and returns the new component and the
  calls it makes; performing it applies the calls to the host.\<close>

definition perform :: "(prop_comp \<Rightarrow> host \<Rightarrow> prop_comp \<times> ecall list) \<Rightarrow> prop_comp \<times> host \<Rightarrow> prop_comp \<times> host" where
  "perform f s = (case f (fst s) (snd s) of (p', cs) \<Rightarrow> (p', apply_calls (snd s) cs))"

end
