(* ===== verification/Rotator.thy ===== *)
theory Rotator
  imports Engine_Math
begin

text \<open>
  The arithmetic of \<open>FRotator\<close> angles that the hold's rotation rests on.
  \<open>NormalizeAxis\<close> is the re-centred remainder modulo a whole turn: it picks the
  representative in \<open>(-180, 180]\<close>, is the identity there and does not see whole turns.
  From these, one \<open>RInterpTo\<close> step scales the normalised remaining angle on every axis
  by \<open>1 - Clamp(Speed * DeltaTime, 0, 1)\<close>: the rotation turns the short way round and
  never overshoots. Repeated steps at a positive rate and time step therefore reach the
  target rotation after finitely many steps, and stay there.
\<close>

section \<open>Axis normalisation\<close>

lemma clamp_axis_floor: "clamp_axis a = a - 360 * of_int \<lfloor>a / 360\<rfloor>"
proof (cases "0 \<le> a / 360")
  case True
  have "360 * of_int \<lfloor>a / 360\<rfloor> \<le> a"
    using of_int_floor_le [of "a / 360"] by simp
  with True show ?thesis by (simp add: clamp_axis_def fmod_def Let_def)
next
  case False
  have "a / 360 \<le> of_int \<lceil>a / 360\<rceil>" by (rule le_of_int_ceiling)
  then have le: "a \<le> 360 * of_int \<lceil>a / 360\<rceil>" by linarith
  show ?thesis
  proof (cases "a / 360 = of_int \<lfloor>a / 360\<rfloor>")
    case True
    then have "a = 360 * of_int \<lfloor>a / 360\<rfloor>" by simp
    with False True show ?thesis
      by (simp add: clamp_axis_def fmod_def Let_def ceiling_altdef)
  next
    case nint: False
    have "a \<noteq> 360 * of_int \<lceil>a / 360\<rceil>"
    proof
      assume "a = 360 * of_int \<lceil>a / 360\<rceil>"
      then have "a / 360 = of_int \<lceil>a / 360\<rceil>" by simp
      then have "\<lfloor>a / 360\<rfloor> = \<lceil>a / 360\<rceil>" by (metis floor_of_int)
      with \<open>a / 360 = _\<close> nint show False by simp
    qed
    with le have "a - 360 * of_int \<lceil>a / 360\<rceil> < 0" by simp
    with False nint show ?thesis
      by (simp add: clamp_axis_def fmod_def Let_def ceiling_altdef algebra_simps)
  qed
qed

lemma clamp_axis_range: "0 \<le> clamp_axis a \<and> clamp_axis a < 360"
proof -
  have "of_int \<lfloor>a / 360\<rfloor> \<le> a / 360" "a / 360 < of_int \<lfloor>a / 360\<rfloor> + 1"
    by (rule of_int_floor_le, rule real_of_int_floor_add_one_gt)
  then show ?thesis by (simp add: clamp_axis_floor field_simps)
qed

lemma normalize_axis_turns [simp]: "normalize_axis (a + 360 * of_int k) = normalize_axis a"
proof -
  have "(a + 360 * of_int k) / 360 = a / 360 + of_int k" by simp
  then have "\<lfloor>(a + 360 * of_int k) / 360\<rfloor> = \<lfloor>a / 360\<rfloor> + k"
    by (simp only: floor_add_int)
  then have "clamp_axis (a + 360 * of_int k) = clamp_axis a"
    by (simp add: clamp_axis_floor distrib_left)
  then show ?thesis
    by (simp only: normalize_axis_def)
qed

lemma normalize_axis_shift: "\<exists>k::int. normalize_axis a = a + 360 * of_int k"
proof -
  have "clamp_axis a = a + 360 * of_int (- \<lfloor>a / 360\<rfloor>)"
    by (simp add: clamp_axis_floor)
  show ?thesis
  proof (cases "180 < clamp_axis a")
    case True
    then have "normalize_axis a = a + 360 * of_int (- \<lfloor>a / 360\<rfloor>) - 360"
      using \<open>clamp_axis a = _\<close> by (simp add: normalize_axis_def)
    also have "\<dots> = a + 360 * of_int (- \<lfloor>a / 360\<rfloor> - 1)" by simp
    finally have "normalize_axis a = a + 360 * of_int (- \<lfloor>a / 360\<rfloor> - 1)" .
    then show ?thesis ..
  next
    case False
    then have "normalize_axis a = a + 360 * of_int (- \<lfloor>a / 360\<rfloor>)"
      using \<open>clamp_axis a = _\<close> by (simp add: normalize_axis_def)
    then show ?thesis ..
  qed
qed

lemma normalize_axis_range: "- 180 < normalize_axis a \<and> normalize_axis a \<le> 180"
  using clamp_axis_range [of a] by (auto simp: normalize_axis_def Let_def)

lemma normalize_axis_id: "- 180 < a \<Longrightarrow> a \<le> 180 \<Longrightarrow> normalize_axis a = a"
proof (cases "0 \<le> a")
  case True
  assume "a \<le> 180"
  with True have "\<lfloor>a / 360\<rfloor> = 0" by (simp add: floor_eq_iff)
  with \<open>a \<le> 180\<close> show ?thesis by (simp add: normalize_axis_def clamp_axis_floor)
next
  case False
  assume "- 180 < a"
  with False have "\<lfloor>a / 360\<rfloor> = -1" by (simp add: floor_eq_iff)
  with \<open>- 180 < a\<close> show ?thesis by (simp add: normalize_axis_def clamp_axis_floor)
qed

lemma normalize_axis_idem [simp]: "normalize_axis (normalize_axis a) = normalize_axis a"
  using normalize_axis_range [of a] by (simp add: normalize_axis_id)

text \<open>Subtracting a normalised angle is subtracting the angle, up to whole turns.\<close>

lemma normalize_axis_diff: "normalize_axis (t - normalize_axis c) = normalize_axis (t - c)"
proof -
  obtain k :: int where "normalize_axis c = c + 360 * of_int k"
    using normalize_axis_shift by blast
  then have "t - normalize_axis c = (t - c) + 360 * of_int (- k)" by simp
  then show ?thesis by (simp only: normalize_axis_turns)
qed

text \<open>Scaling a normalised angle by a factor in \<open>[0, 1]\<close> stays normalised.\<close>

lemma normalize_axis_scale:
  assumes "0 \<le> q" and "q \<le> 1"
  shows "normalize_axis (q * normalize_axis a) = q * normalize_axis a"
proof -
  let ?d = "normalize_axis a"
  have d: "- 180 < ?d" "?d \<le> 180" using normalize_axis_range [of a] by simp_all
  have "q * ?d \<le> 180"
    using d assms mult_left_le_one_le [of 180 q] mult_left_mono [of ?d 180 q] by linarith
  moreover have "- 180 < q * ?d"
  proof (cases "0 \<le> ?d")
    case True
    then have "0 \<le> q * ?d" using assms by simp
    then show ?thesis by linarith
  next
    case False
    then have "q * ?d \<ge> 1 * ?d" using assms by (intro mult_right_mono_neg) simp_all
    then show ?thesis using d by simp
  qed
  ultimately show ?thesis by (simp add: normalize_axis_id)
qed

text \<open>One step towards \<open>t\<close> by the fraction \<open>q\<close> of the normalised remaining angle
  leaves the fraction \<open>1 - q\<close> of it.\<close>

lemma normalize_axis_step:
  assumes "0 \<le> q" and "q \<le> 1"
  shows "normalize_axis (t - normalize_axis (c + q * normalize_axis (t - c))) =
    (1 - q) * normalize_axis (t - c)"
proof -
  obtain k :: int where k: "normalize_axis (t - c) = (t - c) + 360 * of_int k"
    using normalize_axis_shift by blast
  have "t - (c + q * normalize_axis (t - c)) = (1 - q) * normalize_axis (t - c) + 360 * of_int (- k)"
    using k by (simp add: algebra_simps)
  then have "normalize_axis (t - (c + q * normalize_axis (t - c))) = (1 - q) * normalize_axis (t - c)"
    using assms by (simp only: normalize_axis_turns normalize_axis_scale)
  then show ?thesis by (simp only: normalize_axis_diff)
qed

section \<open>RInterpTo\<close>

lemma rot_scale_one [simp]: "rot_scale 1 r = r"
  by (cases r) simp

lemma rinterp_to_target [simp]: "rinterp_to tgt tgt dt speed = tgt"
  by (simp add: rinterp_to_def)

lemma rinterp_delta_step:
  assumes "0 \<le> q" and "q \<le> 1"
  shows "rot_normalized (rot_sub t (rot_normalized (rot_add c (rot_scale q (rot_normalized (rot_sub t c)))))) =
    rot_scale (1 - q) (rot_normalized (rot_sub t c))"
  using normalize_axis_step [OF assms] by (cases t, cases c) simp

text \<open>An \<open>RInterpTo\<close> step either snaps to the target or scales the normalised remaining
  rotation by \<open>1 - Clamp(Speed * DeltaTime, 0, 1)\<close> (by 1 when the time step is zero).\<close>

lemma rinterp_to_step:
  "0 < speed \<Longrightarrow>
   rinterp_to c tgt dt speed = tgt \<or>
   rot_normalized (rot_sub tgt (rinterp_to c tgt dt speed)) =
     rot_scale (1 - fclamp (speed * dt) 0 1) (rot_normalized (rot_sub tgt c))"
  using rinterp_delta_step [of "fclamp (speed * dt) 0 1" tgt c]
  by (auto simp: rinterp_to_def Let_def fclamp_def)

lemma rinterp_to_iter:
  assumes "0 < speed"
  shows "((\<lambda>c. rinterp_to c tgt dt speed) ^^ n) c = tgt \<or>
    rot_normalized (rot_sub tgt (((\<lambda>c. rinterp_to c tgt dt speed) ^^ n) c)) =
      rot_scale ((1 - fclamp (speed * dt) 0 1) ^ n) (rot_normalized (rot_sub tgt c))"
proof (induction n)
  case 0
  show ?case by (cases tgt, cases c) simp
next
  case (Suc n)
  let ?f = "\<lambda>c. rinterp_to c tgt dt speed"
  let ?q = "1 - fclamp (speed * dt) 0 1"
  from Suc.IH show ?case
  proof
    assume "(?f ^^ n) c = tgt"
    then show ?thesis by simp
  next
    assume ih: "rot_normalized (rot_sub tgt ((?f ^^ n) c)) = rot_scale (?q ^ n) (rot_normalized (rot_sub tgt c))"
    have "rot_scale ?q (rot_scale (?q ^ n) (rot_normalized (rot_sub tgt c))) =
        rot_scale (?q ^ Suc n) (rot_normalized (rot_sub tgt c))"
      by (cases tgt, cases c) (simp add: mult.assoc)
    then show ?thesis
      using rinterp_to_step [OF assms, of "(?f ^^ n) c" tgt dt] ih by auto
  qed
qed

lemma rot_nearly_zero_scale:
  assumes "0 \<le> s" and "s \<le> 1" and "s * 180 \<le> kinda_small_number"
  shows "rot_nearly_zero (rot_scale s (rot_normalized r))"
proof -
  have ax: "\<bar>normalize_axis (s * normalize_axis a)\<bar> \<le> kinda_small_number" for a
  proof -
    have "\<bar>normalize_axis a\<bar> \<le> 180" using normalize_axis_range [of a] by linarith
    then have "s * \<bar>normalize_axis a\<bar> \<le> s * 180" using assms(1) by (rule mult_left_mono)
    then show ?thesis
      using assms by (simp add: normalize_axis_scale abs_mult)
  qed
  show ?thesis by (cases r) (simp add: ax)
qed

lemma rinterp_to_snaps:
  "dt \<noteq> 0 \<Longrightarrow> 0 < speed \<Longrightarrow> rot_nearly_zero (rot_normalized (rot_sub tgt c)) \<Longrightarrow>
   rinterp_to c tgt dt speed = tgt"
  by (simp add: rinterp_to_def)

text \<open>Repeated \<open>RInterpTo\<close> steps at a positive rate and time step reach the target
  rotation after finitely many steps and stay there: the normalised remaining angle
  (at most 180 degrees on each axis) shrinks geometrically until it is within the
  snapping tolerance.\<close>

lemma rinterp_to_reaches:
  assumes "0 < speed" and "0 < dt"
  shows "\<exists>n. \<forall>k. ((\<lambda>c. rinterp_to c tgt dt speed) ^^ (n + k)) cur = tgt"
proof -
  let ?f = "\<lambda>c. rinterp_to c tgt dt speed"
  define q where "q = 1 - fclamp (speed * dt) 0 1"
  have "0 < speed * dt" using assms by simp
  then have a: "0 < fclamp (speed * dt) 0 1" by (auto simp: fclamp_def)
  then have q: "0 \<le> q" "q < 1" by (simp_all add: q_def)
  obtain n where n: "q ^ n < kinda_small_number / 180"
    using real_arch_pow_inv [OF _ q(2), of "kinda_small_number / 180"]
    by (auto simp: kinda_small_number_def)
  have qn: "0 \<le> q ^ n" "q ^ n \<le> 1" "q ^ n * 180 \<le> kinda_small_number"
    using n q by (simp_all add: power_le_one)
  have "dt \<noteq> 0" using assms by simp
  have "?f ((?f ^^ n) cur) = tgt"
    using rinterp_to_iter [OF assms(1), where tgt = tgt and n = n and c = cur and dt = dt]
      rinterp_to_snaps [OF \<open>dt \<noteq> 0\<close> assms(1)] rot_nearly_zero_scale [OF qn]
    by (auto simp: q_def)
  then have "(?f ^^ Suc n) cur = tgt"
    by (simp only: funpow.simps comp_def)
  then have "\<forall>k. (?f ^^ (Suc n + k)) cur = tgt"
    by (simp only: funpow_add comp_def add.commute [of "Suc n"] funpow_fixed [of ?f tgt, OF rinterp_to_target]) simp
  then show ?thesis ..
qed

end
