(* ===== verification/Grab.thy ===== *)
theory Grab
  imports Prop_Component Rotator
begin

text \<open>
  The grab controller of \<open>UPhysicsPropComponent\<close> (\<open>Private/PhysicsPropComponent.cpp\<close>):
  \<open>Grab\<close>, \<open>Drop\<close>, \<open>Throw\<close> and \<open>UpdateGrabbedPosition\<close> with its anti-clipping sweep.
  Its state is the component's \<open>bIsGrabbed\<close>, \<open>CurrentHolder\<close> and \<open>HoldDistance\<close>;
  its effects are calls on the managed mesh, on the holder's pawn and on the owner.
  The lemmas give each operation's result on every branch, the clamping of the hold
  distance, the restoration by \<open>Drop\<close> of what \<open>Grab\<close> changed, \<open>Throw\<close> as \<open>Drop\<close>
  followed by one impulse, and the convergence of the per-tick repositioning.
\<close>

section \<open>Operations\<close>

text \<open>\<open>Grab(Holder)\<close>: guards on the holder and the mesh, then disables simulation,
  ignores the holder's owner (and makes a pawn owner ignore the prop's owner), stores
  the clamped hold distance and enables the component's tick.\<close>

definition grab :: "prop_comp \<Rightarrow> host \<Rightarrow> holder_id option \<Rightarrow> prop_comp \<times> ecall list" where
  "grab p h hopt =
     (case hopt of None \<Rightarrow> (p, [])
      | Some hid \<Rightarrow> (case managed_mesh p of None \<Rightarrow> (p, [])
        | Some mi \<Rightarrow>
            let hi = holders h hid;
                ignore = (case h_owner hi of None \<Rightarrow> []
                  | Some a \<Rightarrow> MeshCall mi (IgnoreActorWhenMoving a True) #
                      (if h_owner_is_pawn hi then [MoveIgnoreActorAdd a (owner h)] else []));
                d = vdist (h_location hi) (m_location (meshes h mi))
            in (p\<lparr>current_holder := Some hid, is_grabbed := True,
                  hold_distance := fclamp d 50 250\<rparr>,
                MeshCall mi (SetSimulatePhysics False) # ignore @ [SetComponentTickEnabled True])))"

text \<open>\<open>Drop()\<close>: guards on the grab state and the mesh, then re-enables simulation,
  hands the holder owner's velocity over, restores the collisions with it, wakes the
  body and clears the grab state.\<close>

definition drop_prop :: "prop_comp \<Rightarrow> host \<Rightarrow> prop_comp \<times> ecall list" where
  "drop_prop p h =
     (if \<not> is_grabbed p then (p, [])
      else case managed_mesh p of None \<Rightarrow> (p, [])
      | Some mi \<Rightarrow>
          let restore = (case current_holder p of None \<Rightarrow> []
                | Some hid \<Rightarrow> let hi = holders h hid in
                    (case h_owner hi of None \<Rightarrow> []
                     | Some a \<Rightarrow>
                        [MeshCall mi (SetPhysicsLinearVelocity (h_owner_velocity hi)),
                         MeshCall mi (IgnoreActorWhenMoving a False)] @
                        (if h_owner_is_pawn hi then [MoveIgnoreActorRemove a (owner h)] else [])))
          in (p\<lparr>is_grabbed := False, current_holder := None\<rparr>,
              MeshCall mi (SetSimulatePhysics True) # restore @ [MeshCall mi WakeAllRigidBodies]))"

text \<open>\<open>Throw(Direction, Force)\<close>: \<open>Drop()\<close>, then a velocity-change impulse of
  \<open>Direction.GetSafeNormal() * Force\<close>.\<close>

definition throw :: "prop_comp \<Rightarrow> host \<Rightarrow> vec \<Rightarrow> real \<Rightarrow> prop_comp \<times> ecall list" where
  "throw p h dir force =
     (if \<not> is_grabbed p then (p, [])
      else case managed_mesh p of None \<Rightarrow> (p, [])
      | Some mi \<Rightarrow> (case drop_prop p h of (p', cs) \<Rightarrow>
          (p', cs @ [MeshCall mi (AddImpulse (vscale force (get_safe_normal dir)) True)])))"

text \<open>The target of \<open>UpdateGrabbedPosition\<close>: \<open>HoldDistance\<close> ahead of the holder,
  pulled back to the sweep's hit location plus 12 units along the impact normal when a
  sphere of radius 10 swept from the holder (ignoring the prop's and the holder's
  owners) hits something.\<close>

definition grab_target :: "prop_comp \<Rightarrow> host \<Rightarrow> holder_id \<Rightarrow> vec" where
  "grab_target p h hid =
     (let hi = holders h hid;
          target = vadd (h_location hi) (vscale (hold_distance p) (h_forward hi));
          ignored = insert (owner h) (set_option (h_owner hi))
      in case sweep h (h_location hi) target 10 ignored of
           None \<Rightarrow> target
         | Some (loc, normal) \<Rightarrow> vadd loc (vscale 12 normal))"

text \<open>\<open>UpdateGrabbedPosition()\<close>: one interpolation step (speed 20, the world's delta
  time) of the owner's location and rotation towards the target, as a sweeping move.\<close>

definition update_grabbed_position :: "prop_comp \<Rightarrow> host \<Rightarrow> ecall list" where
  "update_grabbed_position p h =
     (case current_holder p of None \<Rightarrow> []
      | Some hid \<Rightarrow> (case managed_mesh p of None \<Rightarrow> []
        | Some mi \<Rightarrow>
            let tl = grab_target p h hid;
                tr = h_rotation (holders h hid);
                nl = vinterp_to (owner_location h) tl (delta_seconds h) 20;
                nr = rinterp_to (owner_rotation h) tr (delta_seconds h) 20
            in [SetActorLocationAndRotation nl nr True]))"

lemmas grab_defs [handler_defs] = grab_def drop_prop_def throw_def update_grabbed_position_def

section \<open>Lemmas\<close>

lemma grab_None_holder: "grab p h None = (p, [])"
  by (simp add: grab_def)

lemma grab_None_mesh: "managed_mesh p = None \<Longrightarrow> grab p h hopt = (p, [])"
  by (cases hopt) (simp_all add: grab_def)

lemma grab_Some:
  "managed_mesh p = Some mi \<Longrightarrow>
   grab p h (Some hid) =
     (p\<lparr>current_holder := Some hid, is_grabbed := True,
        hold_distance := fclamp (vdist (h_location (holders h hid)) (m_location (meshes h mi))) 50 250\<rparr>,
      MeshCall mi (SetSimulatePhysics False) #
      (case h_owner (holders h hid) of None \<Rightarrow> []
       | Some a \<Rightarrow> MeshCall mi (IgnoreActorWhenMoving a True) #
           (if h_owner_is_pawn (holders h hid) then [MoveIgnoreActorAdd a (owner h)] else []))
      @ [SetComponentTickEnabled True])"
  by (simp add: grab_def Let_def)

lemma drop_not_grabbed: "\<not> is_grabbed p \<Longrightarrow> drop_prop p h = (p, [])"
  by (simp add: drop_prop_def)

lemma throw_not_grabbed: "\<not> is_grabbed p \<Longrightarrow> throw p h dir force = (p, [])"
  by (simp add: throw_def)

lemma fst_drop:
  "is_grabbed p \<Longrightarrow> managed_mesh p = Some mi \<Longrightarrow>
   fst (drop_prop p h) = p\<lparr>is_grabbed := False, current_holder := None\<rparr>"
  by (simp add: drop_prop_def Let_def)


section \<open>Properties\<close>

text \<open>C3: Grab with a holder on a physicalised prop stores as hold distance the holder-to-mesh distance clamped by FMath::Clamp into [50, 250]; whatever the separation, the stored distance lies in [50, 250] (separations 10, 150, 10000 give 50, 150, 250).\<close>

lemma grab_hold_distance_clamped:
  "managed_mesh p = Some mi \<Longrightarrow>
   hold_distance (fst (grab p h (Some hid))) =
     fclamp (vdist (h_location (holders h hid)) (m_location (meshes h mi))) 50 250 \<and>
   50 \<le> hold_distance (fst (grab p h (Some hid))) \<and> hold_distance (fst (grab p h (Some hid))) \<le> 250"
  by (simp add: grab_Some fclamp_bounds)

lemma grab_hold_distance_clamped_witness:
  "managed_mesh (new_prop\<lparr>managed_mesh := Some 0\<rparr>) = Some 0 \<and>
   hold_distance (fst (grab (new_prop\<lparr>managed_mesh := Some 0\<rparr>)
     (idle_host\<lparr>meshes := (\<lambda>_. idle_mesh\<lparr>m_location := Vec 10 0 0\<rparr>)\<rparr>) (Some 0))) = 50 \<and>
   hold_distance (fst (grab (new_prop\<lparr>managed_mesh := Some 0\<rparr>)
     (idle_host\<lparr>meshes := (\<lambda>_. idle_mesh\<lparr>m_location := Vec 150 0 0\<rparr>)\<rparr>) (Some 0))) = 150 \<and>
   hold_distance (fst (grab (new_prop\<lparr>managed_mesh := Some 0\<rparr>)
     (idle_host\<lparr>meshes := (\<lambda>_. idle_mesh\<lparr>m_location := Vec 10000 0 0\<rparr>)\<rparr>) (Some 0))) = 250"
  using grab_hold_distance_clamped [of "new_prop\<lparr>managed_mesh := Some 0\<rparr>" 0]
  by (simp add: new_prop_def idle_defs vec_simps fclamp_def)

text \<open>C4: Grab followed by Drop, with no movement in between, leaves the prop not grabbed with no holder, the body simulating and awake, and the mesh ignore list and the pawn ignore list as they were before the grab.\<close>

lemma grab_drop_restores:
  assumes "managed_mesh p = Some mi"
    and "\<forall>a\<in>set_option (h_owner (holders h hid)).
           a \<notin> m_ignored (meshes h mi) \<and> (a, owner h) \<notin> move_ignores h"
    and "perform drop_prop (perform (\<lambda>p h. grab p h (Some hid)) (p, h)) = (p2, h2)"
  shows "\<not> is_grabbed p2 \<and> current_holder p2 = None \<and>
    m_simulating (meshes h2 mi) \<and> m_awake (meshes h2 mi) \<and>
    m_ignored (meshes h2 mi) = m_ignored (meshes h mi) \<and> move_ignores h2 = move_ignores h"
  using assms
  by (cases "h_owner (holders h hid)"; cases "h_owner_is_pawn (holders h hid)")
     (auto simp: perform_def grab_Some drop_prop_def Let_def)

lemma grab_drop_restores_witness:
  "managed_mesh (new_prop\<lparr>managed_mesh := Some 0\<rparr>) = Some 0 \<and>
   h_owner (holders (idle_host\<lparr>holders := (\<lambda>_. idle_holder\<lparr>h_owner := Some 7, h_owner_is_pawn := True\<rparr>)\<rparr>) 0) = Some 7 \<and>
   7 \<notin> m_ignored (meshes (idle_host\<lparr>holders := (\<lambda>_. idle_holder\<lparr>h_owner := Some 7, h_owner_is_pawn := True\<rparr>)\<rparr>) 0) \<and>
   (7, owner (idle_host\<lparr>holders := (\<lambda>_. idle_holder\<lparr>h_owner := Some 7, h_owner_is_pawn := True\<rparr>)\<rparr>)) \<notin>
     move_ignores (idle_host\<lparr>holders := (\<lambda>_. idle_holder\<lparr>h_owner := Some 7, h_owner_is_pawn := True\<rparr>)\<rparr>) \<and>
   (let s = perform drop_prop (perform (\<lambda>p h. grab p h (Some 0))
              (new_prop\<lparr>managed_mesh := Some 0\<rparr>,
               idle_host\<lparr>holders := (\<lambda>_. idle_holder\<lparr>h_owner := Some 7, h_owner_is_pawn := True\<rparr>)\<rparr>))
    in \<not> is_grabbed (fst s) \<and> m_simulating (meshes (snd s) 0) \<and> m_ignored (meshes (snd s) 0) = {}
       \<and> move_ignores (snd s) = {})"
proof -
  let ?p = "new_prop\<lparr>managed_mesh := Some 0\<rparr>"
  let ?h = "idle_host\<lparr>holders := (\<lambda>_. idle_holder\<lparr>h_owner := Some 7, h_owner_is_pawn := True\<rparr>)\<rparr>"
  let ?s = "perform drop_prop (perform (\<lambda>p h. grab p h (Some 0)) (?p, ?h))"
  have m: "managed_mesh ?p = Some 0" by simp
  have o: "\<forall>a\<in>set_option (h_owner (holders ?h 0)).
      a \<notin> m_ignored (meshes ?h 0) \<and> (a, owner ?h) \<notin> move_ignores ?h"
    by (simp add: idle_defs)
  have "?s = (fst ?s, snd ?s)" by simp
  from grab_drop_restores [OF m o this] m show ?thesis
    by (simp add: Let_def idle_defs)
qed

text \<open>C7: Throw on a held prop is Drop followed by exactly one velocity-change impulse of GetSafeNormal(Direction) * Force, whose magnitude is |Force| whenever the direction is not degenerate.\<close>

lemma throw_is_drop_then_impulse:
  "is_grabbed p \<Longrightarrow> managed_mesh p = Some mi \<Longrightarrow>
   throw p h dir force =
     (fst (drop_prop p h),
      snd (drop_prop p h) @ [MeshCall mi (AddImpulse (vscale force (get_safe_normal dir)) True)]) \<and>
   (small_number \<le> vsize_sq dir \<longrightarrow> vsize (vscale force (get_safe_normal dir)) = \<bar>force\<bar>)"
  by (auto simp: throw_def vsize_scale get_safe_normal_vsize split: prod.split)

lemma throw_is_drop_then_impulse_witness:
  "is_grabbed (new_prop\<lparr>managed_mesh := Some 0, is_grabbed := True\<rparr>) \<and>
   managed_mesh (new_prop\<lparr>managed_mesh := Some 0, is_grabbed := True\<rparr>) = Some 0 \<and>
   snd (throw (new_prop\<lparr>managed_mesh := Some 0, is_grabbed := True\<rparr>) idle_host (Vec 0 3 4) 700) =
     [MeshCall 0 (SetSimulatePhysics True), MeshCall 0 WakeAllRigidBodies,
      MeshCall 0 (AddImpulse (Vec 0 420 560) True)] \<and>
   vsize (Vec 0 420 560) = 700"
proof -
  have "vsize_sq (Vec 0 3 4) = 25" by simp
  then have n: "get_safe_normal (Vec 0 3 4) = Vec 0 (3/5) (4/5)"
    by (simp add: get_safe_normal_def small_number_def)
  have "small_number \<le> vsize_sq (Vec 0 3 4)" by (simp add: small_number_def)
  with throw_is_drop_then_impulse [of "new_prop\<lparr>managed_mesh := Some 0, is_grabbed := True\<rparr>" 0
      idle_host "Vec 0 3 4" 700] n
  show ?thesis by (simp add: drop_prop_def Let_def new_prop_def)
qed

text \<open>C31: Grab does not check bIsGrabbed: grabbing again with a second holder and then dropping restores collisions only with the second holder owner; the first holder owner stays in the mesh ignore list (and in the pawn ignore list) for good.\<close>

lemma regrab_keeps_first_holder_ignored:
  assumes "managed_mesh p = Some mi"
    and "h_owner (holders h h1) = Some a1" and "h_owner (holders h h2) = Some a2" and "a1 \<noteq> a2"
    and "perform drop_prop (perform (\<lambda>p h. grab p h (Some h2))
           (perform (\<lambda>p h. grab p h (Some h1)) (p, h))) = (p3, h3)"
  shows "\<not> is_grabbed p3 \<and> a1 \<in> m_ignored (meshes h3 mi) \<and>
    (h_owner_is_pawn (holders h h1) \<longrightarrow> (a1, owner h) \<in> move_ignores h3)"
  using assms
  by (cases "h_owner_is_pawn (holders h h1)"; cases "h_owner_is_pawn (holders h h2)")
     (auto simp: perform_def grab_Some drop_prop_def Let_def)

lemma regrab_keeps_first_holder_ignored_witness:
  "managed_mesh (new_prop\<lparr>managed_mesh := Some 0\<rparr>) = Some 0 \<and>
   h_owner (holders (idle_host\<lparr>holders := (\<lambda>i. idle_holder\<lparr>h_owner := Some (i + 5), h_owner_is_pawn := True\<rparr>)\<rparr>) 1) = Some 6 \<and>
   h_owner (holders (idle_host\<lparr>holders := (\<lambda>i. idle_holder\<lparr>h_owner := Some (i + 5), h_owner_is_pawn := True\<rparr>)\<rparr>) 2) = Some 7 \<and>
   (6::nat) \<noteq> 7 \<and>
   (let s = perform drop_prop (perform (\<lambda>p h. grab p h (Some 2)) (perform (\<lambda>p h. grab p h (Some 1))
        (new_prop\<lparr>managed_mesh := Some 0\<rparr>,
         idle_host\<lparr>holders := (\<lambda>i. idle_holder\<lparr>h_owner := Some (i + 5), h_owner_is_pawn := True\<rparr>)\<rparr>)))
    in \<not> is_grabbed (fst s) \<and> 6 \<in> m_ignored (meshes (snd s) 0) \<and> (6, 0) \<in> move_ignores (snd s))"
proof -
  let ?p = "new_prop\<lparr>managed_mesh := Some 0\<rparr>"
  let ?h = "idle_host\<lparr>holders := (\<lambda>i. idle_holder\<lparr>h_owner := Some (i + 5), h_owner_is_pawn := True\<rparr>)\<rparr>"
  let ?s = "perform drop_prop (perform (\<lambda>p h. grab p h (Some 2)) (perform (\<lambda>p h. grab p h (Some 1)) (?p, ?h)))"
  have m: "managed_mesh ?p = Some 0" by simp
  have a1: "h_owner (holders ?h 1) = Some 6" and a2: "h_owner (holders ?h 2) = Some 7"
    by (simp_all add: idle_defs)
  have "?s = (fst ?s, snd ?s)" by simp
  from regrab_keeps_first_holder_ignored [OF m a1 a2 _ this] m a1 a2 show ?thesis
    by (simp add: Let_def idle_defs)
qed

text \<open>C34: While held, UpdateGrabbedPosition issues exactly one sweeping move, whose location closes the gap to the (wall-clamped) target by the interpolation factor: the squared distance left is at most (1 - Clamp(20 * DeltaSeconds, 0, 1))^2 times the owner's, so the owner really moves towards the target (a frame of 1/20 s or more lands on it) and never overshoots.\<close>

lemma update_grabbed_position_converges:
  "current_holder p = Some hid \<Longrightarrow> managed_mesh p = Some mi \<Longrightarrow>
   \<exists>nl nr. update_grabbed_position p h = [SetActorLocationAndRotation nl nr True] \<and>
     vdist_sq nl (grab_target p h hid) \<le>
       (1 - fclamp (delta_seconds h * 20) 0 1) * (1 - fclamp (delta_seconds h * 20) 0 1) *
         vdist_sq (owner_location h) (grab_target p h hid)"
  by (simp add: update_grabbed_position_def Let_def vinterp_to_contracts)

lemma update_grabbed_position_converges_witness:
  "current_holder (new_prop\<lparr>managed_mesh := Some 0, current_holder := Some 0, hold_distance := 50\<rparr>) = Some 0 \<and>
   managed_mesh (new_prop\<lparr>managed_mesh := Some 0, current_holder := Some 0, hold_distance := 50\<rparr>) = Some 0 \<and>
   (\<exists>nl nr. update_grabbed_position (new_prop\<lparr>managed_mesh := Some 0, current_holder := Some 0, hold_distance := 50\<rparr>) idle_host
        = [SetActorLocationAndRotation nl nr True] \<and>
      vdist_sq nl (Vec 50 0 0) \<le> 4 / 9 * vdist_sq zero_vec (Vec 50 0 0))"
proof -
  have "grab_target (new_prop\<lparr>managed_mesh := Some 0, current_holder := Some 0, hold_distance := 50\<rparr>) idle_host 0 = Vec 50 0 0"
    by (simp add: grab_target_def idle_holder_def zero_vec_def)
  then show ?thesis
    using update_grabbed_position_converges [of "new_prop\<lparr>managed_mesh := Some 0, current_holder := Some 0, hold_distance := 50\<rparr>" 0 0 idle_host]
    by (simp add: fclamp_def)
qed

text \<open>C35: The grab controller operations are silent no-ops on their error paths: Grab with a null holder or without a managed mesh, Drop and Throw without a mesh or when not held change nothing and make no call.\<close>

lemma grab_controller_noops:
  "grab p h None = (p, []) \<and>
   (managed_mesh p = None \<longrightarrow>
      grab p h hopt = (p, []) \<and> drop_prop p h = (p, []) \<and> throw p h dir f = (p, [])) \<and>
   (\<not> is_grabbed p \<longrightarrow> drop_prop p h = (p, []) \<and> throw p h dir f = (p, []))"
  by (auto simp: grab_None_holder grab_None_mesh drop_prop_def throw_def)

lemma grab_controller_noops_witness:
  "managed_mesh new_prop = None \<and> \<not> is_grabbed new_prop \<and>
   grab new_prop idle_host (Some 0) = (new_prop, []) \<and> drop_prop new_prop idle_host = (new_prop, []) \<and>
   throw new_prop idle_host (Vec 1 0 0) 10 = (new_prop, [])"
  using grab_controller_noops [of new_prop idle_host "Some 0" "Vec 1 0 0" 10]
  by (simp add: new_prop_def)

text \<open>C36: While held, UpdateGrabbedPosition turns the owner towards the holder's rotation the short way round: it issues one sweeping move whose rotation either is the holder's rotation (RInterpTo snapped) or leaves on every axis the remaining angle, normalised into (-180, 180], scaled by 1 - Clamp(20 * DeltaSeconds, 0, 1); it never overshoots and never turns the long way.\<close>

lemma update_grabbed_position_turns:
  "current_holder p = Some hid \<Longrightarrow> managed_mesh p = Some mi \<Longrightarrow>
   \<exists>nl nr. update_grabbed_position p h = [SetActorLocationAndRotation nl nr True] \<and>
     (nr = h_rotation (holders h hid) \<or>
      rot_normalized (rot_sub (h_rotation (holders h hid)) nr) =
        rot_scale (1 - fclamp (20 * delta_seconds h) 0 1)
          (rot_normalized (rot_sub (h_rotation (holders h hid)) (owner_rotation h))))"
  using rinterp_to_step [of 20 "owner_rotation h" "h_rotation (holders h hid)" "delta_seconds h"]
  by (simp add: update_grabbed_position_def Let_def)

lemma update_grabbed_position_turns_witness:
  "current_holder (new_prop\<lparr>managed_mesh := Some 0, current_holder := Some 0\<rparr>) = Some 0 \<and>
   managed_mesh (new_prop\<lparr>managed_mesh := Some 0, current_holder := Some 0\<rparr>) = Some 0 \<and>
   (\<exists>nl nr. update_grabbed_position (new_prop\<lparr>managed_mesh := Some 0, current_holder := Some 0\<rparr>)
        (idle_host\<lparr>owner_rotation := Rot 0 (-170) 0, holders := (\<lambda>_. idle_holder\<lparr>h_rotation := Rot 0 170 0\<rparr>)\<rparr>)
        = [SetActorLocationAndRotation nl nr True] \<and>
      (nr = Rot 0 170 0 \<or>
       rot_normalized (rot_sub (Rot 0 170 0) nr) =
         rot_scale (1 - fclamp (20 * (1 / 60)) 0 1) (rot_normalized (rot_sub (Rot 0 170 0) (Rot 0 (-170) 0)))))"
  using update_grabbed_position_turns [of "new_prop\<lparr>managed_mesh := Some 0, current_holder := Some 0\<rparr>" 0 0
      "idle_host\<lparr>owner_rotation := Rot 0 (-170) 0, holders := (\<lambda>_. idle_holder\<lparr>h_rotation := Rot 0 170 0\<rparr>)\<rparr>"]
  by simp

end
