(* ===== verification/Tick.thy ===== *)
theory Tick
  imports Grab
begin

text \<open>
  \<open>UPhysicsPropComponent::TickComponent\<close>: the CCD gate (continuous collision detection
  is requested exactly when the squared speed exceeds the squared threshold, and the call
  is made only when the body's current flag differs) followed by the repositioning of a
  held prop. The lemmas show that the gate settles after one tick, that over any run of
  ticks the requests are exactly the changes of the wanted flag, and that the early
  return on a disabled CCD threshold also skips the grab repositioning.
\<close>

section \<open>The tick\<close>

definition want_ccd :: "prop_comp \<Rightarrow> vec \<Rightarrow> bool" where
  "want_ccd p v = (ccd_speed_threshold p * ccd_speed_threshold p < vsize_sq v)"

definition tick_component :: "prop_comp \<Rightarrow> host \<Rightarrow> real \<Rightarrow> ecall list" where
  "tick_component p h dt =
     (case managed_mesh p of None \<Rightarrow> []
      | Some mi \<Rightarrow>
          if ccd_speed_threshold p \<le> 0 then []
          else let m = meshes h mi;
                   should = want_ccd p (m_velocity m);
                   ccd = (if m_use_ccd m \<noteq> should then [MeshCall mi (SetUseCCD should)] else [])
               in ccd @ (if is_grabbed p \<and> current_holder p \<noteq> None
                         then update_grabbed_position p h else []))"

lemmas tick_defs [handler_defs] = tick_component_def want_ccd_def

section \<open>Runs of ticks\<close>

text \<open>The CCD requests in a list of mesh operations, in order.\<close>

fun ccd_requests :: "mesh_op list \<Rightarrow> bool list" where
  "ccd_requests [] = []"
| "ccd_requests (SetUseCCD b # os) = b # ccd_requests os"
| "ccd_requests (op # os) = ccd_requests os"

text \<open>The changes of a flag along a sequence of wanted values, starting from \<open>b\<close>.\<close>

fun changes :: "bool \<Rightarrow> bool list \<Rightarrow> bool list" where
  "changes b [] = []"
| "changes b (x # xs) = (if x \<noteq> b then [x] else []) @ changes x xs"

text \<open>A run of ticks in which the physics gives the body a new velocity before each
  tick: the host after the run and all the calls made.\<close>

fun tick_run :: "prop_comp \<Rightarrow> mesh_id \<Rightarrow> real \<Rightarrow> host \<Rightarrow> vec list \<Rightarrow> host \<times> ecall list" where
  "tick_run p mi dt h [] = (h, [])"
| "tick_run p mi dt h (v # vs) =
     (let h1 = h\<lparr>meshes := (meshes h)(mi := (meshes h mi)\<lparr>m_velocity := v\<rparr>)\<rparr>;
          cs = tick_component p h1 dt
      in case tick_run p mi dt (apply_calls h1 cs) vs of (h2, cs') \<Rightarrow> (h2, cs @ cs'))"

section \<open>Lemmas\<close>

lemma snd_tick_run_Cons:
  "snd (tick_run p mi dt h (v # vs)) =
     (let h1 = h\<lparr>meshes := (meshes h)(mi := (meshes h mi)\<lparr>m_velocity := v\<rparr>)\<rparr>
      in tick_component p h1 dt @ snd (tick_run p mi dt (apply_calls h1 (tick_component p h1 dt)) vs))"
  by (simp add: Let_def split: prod.split)

lemma mesh_ops_update_grabbed_position [simp]:
  "mesh_ops mi (update_grabbed_position p h) = []"
  by (simp add: update_grabbed_position_def Let_def split: option.split)

lemma ccd_requests_append [simp]: "ccd_requests (xs @ ys) = ccd_requests xs @ ccd_requests ys"
  by (induction xs rule: ccd_requests.induct) simp_all

lemma tick_component_active:
  "managed_mesh p = Some mi \<Longrightarrow> 0 < ccd_speed_threshold p \<Longrightarrow>
   tick_component p h dt =
     (if m_use_ccd (meshes h mi) \<noteq> want_ccd p (m_velocity (meshes h mi))
      then [MeshCall mi (SetUseCCD (want_ccd p (m_velocity (meshes h mi))))] else []) @
     (if is_grabbed p \<and> current_holder p \<noteq> None then update_grabbed_position p h else [])"
  by (simp add: tick_component_def Let_def)

text \<open>What one tick does to its mesh: the CCD flag becomes the wanted one, and nothing
  else of the mesh changes.\<close>

lemma tick_component_mesh:
  assumes "managed_mesh p = Some mi" and "0 < ccd_speed_threshold p"
  shows "meshes (apply_calls h (tick_component p h dt)) mi =
           (meshes h mi)\<lparr>m_use_ccd := want_ccd p (m_velocity (meshes h mi))\<rparr>"
  using assms by (simp add: meshes_apply_calls tick_component_active)

lemma ccd_requests_tick:
  "managed_mesh p = Some mi \<Longrightarrow> 0 < ccd_speed_threshold p \<Longrightarrow>
   ccd_requests (mesh_ops mi (tick_component p h dt)) =
     changes (m_use_ccd (meshes h mi)) [want_ccd p (m_velocity (meshes h mi))]"
  by (simp add: tick_component_active)


section \<open>Properties\<close>

text \<open>C5: With CCD enabled (threshold > 0), one tick leaves the body CCD flag equal to "squared speed > squared threshold", and a second tick at the same velocity makes no SetUseCCD call: the gate never re-asserts a stable state.\<close>

lemma ccd_tick_settles:
  assumes "managed_mesh p = Some mi" and "0 < ccd_speed_threshold p"
  shows "m_use_ccd (meshes (apply_calls h (tick_component p h dt)) mi) =
           want_ccd p (m_velocity (meshes h mi)) \<and>
         ccd_requests (mesh_ops mi (tick_component p (apply_calls h (tick_component p h dt)) dt')) = []"
  using assms by (simp add: tick_component_mesh ccd_requests_tick)

lemma ccd_tick_settles_witness:
  "managed_mesh (new_prop\<lparr>managed_mesh := Some 0\<rparr>) = Some 0 \<and>
   0 < ccd_speed_threshold (new_prop\<lparr>managed_mesh := Some 0\<rparr>) \<and>
   tick_component (new_prop\<lparr>managed_mesh := Some 0\<rparr>)
     (idle_host\<lparr>meshes := (\<lambda>_. idle_mesh\<lparr>m_velocity := Vec 600 0 0\<rparr>)\<rparr>) (1/60)
     = [MeshCall 0 (SetUseCCD True)] \<and>
   m_use_ccd (meshes (apply_calls (idle_host\<lparr>meshes := (\<lambda>_. idle_mesh\<lparr>m_velocity := Vec 600 0 0\<rparr>)\<rparr>)
     (tick_component (new_prop\<lparr>managed_mesh := Some 0\<rparr>)
       (idle_host\<lparr>meshes := (\<lambda>_. idle_mesh\<lparr>m_velocity := Vec 600 0 0\<rparr>)\<rparr>) (1/60))) 0) \<and>
   ccd_requests (mesh_ops 0 (tick_component (new_prop\<lparr>managed_mesh := Some 0\<rparr>)
     (apply_calls (idle_host\<lparr>meshes := (\<lambda>_. idle_mesh\<lparr>m_velocity := Vec 600 0 0\<rparr>)\<rparr>)
       (tick_component (new_prop\<lparr>managed_mesh := Some 0\<rparr>)
         (idle_host\<lparr>meshes := (\<lambda>_. idle_mesh\<lparr>m_velocity := Vec 600 0 0\<rparr>)\<rparr>) (1/60))) (1/60))) = []"
proof -
  let ?p = "new_prop\<lparr>managed_mesh := Some 0\<rparr>"
  let ?h = "idle_host\<lparr>meshes := (\<lambda>_. idle_mesh\<lparr>m_velocity := Vec 600 0 0\<rparr>)\<rparr>"
  have m: "managed_mesh ?p = Some 0" and t: "0 < ccd_speed_threshold ?p"
    by simp_all
  have w: "want_ccd ?p (Vec 600 0 0)" by (simp add: want_ccd_def)
  have c: "tick_component ?p ?h (1/60) = [MeshCall 0 (SetUseCCD True)]"
    using w by (simp add: tick_component_active [OF m t])
  from ccd_tick_settles [OF m t, of ?h "1/60" "1/60"] m t c w show ?thesis
    by simp
qed

text \<open>C6: Over any run of ticks at arbitrary velocities, the SetUseCCD calls made are exactly the changes of the wanted flag along the run (starting from the body flag): one request per threshold crossing, none while the state is stable.\<close>

lemma ccd_requests_are_changes:
  assumes "managed_mesh p = Some mi" and "0 < ccd_speed_threshold p"
  shows "ccd_requests (mesh_ops mi (snd (tick_run p mi dt h vs))) =
           changes (m_use_ccd (meshes h mi)) (map (want_ccd p) vs)"
proof (induction vs arbitrary: h)
  case Nil
  then show ?case by simp
next
  case (Cons v vs)
  define h1 where "h1 = h\<lparr>meshes := (meshes h)(mi := (meshes h mi)\<lparr>m_velocity := v\<rparr>)\<rparr>"
  have step: "ccd_requests (mesh_ops mi (tick_component p h1 dt)) =
      changes (m_use_ccd (meshes h mi)) [want_ccd p v]"
    using assms by (simp add: ccd_requests_tick h1_def)
  have next_flag: "m_use_ccd (meshes (apply_calls h1 (tick_component p h1 dt)) mi) = want_ccd p v"
    using assms by (simp add: tick_component_mesh h1_def)
  have run: "snd (tick_run p mi dt h (v # vs)) =
      tick_component p h1 dt @ snd (tick_run p mi dt (apply_calls h1 (tick_component p h1 dt)) vs)"
    by (simp only: snd_tick_run_Cons Let_def h1_def)
  show ?case
    using step next_flag Cons.IH [of "apply_calls h1 (tick_component p h1 dt)"]
    by (simp add: run del: tick_run.simps)
qed

lemma ccd_requests_are_changes_witness:
  "managed_mesh (new_prop\<lparr>managed_mesh := Some 0\<rparr>) = Some 0 \<and>
   0 < ccd_speed_threshold (new_prop\<lparr>managed_mesh := Some 0\<rparr>) \<and>
   ccd_requests (mesh_ops 0 (snd (tick_run (new_prop\<lparr>managed_mesh := Some 0\<rparr>) 0 (1/60) idle_host
      [Vec 100 0 0, Vec 600 0 0, Vec 700 0 0, Vec 0 0 0, Vec 0 10 0]))) = [True, False]"
  using ccd_requests_are_changes [of "new_prop\<lparr>managed_mesh := Some 0\<rparr>" 0 "1/60" idle_host
      "[Vec 100 0 0, Vec 600 0 0, Vec 700 0 0, Vec 0 0 0, Vec 0 10 0]"]
  by (simp add: want_ccd_def del: tick_run.simps)

text \<open>C30: TickComponent returns early when CCDSpeedThreshold <= 0, before the grab logic: a held prop with CCD disabled is never repositioned although UpdateGrabbedPosition would move it.\<close>

lemma tick_ccd_disabled_skips_grab:
  "is_grabbed p \<Longrightarrow> current_holder p = Some hid \<Longrightarrow> managed_mesh p = Some mi \<Longrightarrow>
   ccd_speed_threshold p \<le> 0 \<Longrightarrow>
   tick_component p h dt = [] \<and> update_grabbed_position p h \<noteq> []"
  by (simp add: tick_component_def update_grabbed_position_def Let_def)

lemma tick_ccd_disabled_skips_grab_witness:
  "is_grabbed (new_prop\<lparr>managed_mesh := Some 0, is_grabbed := True, current_holder := Some 0, ccd_speed_threshold := 0\<rparr>) \<and>
   current_holder (new_prop\<lparr>managed_mesh := Some 0, is_grabbed := True, current_holder := Some 0, ccd_speed_threshold := 0\<rparr>) = Some 0 \<and>
   managed_mesh (new_prop\<lparr>managed_mesh := Some 0, is_grabbed := True, current_holder := Some 0, ccd_speed_threshold := 0\<rparr>) = Some 0 \<and>
   ccd_speed_threshold (new_prop\<lparr>managed_mesh := Some 0, is_grabbed := True, current_holder := Some 0, ccd_speed_threshold := 0\<rparr>) \<le> 0 \<and>
   tick_component (new_prop\<lparr>managed_mesh := Some 0, is_grabbed := True, current_holder := Some 0, ccd_speed_threshold := 0\<rparr>) idle_host (1/60) = [] \<and>
   update_grabbed_position (new_prop\<lparr>managed_mesh := Some 0, is_grabbed := True, current_holder := Some 0, ccd_speed_threshold := 0\<rparr>) idle_host \<noteq> []"
  using tick_ccd_disabled_skips_grab [of "new_prop\<lparr>managed_mesh := Some 0, is_grabbed := True, current_holder := Some 0, ccd_speed_threshold := 0\<rparr>" 0 0 idle_host "1/60"]
  by simp

end
