(* ===== verification/Damage_Impulse.thy ===== *)
theory Damage_Impulse
  imports Prop_Component
begin

text \<open>
  The damage handlers of \<open>UPhysicsPropComponent\<close>: \<open>OnTakeAnyDamage\<close>,
  \<open>OnTakePointDamage\<close> and \<open>OnTakeRadialDamage\<close>. Each resolves the damage type into
  an impulse multiplier and a wake decision (base 500, or 2000 for radial damage; a
  \<open>UPhysicsPropDamageType\<close> gives its \<open>ImpulsePower\<close> (four times it for radial
  damage) and its \<open>bForceWake\<close>; a \<open>UGenericDamageType\<close> scales the base by its
  \<open>ImpulseModifier\<close>), optionally wakes the body and applies one impulse of damage times
  multiplier. The lemmas give every handler's calls on each branch, the radial handler
  as four times the point handler, the direction rules of any-damage, and the silent
  return when the body is absent or not simulating.
\<close>

section \<open>Handlers\<close>

text \<open>The damage-type resolution shared by the three handlers: \<open>base\<close> is the default
  multiplier, \<open>prop_scale\<close> the factor on \<open>ImpulsePower\<close>.\<close>

definition resolve_damage_type :: "real \<Rightarrow> real \<Rightarrow> damage_type \<Rightarrow> real \<times> bool" where
  "resolve_damage_type base prop_scale dt =
     (case dt of
        PhysicsPropDamageType pw fw \<Rightarrow> (pw * prop_scale, fw)
      | GenericDamageType k \<Rightarrow> (base * k, True)
      | OtherDamageType \<Rightarrow> (base, True))"

text \<open>The impulse direction of \<open>OnTakeAnyDamage\<close>: the instigating controller's aim,
  else the direction from the damage causer to the mesh, else up.\<close>

definition any_damage_direction :: "host \<Rightarrow> mesh_id \<Rightarrow> rot option \<Rightarrow> vec option \<Rightarrow> vec" where
  "any_damage_direction h mi instigator causer =
     (case instigator of
        Some aim \<Rightarrow> rot_vector aim
      | None \<Rightarrow> (case causer of
          Some cl \<Rightarrow> get_safe_normal (vsub (m_location (meshes h mi)) cl)
        | None \<Rightarrow> up_vec))"

definition on_take_any_damage ::
  "prop_comp \<Rightarrow> host \<Rightarrow> real \<Rightarrow> damage_type \<Rightarrow> rot option \<Rightarrow> vec option \<Rightarrow> ecall list" where
  "on_take_any_damage p h dmg dt instigator causer =
     (case managed_mesh p of None \<Rightarrow> []
      | Some mi \<Rightarrow>
          if \<not> m_simulating (meshes h mi) then []
          else case resolve_damage_type 500 1 dt of (mult, wake) \<Rightarrow>
            [MeshCall mi (SetComponentTickInterval 0)] @
            (if wake then [MeshCall mi WakeAllRigidBodies] else []) @
            [MeshCall mi (AddImpulse
               (vscale (dmg * mult) (any_damage_direction h mi instigator causer)) True)])"

definition on_take_point_damage ::
  "prop_comp \<Rightarrow> host \<Rightarrow> real \<Rightarrow> vec \<Rightarrow> bone \<Rightarrow> vec \<Rightarrow> damage_type \<Rightarrow> ecall list" where
  "on_take_point_damage p h dmg hit_location bone_name shot_dir dt =
     (case managed_mesh p of None \<Rightarrow> []
      | Some mi \<Rightarrow>
          if \<not> m_simulating (meshes h mi) then []
          else case resolve_damage_type 500 1 dt of (mult, wake) \<Rightarrow>
            (if wake then [MeshCall mi WakeAllRigidBodies] else []) @
            [MeshCall mi (AddImpulseAtLocation (vscale (dmg * mult) shot_dir) hit_location bone_name)])"

definition on_take_radial_damage ::
  "prop_comp \<Rightarrow> host \<Rightarrow> real \<Rightarrow> damage_type \<Rightarrow> vec \<Rightarrow> ecall list" where
  "on_take_radial_damage p h dmg dt origin =
     (case managed_mesh p of None \<Rightarrow> []
      | Some mi \<Rightarrow>
          if \<not> m_simulating (meshes h mi) then []
          else case resolve_damage_type 2000 4 dt of (mult, wake) \<Rightarrow>
            (if wake then [MeshCall mi WakeAllRigidBodies] else []) @
            [MeshCall mi (AddRadialImpulse origin 500 (dmg * mult) RIF_Linear True)])"

lemmas damage_defs [handler_defs] =
  on_take_any_damage_def on_take_point_damage_def on_take_radial_damage_def

text \<open>The wake decision the resolution gives, by damage type.\<close>

fun damage_wakes :: "damage_type \<Rightarrow> bool" where
  "damage_wakes (PhysicsPropDamageType pw fw) = fw"
| "damage_wakes dt = True"

section \<open>Lemmas\<close>

lemma resolve_damage_type_wake [simp]: "snd (resolve_damage_type b s dt) = damage_wakes dt"
  by (cases dt) (simp_all add: resolve_damage_type_def)

lemma resolve_damage_type_scale:
  "fst (resolve_damage_type 2000 4 dt) = 4 * fst (resolve_damage_type 500 1 dt)"
  by (cases dt) (simp_all add: resolve_damage_type_def)

lemma on_take_any_damage_active:
  "managed_mesh p = Some mi \<Longrightarrow> m_simulating (meshes h mi) \<Longrightarrow>
   on_take_any_damage p h dmg dt instigator causer =
     MeshCall mi (SetComponentTickInterval 0) #
     (if damage_wakes dt then [MeshCall mi WakeAllRigidBodies] else []) @
     [MeshCall mi (AddImpulse (vscale (dmg * fst (resolve_damage_type 500 1 dt))
        (any_damage_direction h mi instigator causer)) True)]"
  by (simp add: on_take_any_damage_def split: prod.split)
     (metis resolve_damage_type_wake snd_conv)

lemma on_take_point_damage_active:
  "managed_mesh p = Some mi \<Longrightarrow> m_simulating (meshes h mi) \<Longrightarrow>
   on_take_point_damage p h dmg loc bn dir dt =
     (if damage_wakes dt then [MeshCall mi WakeAllRigidBodies] else []) @
     [MeshCall mi (AddImpulseAtLocation (vscale (dmg * fst (resolve_damage_type 500 1 dt)) dir) loc bn)]"
  by (simp add: on_take_point_damage_def split: prod.split)
     (metis resolve_damage_type_wake snd_conv)

lemma on_take_radial_damage_active:
  "managed_mesh p = Some mi \<Longrightarrow> m_simulating (meshes h mi) \<Longrightarrow>
   on_take_radial_damage p h dmg dt origin =
     (if damage_wakes dt then [MeshCall mi WakeAllRigidBodies] else []) @
     [MeshCall mi (AddRadialImpulse origin 500 (dmg * fst (resolve_damage_type 2000 4 dt)) RIF_Linear True)]"
  by (simp add: on_take_radial_damage_def split: prod.split)
     (metis resolve_damage_type_wake snd_conv)


section \<open>Properties\<close>

text \<open>C19: The three damage handlers share one resolution rule: the multiplier is ImpulsePower for a UPhysicsPropDamageType, 500 * ImpulseModifier for a UGenericDamageType, 500 otherwise, the radial strength is four times it, and the body is woken unless a UPhysicsPropDamageType has bForceWake false; any-damage also resets the mesh tick interval first.\<close>

lemma damage_multiplier_rule:
  fixes dmg :: real and dt :: damage_type
  assumes "managed_mesh p = Some mi" and "m_simulating (meshes h mi)"
  defines "s \<equiv> dmg * (case dt of PhysicsPropDamageType pw fw \<Rightarrow> pw
                              | GenericDamageType k \<Rightarrow> 500 * k | OtherDamageType \<Rightarrow> 500)"
    and "w \<equiv> (case dt of PhysicsPropDamageType pw fw \<Rightarrow> fw | _ \<Rightarrow> True)"
  shows "on_take_point_damage p h dmg loc bn dir dt =
           (if w then [MeshCall mi WakeAllRigidBodies] else []) @
           [MeshCall mi (AddImpulseAtLocation (vscale s dir) loc bn)] \<and>
         on_take_any_damage p h dmg dt instigator causer =
           MeshCall mi (SetComponentTickInterval 0) #
           (if w then [MeshCall mi WakeAllRigidBodies] else []) @
           [MeshCall mi (AddImpulse (vscale s (any_damage_direction h mi instigator causer)) True)] \<and>
         on_take_radial_damage p h dmg dt origin =
           (if w then [MeshCall mi WakeAllRigidBodies] else []) @
           [MeshCall mi (AddRadialImpulse origin 500 (4 * s) RIF_Linear True)]"
  using assms
  by (cases dt) (simp_all add: on_take_point_damage_active on_take_any_damage_active
       on_take_radial_damage_active resolve_damage_type_def algebra_simps)

lemma damage_multiplier_rule_witness:
  "managed_mesh (new_prop\<lparr>managed_mesh := Some 0\<rparr>) = Some 0 \<and> m_simulating (meshes idle_host 0) \<and>
   on_take_point_damage (new_prop\<lparr>managed_mesh := Some 0\<rparr>) idle_host 2 zero_vec ''Root'' (Vec 0 1 0)
     (GenericDamageType 3) =
     [MeshCall 0 WakeAllRigidBodies, MeshCall 0 (AddImpulseAtLocation (Vec 0 3000 0) zero_vec ''Root'')] \<and>
   on_take_radial_damage (new_prop\<lparr>managed_mesh := Some 0\<rparr>) idle_host 2 (GenericDamageType 3) zero_vec =
     [MeshCall 0 WakeAllRigidBodies, MeshCall 0 (AddRadialImpulse zero_vec 500 12000 RIF_Linear True)]"
  using damage_multiplier_rule [where p = "new_prop\<lparr>managed_mesh := Some 0\<rparr>" and mi = 0
      and h = idle_host and dmg = 2 and dt = "GenericDamageType 3" and loc = zero_vec
      and bn = "''Root''" and dir = "Vec 0 1 0" and instigator = None and causer = None
      and origin = zero_vec]
  by simp

text \<open>C20: All three damage handlers are silent no-ops when the component has no managed mesh or the mesh is not simulating physics.\<close>

lemma damage_ignored_unless_simulating:
  "(\<forall>mi. managed_mesh p = Some mi \<longrightarrow> \<not> m_simulating (meshes h mi)) \<Longrightarrow>
   on_take_any_damage p h dmg dt instigator causer = [] \<and>
   on_take_point_damage p h dmg loc bn dir dt = [] \<and>
   on_take_radial_damage p h dmg dt origin = []"
  by (cases "managed_mesh p") (simp_all add: handler_defs)

lemma damage_ignored_unless_simulating_witness:
  "\<not> m_simulating (meshes (idle_host\<lparr>meshes := (\<lambda>_. idle_mesh\<lparr>m_simulating := False\<rparr>)\<rparr>) 0) \<and>
   on_take_any_damage (new_prop\<lparr>managed_mesh := Some 0\<rparr>)
     (idle_host\<lparr>meshes := (\<lambda>_. idle_mesh\<lparr>m_simulating := False\<rparr>)\<rparr>) 50 OtherDamageType None None = [] \<and>
   on_take_point_damage new_prop idle_host 50 zero_vec ''Root'' up_vec OtherDamageType = [] \<and>
   on_take_radial_damage new_prop idle_host 50 OtherDamageType zero_vec = []"
proof -
  have a: "on_take_any_damage (new_prop\<lparr>managed_mesh := Some 0\<rparr>)
     (idle_host\<lparr>meshes := (\<lambda>_. idle_mesh\<lparr>m_simulating := False\<rparr>)\<rparr>) 50 OtherDamageType None None = []"
    using damage_ignored_unless_simulating [of "new_prop\<lparr>managed_mesh := Some 0\<rparr>"
        "idle_host\<lparr>meshes := (\<lambda>_. idle_mesh\<lparr>m_simulating := False\<rparr>)\<rparr>"] by simp
  have b: "on_take_point_damage new_prop idle_host 50 zero_vec ''Root'' up_vec OtherDamageType = [] \<and>
     on_take_radial_damage new_prop idle_host 50 OtherDamageType zero_vec = []"
    using damage_ignored_unless_simulating [of new_prop idle_host] by simp
  from a b show ?thesis by simp
qed

text \<open>C21: OnTakeAnyDamage first resets the tick interval, then pushes along the instigator's aim if there is one, else along the unit direction from the damage causer to the mesh (so the impulse has magnitude |Damage * multiplier|), else straight up.\<close>

lemma any_damage_direction_priority:
  fixes dt :: damage_type
  assumes "managed_mesh p = Some mi" and "m_simulating (meshes h mi)"
  defines "m \<equiv> fst (resolve_damage_type 500 1 dt)"
  shows "hd (on_take_any_damage p h dmg dt instigator causer) = MeshCall mi (SetComponentTickInterval 0) \<and>
    last (on_take_any_damage p h dmg dt (Some aim) causer) =
      MeshCall mi (AddImpulse (vscale (dmg * m) (rot_vector aim)) True) \<and>
    last (on_take_any_damage p h dmg dt None (Some cl)) =
      MeshCall mi (AddImpulse (vscale (dmg * m) (get_safe_normal (vsub (m_location (meshes h mi)) cl))) True) \<and>
    last (on_take_any_damage p h dmg dt None None) = MeshCall mi (AddImpulse (Vec 0 0 (dmg * m)) True) \<and>
    (small_number \<le> vsize_sq (vsub (m_location (meshes h mi)) cl) \<longrightarrow>
       vsize (vscale (dmg * m) (get_safe_normal (vsub (m_location (meshes h mi)) cl))) = \<bar>dmg * m\<bar>)"
  using assms
  by (simp add: on_take_any_damage_active any_damage_direction_def up_vec_def vsize_scale
      get_safe_normal_vsize)

lemma any_damage_direction_priority_witness:
  "managed_mesh (new_prop\<lparr>managed_mesh := Some 0\<rparr>) = Some 0 \<and> m_simulating (meshes idle_host 0) \<and>
   last (on_take_any_damage (new_prop\<lparr>managed_mesh := Some 0\<rparr>) idle_host 2 OtherDamageType None (Some (Vec 0 (-4) 3))) =
     MeshCall 0 (AddImpulse (Vec 0 800 (-600)) True) \<and>
   last (on_take_any_damage (new_prop\<lparr>managed_mesh := Some 0\<rparr>) idle_host 2 OtherDamageType None None) =
     MeshCall 0 (AddImpulse (Vec 0 0 1000) True) \<and>
   last (on_take_any_damage (new_prop\<lparr>managed_mesh := Some 0\<rparr>) idle_host 2 OtherDamageType (Some (Rot 0 0 0)) None) =
     MeshCall 0 (AddImpulse (Vec 1000 0 0) True)"
proof -
  have n: "get_safe_normal (vsub zero_vec (Vec 0 (-4) 3)) = Vec 0 (4/5) (-3/5)"
    by (simp add: get_safe_normal_def small_number_def zero_vec_def)
  show ?thesis
    using any_damage_direction_priority [where p = "new_prop\<lparr>managed_mesh := Some 0\<rparr>" and mi = 0
      and h = idle_host and dt = OtherDamageType and dmg = 2 and cl = "Vec 0 (-4) 3"]
      n by (simp add: resolve_damage_type_def)
qed

end
