(* ===== verification/Impact_Audio.thy ===== *)
theory Impact_Audio
  imports Prop_Component
begin

text \<open>
  \<open>UPhysicsPropComponent::OnComponentHit\<close>: the impact-sound trigger. A hit is
  discarded without a table, within \<open>ImpactCooldown\<close> of the last accepted impact, below
  \<open>MinImpactThreshold\<close> (intensity is the normal impulse's length divided by the mesh
  mass when that is positive), or when the looked-up entry (the hit's physical material,
  else the default entry) has no sound; otherwise one sound is played at the impact point
  with a volume mapped from the intensity and a random pitch, and the time is recorded.
  The lemmas cover each discard branch, the cooldown between two hits, the inclusive
  threshold, the volume and pitch bounds, and the mass normalisation.
\<close>

section \<open>Definitions\<close>

definition hit_intensity :: "prop_comp \<Rightarrow> host \<Rightarrow> vec \<Rightarrow> real" where
  "hit_intensity p h normal_impulse =
     (let i = vsize normal_impulse in
      case managed_mesh p of
        None \<Rightarrow> i
      | Some mi \<Rightarrow> if 0 < m_mass (meshes h mi) then i / m_mass (meshes h mi) else i)"

definition lookup_impact_entry :: "impact_data \<Rightarrow> physmat_id option \<Rightarrow> impact_sound_entry" where
  "lookup_impact_entry tbl mat =
     (case impact_map tbl mat of Some e \<Rightarrow> e | None \<Rightarrow> default_sound tbl)"

definition impact_volume :: "prop_comp \<Rightarrow> real \<Rightarrow> impact_sound_entry \<Rightarrow> real" where
  "impact_volume p i e =
     mapped_range_clamped (min_impact_threshold p, min_impact_threshold p * 5) (1 / 5, 1) i
       * volume_multiplier e"

definition impact_pitch :: "real \<Rightarrow> real" where
  "impact_pitch r = rand_range (85 / 100) (11 / 10) r"

definition on_component_hit ::
  "prop_comp \<Rightarrow> host \<Rightarrow> vec \<Rightarrow> physmat_id option \<Rightarrow> vec \<Rightarrow> real \<Rightarrow> prop_comp \<times> ecall list" where
  "on_component_hit p h normal_impulse mat impact_point r =
     (case impact_table p of None \<Rightarrow> (p, [])
      | Some tbl \<Rightarrow>
          let t = world_time h in
          if t - last_impact_time p < impact_cooldown p then (p, [])
          else let i = hit_intensity p h normal_impulse in
            if i < min_impact_threshold p then (p, [])
            else let e = lookup_impact_entry tbl mat in
              (case impact_sound e of
                 None \<Rightarrow> (p, [])
               | Some sound \<Rightarrow>
                   (p\<lparr>last_impact_time := t\<rparr>,
                    [PlaySoundAtLocation sound impact_point (impact_volume p i e) (impact_pitch r)])))"

lemmas audio_defs [handler_defs] = on_component_hit_def

section \<open>Lemmas\<close>

lemma on_component_hit_accepted:
  "impact_table p = Some tbl \<Longrightarrow> impact_cooldown p \<le> world_time h - last_impact_time p \<Longrightarrow>
   min_impact_threshold p \<le> hit_intensity p h ni \<Longrightarrow>
   impact_sound (lookup_impact_entry tbl mat) = Some sound \<Longrightarrow>
   on_component_hit p h ni mat pt r =
     (p\<lparr>last_impact_time := world_time h\<rparr>,
      [PlaySoundAtLocation sound pt (impact_volume p (hit_intensity p h ni) (lookup_impact_entry tbl mat))
         (impact_pitch r)])"
  by (simp add: on_component_hit_def Let_def)

lemma on_component_hit_cooldown:
  "impact_table p = Some tbl \<Longrightarrow> world_time h - last_impact_time p < impact_cooldown p \<Longrightarrow>
   on_component_hit p h ni mat pt r = (p, [])"
  by (simp add: on_component_hit_def Let_def)

lemma on_component_hit_below_threshold:
  "hit_intensity p h ni < min_impact_threshold p \<Longrightarrow> on_component_hit p h ni mat pt r = (p, [])"
  by (simp add: on_component_hit_def Let_def split: option.split)

lemma on_component_hit_no_sound:
  "impact_table p = Some tbl \<Longrightarrow> impact_sound (lookup_impact_entry tbl mat) = None \<Longrightarrow>
   on_component_hit p h ni mat pt r = (p, [])"
  by (simp add: on_component_hit_def Let_def)

lemma on_component_hit_calls:
  "on_component_hit p h ni mat pt r = (p', cs) \<Longrightarrow>
   cs = [] \<and> p' = p \<or>
   (\<exists>sound v pitch. cs = [PlaySoundAtLocation sound pt v pitch] \<and>
      p' = p\<lparr>last_impact_time := world_time h\<rparr>)"
  by (auto simp: on_component_hit_def Let_def split: option.splits if_splits)

lemma impact_pitch_bounds:
  "0 \<le> r \<Longrightarrow> r \<le> 1 \<Longrightarrow> 85 / 100 \<le> impact_pitch r \<and> impact_pitch r \<le> 11 / 10"
  unfolding impact_pitch_def by (rule rand_range_bounds) simp_all

lemma impact_volume_bounds:
  assumes "0 \<le> volume_multiplier e"
  shows "volume_multiplier e / 5 \<le> impact_volume p i e \<and> impact_volume p i e \<le> volume_multiplier e"
proof -
  define v where "v = mapped_range_clamped (min_impact_threshold p, min_impact_threshold p * 5) (1 / 5, 1) i"
  have v: "1 / 5 \<le> v" "v \<le> 1"
    unfolding v_def using mapped_range_clamped_bounds [of "1 / 5" 1] by simp_all
  have "volume_multiplier e / 5 \<le> v * volume_multiplier e"
    using mult_right_mono [OF v(1) assms] by simp
  moreover have "v * volume_multiplier e \<le> volume_multiplier e"
    using mult_right_mono [OF v(2) assms] by simp
  ultimately show ?thesis
    by (simp add: impact_volume_def v_def [symmetric])
qed


section \<open>Properties\<close>

text \<open>C8: After an accepted impact at time t, a second hit less than ImpactCooldown later is discarded without any call, while a second hit at least ImpactCooldown later whose intensity reaches the threshold and whose entry has a sound plays exactly one sound.\<close>

lemma two_hits_cooldown:
  assumes "impact_table p = Some tbl"
    and first: "on_component_hit p h ni mat pt r = (p1, cs)" and "cs \<noteq> []"
  shows "(world_time h2 - world_time h < impact_cooldown p \<longrightarrow>
            on_component_hit p1 h2 ni2 mat2 pt2 r2 = (p1, [])) \<and>
         (impact_cooldown p \<le> world_time h2 - world_time h \<longrightarrow>
            min_impact_threshold p \<le> hit_intensity p1 h2 ni2 \<longrightarrow>
            impact_sound (lookup_impact_entry tbl mat2) = Some s2 \<longrightarrow>
            (\<exists>v pitch. snd (on_component_hit p1 h2 ni2 mat2 pt2 r2) = [PlaySoundAtLocation s2 pt2 v pitch]))"
proof -
  from on_component_hit_calls [OF first] \<open>cs \<noteq> []\<close>
  have p1: "p1 = p\<lparr>last_impact_time := world_time h\<rparr>" by auto
  then have t: "impact_table p1 = Some tbl" "last_impact_time p1 = world_time h"
    "impact_cooldown p1 = impact_cooldown p" "min_impact_threshold p1 = min_impact_threshold p"
    using assms(1) by simp_all
  show ?thesis
    using on_component_hit_cooldown [OF t(1)] on_component_hit_accepted [OF t(1)] t by auto
qed

lemma two_hits_cooldown_witness:
  "impact_table (new_prop\<lparr>impact_table := Some \<lparr>impact_map = Map.empty, default_sound = \<lparr>impact_sound = Some 3, volume_multiplier = 1\<rparr>\<rparr>\<rparr>)
     = Some \<lparr>impact_map = Map.empty, default_sound = \<lparr>impact_sound = Some 3, volume_multiplier = 1\<rparr>\<rparr> \<and>
   on_component_hit (new_prop\<lparr>impact_table := Some \<lparr>impact_map = Map.empty, default_sound = \<lparr>impact_sound = Some 3, volume_multiplier = 1\<rparr>\<rparr>\<rparr>)
     (idle_host\<lparr>world_time := 5\<rparr>) (Vec 0 0 20000) None zero_vec 0 =
     (new_prop\<lparr>impact_table := Some \<lparr>impact_map = Map.empty, default_sound = \<lparr>impact_sound = Some 3, volume_multiplier = 1\<rparr>\<rparr>,
        last_impact_time := 5\<rparr>,
      [PlaySoundAtLocation 3 zero_vec (2 / 5) (85 / 100)]) \<and>
   on_component_hit (new_prop\<lparr>impact_table := Some \<lparr>impact_map = Map.empty, default_sound = \<lparr>impact_sound = Some 3, volume_multiplier = 1\<rparr>\<rparr>,
        last_impact_time := 5\<rparr>) (idle_host\<lparr>world_time := 5 + 1 / 20\<rparr>) (Vec 0 0 20000) None zero_vec 0 =
     (new_prop\<lparr>impact_table := Some \<lparr>impact_map = Map.empty, default_sound = \<lparr>impact_sound = Some 3, volume_multiplier = 1\<rparr>\<rparr>,
        last_impact_time := 5\<rparr>, [])"
proof -
  let ?t = "\<lparr>impact_map = Map.empty, default_sound = \<lparr>impact_sound = Some 3, volume_multiplier = 1\<rparr>\<rparr>"
  let ?p = "new_prop\<lparr>impact_table := Some ?t\<rparr>"
  have i: "hit_intensity ?p (idle_host\<lparr>world_time := 5\<rparr>) (Vec 0 0 20000) = 20000"
    by (simp add: hit_intensity_def vsize_def)
  have first: "on_component_hit ?p (idle_host\<lparr>world_time := 5\<rparr>) (Vec 0 0 20000) None zero_vec 0 =
     (?p\<lparr>last_impact_time := 5\<rparr>, [PlaySoundAtLocation 3 zero_vec (2 / 5) (85 / 100)])"
    using i by (simp add: on_component_hit_def lookup_impact_entry_def impact_volume_def
        mapped_range_clamped_def get_range_pct_def lerp_def fclamp_def small_number_def
        impact_pitch_def rand_range_def)
  have "impact_table ?p = Some ?t" by simp
  from two_hits_cooldown [OF this first] first show ?thesis
    by simp
qed

text \<open>C9: An accepted impact plays exactly one sound at the impact point and records the time; its pitch lies in [0.85, 1.1] and its volume in [0.2, 1.0] times the entry's volume multiplier.\<close>

lemma hit_accepted_volume_pitch:
  assumes "impact_table p = Some tbl" and "impact_cooldown p \<le> world_time h - last_impact_time p"
    and "min_impact_threshold p \<le> hit_intensity p h ni"
    and "impact_sound (lookup_impact_entry tbl mat) = Some sound"
    and "0 \<le> volume_multiplier (lookup_impact_entry tbl mat)" and "0 \<le> r" and "r \<le> 1"
  shows "\<exists>v pitch. on_component_hit p h ni mat pt r =
           (p\<lparr>last_impact_time := world_time h\<rparr>, [PlaySoundAtLocation sound pt v pitch]) \<and>
         85 / 100 \<le> pitch \<and> pitch \<le> 11 / 10 \<and>
         volume_multiplier (lookup_impact_entry tbl mat) / 5 \<le> v \<and>
         v \<le> volume_multiplier (lookup_impact_entry tbl mat)"
  using on_component_hit_accepted [OF assms(1-4)] impact_pitch_bounds [OF assms(6,7)]
    impact_volume_bounds [OF assms(5)] by blast

lemma hit_accepted_volume_pitch_witness:
  "impact_table (new_prop\<lparr>impact_table := Some \<lparr>impact_map = Map.empty, default_sound = \<lparr>impact_sound = Some 3, volume_multiplier = 1\<rparr>\<rparr>\<rparr>)
     = Some \<lparr>impact_map = Map.empty, default_sound = \<lparr>impact_sound = Some 3, volume_multiplier = 1\<rparr>\<rparr> \<and>
   impact_cooldown new_prop \<le> world_time (idle_host\<lparr>world_time := 5\<rparr>) - last_impact_time new_prop \<and>
   (\<exists>v pitch. on_component_hit (new_prop\<lparr>impact_table := Some \<lparr>impact_map = Map.empty, default_sound = \<lparr>impact_sound = Some 3, volume_multiplier = 1\<rparr>\<rparr>\<rparr>)
       (idle_host\<lparr>world_time := 5\<rparr>) (Vec 0 0 20000) None zero_vec (1 / 2) =
     (new_prop\<lparr>impact_table := Some \<lparr>impact_map = Map.empty, default_sound = \<lparr>impact_sound = Some 3, volume_multiplier = 1\<rparr>\<rparr>,
        last_impact_time := 5\<rparr>, [PlaySoundAtLocation 3 zero_vec v pitch]) \<and>
     85 / 100 \<le> pitch \<and> pitch \<le> 11 / 10 \<and> 1 / 5 \<le> v \<and> v \<le> 1)"
proof -
  let ?t = "\<lparr>impact_map = Map.empty, default_sound = \<lparr>impact_sound = Some 3, volume_multiplier = 1\<rparr>\<rparr>"
  let ?p = "new_prop\<lparr>impact_table := Some ?t\<rparr>"
  have i: "hit_intensity ?p (idle_host\<lparr>world_time := 5\<rparr>) (Vec 0 0 20000) = 20000"
    by (simp add: hit_intensity_def vsize_def)
  show ?thesis
    using hit_accepted_volume_pitch [of ?p ?t "idle_host\<lparr>world_time := 5\<rparr>" "Vec 0 0 20000" None 3 "1 / 2" zero_vec] i
    by (simp add: lookup_impact_entry_def)
qed

text \<open>C10: Once the table, cooldown and sound entry allow it, an impact plays a sound exactly when its intensity is at least MinImpactThreshold: the boundary is inclusive, just below is discarded.\<close>

lemma hit_threshold_inclusive:
  assumes "impact_table p = Some tbl" and "impact_cooldown p \<le> world_time h - last_impact_time p"
    and "impact_sound (lookup_impact_entry tbl mat) = Some sound"
  shows "snd (on_component_hit p h ni mat pt r) \<noteq> [] \<longleftrightarrow> min_impact_threshold p \<le> hit_intensity p h ni"
  using assms on_component_hit_accepted [OF assms(1,2)] on_component_hit_below_threshold
  by (cases "min_impact_threshold p \<le> hit_intensity p h ni") auto

lemma hit_threshold_inclusive_witness:
  "impact_table (new_prop\<lparr>impact_table := Some \<lparr>impact_map = Map.empty, default_sound = \<lparr>impact_sound = Some 3, volume_multiplier = 1\<rparr>\<rparr>\<rparr>)
     = Some \<lparr>impact_map = Map.empty, default_sound = \<lparr>impact_sound = Some 3, volume_multiplier = 1\<rparr>\<rparr> \<and>
   impact_cooldown new_prop \<le> world_time (idle_host\<lparr>world_time := 5\<rparr>) - last_impact_time new_prop \<and>
   snd (on_component_hit (new_prop\<lparr>impact_table := Some \<lparr>impact_map = Map.empty, default_sound = \<lparr>impact_sound = Some 3, volume_multiplier = 1\<rparr>\<rparr>\<rparr>)
       (idle_host\<lparr>world_time := 5\<rparr>) (Vec 0 0 10000) None zero_vec 0) \<noteq> [] \<and>
   snd (on_component_hit (new_prop\<lparr>impact_table := Some \<lparr>impact_map = Map.empty, default_sound = \<lparr>impact_sound = Some 3, volume_multiplier = 1\<rparr>\<rparr>\<rparr>)
       (idle_host\<lparr>world_time := 5\<rparr>) (Vec 0 0 9999) None zero_vec 0) = []"
proof -
  let ?t = "\<lparr>impact_map = Map.empty, default_sound = \<lparr>impact_sound = Some 3, volume_multiplier = 1\<rparr>\<rparr>"
  let ?p = "new_prop\<lparr>impact_table := Some ?t\<rparr>"
  have i: "hit_intensity ?p (idle_host\<lparr>world_time := 5\<rparr>) (Vec 0 0 10000) = 10000"
    "hit_intensity ?p (idle_host\<lparr>world_time := 5\<rparr>) (Vec 0 0 9999) = 9999"
    by (simp_all add: hit_intensity_def vsize_def)
  show ?thesis
    using hit_threshold_inclusive [of ?p ?t "idle_host\<lparr>world_time := 5\<rparr>" None 3 "Vec 0 0 10000" zero_vec 0]
      hit_threshold_inclusive [of ?p ?t "idle_host\<lparr>world_time := 5\<rparr>" None 3 "Vec 0 0 9999" zero_vec 0] i
    by (simp add: lookup_impact_entry_def)
qed

text \<open>C38: The impact intensity is the normal impulse divided by the mesh mass, so it is unchanged when impulse and mass scale together; for a zero (or negative) mass the division is skipped and the raw impulse length is used.\<close>

lemma hit_intensity_mass_normalised:
  assumes "managed_mesh p = Some mi"
  shows "(0 < k \<longrightarrow> 0 < m_mass (meshes h mi) \<longrightarrow>
           hit_intensity p (h\<lparr>meshes := (meshes h)(mi := (meshes h mi)\<lparr>m_mass := k * m_mass (meshes h mi)\<rparr>)\<rparr>)
             (vscale k ni) = hit_intensity p h ni) \<and>
         (m_mass (meshes h mi) \<le> 0 \<longrightarrow> hit_intensity p h ni = vsize ni)"
  using assms by (auto simp: hit_intensity_def vsize_scale)

lemma hit_intensity_mass_normalised_witness:
  "managed_mesh (new_prop\<lparr>managed_mesh := Some 0\<rparr>) = Some 0 \<and>
   hit_intensity (new_prop\<lparr>managed_mesh := Some 0\<rparr>)
     (idle_host\<lparr>meshes := (\<lambda>_. idle_mesh)(0 := idle_mesh\<lparr>m_mass := 4\<rparr>)\<rparr>) (Vec 0 0 400) =
   hit_intensity (new_prop\<lparr>managed_mesh := Some 0\<rparr>) idle_host (Vec 0 0 100) \<and>
   hit_intensity (new_prop\<lparr>managed_mesh := Some 0\<rparr>)
     (idle_host\<lparr>meshes := (\<lambda>_. idle_mesh\<lparr>m_mass := 0\<rparr>)\<rparr>) (Vec 0 0 100) = 100"
  using hit_intensity_mass_normalised [where p = "new_prop\<lparr>managed_mesh := Some 0\<rparr>" and mi = 0
      and k = 4 and h = idle_host and ni = "Vec 0 0 100"]
    hit_intensity_mass_normalised [where p = "new_prop\<lparr>managed_mesh := Some 0\<rparr>" and mi = 0
      and h = "idle_host\<lparr>meshes := (\<lambda>_. idle_mesh\<lparr>m_mass := 0\<rparr>)\<rparr>" and ni = "Vec 0 0 100"]
  by (simp add: vsize_def)

end
