(* ===== verification/Proximity.thy ===== *)
theory Proximity
  imports Prop_Component
begin

text \<open>
  \<open>UPhysicsPropComponent::CheckDistanceToPlayer\<close>, run by the repeating timer that
  \<open>Physicalize\<close> starts: an owner below the world floor (\<open>Z < -20000\<close>) is destroyed;
  otherwise, with a player view point, a prop farther than \<open>PhysicsCullDistance\<close> is
  forced to sleep when it is simulating and awake and its mesh tick interval is set to
  one second, while a near prop gets its mesh tick interval back to every frame. The
  lemmas give the effect of a cycle on the host, show that a second cycle at the same
  distance issues no second sleep request, that every cycle still re-issues the tick
  interval, and that the scheduler never enables or disables ticking.
\<close>

section \<open>The timer callback\<close>

definition world_floor_z :: real where
  "world_floor_z = -20000"

definition check_distance_to_player :: "prop_comp \<Rightarrow> host \<Rightarrow> ecall list" where
  "check_distance_to_player p h =
     (case managed_mesh p of None \<Rightarrow> []
      | Some mi \<Rightarrow>
          if vz (owner_location h) < world_floor_z then [DestroyOwner]
          else case first_view h of None \<Rightarrow> []
          | Some obs \<Rightarrow>
              let dist_sq = vdist_sq obs (owner_location h);
                  cull_sq = physics_cull_distance p * physics_cull_distance p;
                  m = meshes h mi
              in if cull_sq < dist_sq
                 then (if m_simulating m \<and> m_awake m then [MeshCall mi PutAllRigidBodiesToSleep] else []) @
                      [MeshCall mi (SetComponentTickInterval 1)]
                 else [MeshCall mi (SetComponentTickInterval 0)])"

lemmas proximity_defs [handler_defs] = check_distance_to_player_def

section \<open>Lemmas\<close>

lemma check_distance_far:
  "managed_mesh p = Some mi \<Longrightarrow> world_floor_z \<le> vz (owner_location h) \<Longrightarrow> first_view h = Some obs \<Longrightarrow>
   physics_cull_distance p * physics_cull_distance p < vdist_sq obs (owner_location h) \<Longrightarrow>
   check_distance_to_player p h =
     (if m_simulating (meshes h mi) \<and> m_awake (meshes h mi)
      then [MeshCall mi PutAllRigidBodiesToSleep] else []) @ [MeshCall mi (SetComponentTickInterval 1)]"
  by (simp add: check_distance_to_player_def Let_def)

lemma check_distance_near:
  "managed_mesh p = Some mi \<Longrightarrow> world_floor_z \<le> vz (owner_location h) \<Longrightarrow> first_view h = Some obs \<Longrightarrow>
   vdist_sq obs (owner_location h) \<le> physics_cull_distance p * physics_cull_distance p \<Longrightarrow>
   check_distance_to_player p h = [MeshCall mi (SetComponentTickInterval 0)]"
  by (simp add: check_distance_to_player_def Let_def)

lemma check_distance_tick_interval:
  "managed_mesh p = Some mi \<Longrightarrow> world_floor_z \<le> vz (owner_location h) \<Longrightarrow> first_view h = Some obs \<Longrightarrow>
   m_tick_interval (meshes (apply_calls h (check_distance_to_player p h)) mi) =
     (if physics_cull_distance p * physics_cull_distance p < vdist_sq obs (owner_location h) then 1 else 0)"
  by (cases "physics_cull_distance p * physics_cull_distance p < vdist_sq obs (owner_location h)")
     (simp_all add: check_distance_far check_distance_near meshes_apply_calls)

lemma check_distance_calls_cases:
  "check_distance_to_player p h = [] \<or> check_distance_to_player p h = [DestroyOwner] \<or>
   (\<exists>mi. managed_mesh p = Some mi \<and>
      set (check_distance_to_player p h) \<subseteq>
        {MeshCall mi PutAllRigidBodiesToSleep, MeshCall mi (SetComponentTickInterval 1),
         MeshCall mi (SetComponentTickInterval 0)})"
  by (auto simp: check_distance_to_player_def Let_def split: option.splits)

lemma owner_location_check_distance:
  "world_floor_z \<le> vz (owner_location h) \<Longrightarrow>
   owner_location (apply_calls h (check_distance_to_player p h)) = owner_location h"
  by (auto simp: check_distance_to_player_def Let_def split: option.splits)


section \<open>Properties\<close>

text \<open>C22: One proximity cycle (owner above the world floor, a player view point present) leaves a near prop's mesh with the native per-frame tick interval and nothing else changed, and a far prop's mesh with a one-second tick interval and, when simulating, asleep (observer at 2999 of cull distance 3000: interval 0; at 3001: interval 1 and asleep).\<close>

lemma proximity_cycle_effect:
  assumes "managed_mesh p = Some mi" and "world_floor_z \<le> vz (owner_location h)"
    and "first_view h = Some obs"
  shows "(vdist_sq obs (owner_location h) \<le> physics_cull_distance p * physics_cull_distance p \<longrightarrow>
            meshes (apply_calls h (check_distance_to_player p h)) mi = (meshes h mi)\<lparr>m_tick_interval := 0\<rparr>) \<and>
         (physics_cull_distance p * physics_cull_distance p < vdist_sq obs (owner_location h) \<longrightarrow>
            m_tick_interval (meshes (apply_calls h (check_distance_to_player p h)) mi) = 1 \<and>
            (m_simulating (meshes h mi) \<longrightarrow> \<not> m_awake (meshes (apply_calls h (check_distance_to_player p h)) mi)))"
  using assms by (auto simp: check_distance_far check_distance_near meshes_apply_calls)

lemma proximity_cycle_effect_witness:
  "managed_mesh (new_prop\<lparr>managed_mesh := Some 0\<rparr>) = Some 0 \<and> world_floor_z \<le> vz (owner_location idle_host) \<and>
   first_view (idle_host\<lparr>first_view := Some (Vec 2999 0 0)\<rparr>) = Some (Vec 2999 0 0) \<and>
   first_view (idle_host\<lparr>first_view := Some (Vec 3001 0 0)\<rparr>) = Some (Vec 3001 0 0) \<and>
   m_tick_interval (meshes (apply_calls (idle_host\<lparr>first_view := Some (Vec 2999 0 0)\<rparr>)
     (check_distance_to_player (new_prop\<lparr>managed_mesh := Some 0\<rparr>) (idle_host\<lparr>first_view := Some (Vec 2999 0 0)\<rparr>))) 0) = 0 \<and>
   m_tick_interval (meshes (apply_calls (idle_host\<lparr>first_view := Some (Vec 3001 0 0)\<rparr>)
     (check_distance_to_player (new_prop\<lparr>managed_mesh := Some 0\<rparr>) (idle_host\<lparr>first_view := Some (Vec 3001 0 0)\<rparr>))) 0) = 1 \<and>
   \<not> m_awake (meshes (apply_calls (idle_host\<lparr>first_view := Some (Vec 3001 0 0)\<rparr>)
     (check_distance_to_player (new_prop\<lparr>managed_mesh := Some 0\<rparr>) (idle_host\<lparr>first_view := Some (Vec 3001 0 0)\<rparr>))) 0)"
proof -
  have f: "world_floor_z \<le> vz (owner_location idle_host)" by (simp add: world_floor_z_def zero_vec_def)
  show ?thesis
    using proximity_cycle_effect [where p = "new_prop\<lparr>managed_mesh := Some 0\<rparr>" and mi = 0
        and h = "idle_host\<lparr>first_view := Some (Vec 2999 0 0)\<rparr>" and obs = "Vec 2999 0 0"]
      proximity_cycle_effect [where p = "new_prop\<lparr>managed_mesh := Some 0\<rparr>" and mi = 0
        and h = "idle_host\<lparr>first_view := Some (Vec 3001 0 0)\<rparr>" and obs = "Vec 3001 0 0"] f
    by (simp add: vdist_sq_def zero_vec_def)
qed

text \<open>C23: A second proximity cycle at the same far distance issues no second force-sleep request: the first cycle's PutAllRigidBodiesToSleep put the body to rest.\<close>

lemma proximity_sleep_idempotent:
  assumes "managed_mesh p = Some mi" and "world_floor_z \<le> vz (owner_location h)"
    and "first_view h = Some obs"
    and "physics_cull_distance p * physics_cull_distance p < vdist_sq obs (owner_location h)"
  shows "PutAllRigidBodiesToSleep \<notin>
           set (mesh_ops mi (check_distance_to_player p (apply_calls h (check_distance_to_player p h))))"
proof -
  let ?h2 = "apply_calls h (check_distance_to_player p h)"
  have loc: "owner_location ?h2 = owner_location h"
    using assms(2) by (rule owner_location_check_distance)
  have "m_simulating (meshes ?h2 mi) \<longrightarrow> \<not> m_awake (meshes ?h2 mi)"
    using assms by (auto simp: check_distance_far meshes_apply_calls)
  then show ?thesis
    using assms loc by (auto simp: check_distance_far)
qed

lemma proximity_sleep_idempotent_witness:
  "managed_mesh (new_prop\<lparr>managed_mesh := Some 0\<rparr>) = Some 0 \<and> world_floor_z \<le> vz (owner_location idle_host) \<and>
   first_view (idle_host\<lparr>first_view := Some (Vec 3001 0 0)\<rparr>) = Some (Vec 3001 0 0) \<and>
   physics_cull_distance (new_prop\<lparr>managed_mesh := Some 0\<rparr>) * physics_cull_distance (new_prop\<lparr>managed_mesh := Some 0\<rparr>)
     < vdist_sq (Vec 3001 0 0) (owner_location idle_host) \<and>
   mesh_ops 0 (check_distance_to_player (new_prop\<lparr>managed_mesh := Some 0\<rparr>) (idle_host\<lparr>first_view := Some (Vec 3001 0 0)\<rparr>))
     = [PutAllRigidBodiesToSleep, SetComponentTickInterval 1] \<and>
   PutAllRigidBodiesToSleep \<notin> set (mesh_ops 0 (check_distance_to_player (new_prop\<lparr>managed_mesh := Some 0\<rparr>)
     (apply_calls (idle_host\<lparr>first_view := Some (Vec 3001 0 0)\<rparr>)
       (check_distance_to_player (new_prop\<lparr>managed_mesh := Some 0\<rparr>) (idle_host\<lparr>first_view := Some (Vec 3001 0 0)\<rparr>)))))"
proof -
  have f: "world_floor_z \<le> vz (owner_location idle_host)" by (simp add: world_floor_z_def zero_vec_def)
  have d: "physics_cull_distance (new_prop\<lparr>managed_mesh := Some 0\<rparr>) * physics_cull_distance (new_prop\<lparr>managed_mesh := Some 0\<rparr>)
     < vdist_sq (Vec 3001 0 0) (owner_location idle_host)" by (simp add: vdist_sq_def zero_vec_def)
  show ?thesis
    using proximity_sleep_idempotent [where p = "new_prop\<lparr>managed_mesh := Some 0\<rparr>" and mi = 0
        and h = "idle_host\<lparr>first_view := Some (Vec 3001 0 0)\<rparr>" and obs = "Vec 3001 0 0"] f d
    by (simp add: check_distance_far)
qed

text \<open>C24: Contrary to the spec's promise that re-applying the same optimisation state makes no further external calls, every far cycle re-issues SetComponentTickInterval(1) on the mesh, although the call no longer changes it.\<close>

lemma proximity_reissues_tick_interval:
  assumes "managed_mesh p = Some mi" and "world_floor_z \<le> vz (owner_location h)"
    and "first_view h = Some obs"
    and "physics_cull_distance p * physics_cull_distance p < vdist_sq obs (owner_location h)"
    and "m_simulating (meshes h mi)"
  shows "mesh_ops mi (check_distance_to_player p (apply_calls h (check_distance_to_player p h)))
           = [SetComponentTickInterval 1] \<and>
         meshes (apply_calls (apply_calls h (check_distance_to_player p h))
                   (check_distance_to_player p (apply_calls h (check_distance_to_player p h))))
           = meshes (apply_calls h (check_distance_to_player p h))"
proof -
  let ?h2 = "apply_calls h (check_distance_to_player p h)"
  have loc: "owner_location ?h2 = owner_location h"
    using assms(2) by (rule owner_location_check_distance)
  have m2: "meshes ?h2 mi = (meshes h mi)\<lparr>m_awake := False, m_tick_interval := 1\<rparr>"
    using assms by (auto simp: check_distance_far meshes_apply_calls)
  have c2: "check_distance_to_player p ?h2 = [MeshCall mi (SetComponentTickInterval 1)]"
    using assms loc m2 by (simp add: check_distance_far)
  show ?thesis
  proof
    show "mesh_ops mi (check_distance_to_player p ?h2) = [SetComponentTickInterval 1]"
      using c2 by simp
    show "meshes (apply_calls ?h2 (check_distance_to_player p ?h2)) = meshes ?h2"
      using c2 m2 by (auto simp: fun_upd_idem)
  qed
qed

lemma proximity_reissues_tick_interval_witness:
  "managed_mesh (new_prop\<lparr>managed_mesh := Some 0\<rparr>) = Some 0 \<and> world_floor_z \<le> vz (owner_location idle_host) \<and>
   first_view (idle_host\<lparr>first_view := Some (Vec 3001 0 0)\<rparr>) = Some (Vec 3001 0 0) \<and>
   physics_cull_distance (new_prop\<lparr>managed_mesh := Some 0\<rparr>) * physics_cull_distance (new_prop\<lparr>managed_mesh := Some 0\<rparr>)
     < vdist_sq (Vec 3001 0 0) (owner_location idle_host) \<and>
   m_simulating (meshes idle_host 0) \<and>
   mesh_ops 0 (check_distance_to_player (new_prop\<lparr>managed_mesh := Some 0\<rparr>)
     (apply_calls (idle_host\<lparr>first_view := Some (Vec 3001 0 0)\<rparr>)
       (check_distance_to_player (new_prop\<lparr>managed_mesh := Some 0\<rparr>) (idle_host\<lparr>first_view := Some (Vec 3001 0 0)\<rparr>))))
     = [SetComponentTickInterval 1]"
proof -
  have f: "world_floor_z \<le> vz (owner_location idle_host)" by (simp add: world_floor_z_def zero_vec_def)
  have d: "physics_cull_distance (new_prop\<lparr>managed_mesh := Some 0\<rparr>) * physics_cull_distance (new_prop\<lparr>managed_mesh := Some 0\<rparr>)
     < vdist_sq (Vec 3001 0 0) (owner_location idle_host)" by (simp add: vdist_sq_def zero_vec_def)
  show ?thesis
    using proximity_reissues_tick_interval [where p = "new_prop\<lparr>managed_mesh := Some 0\<rparr>" and mi = 0
        and h = "idle_host\<lparr>first_view := Some (Vec 3001 0 0)\<rparr>" and obs = "Vec 3001 0 0"] f d
    by simp
qed

text \<open>C25: When the owner is below the world floor (Z < -20000), the cycle destroys the owner and makes no other call, whatever the view point and distance.\<close>

lemma proximity_fell_out_of_world:
  "managed_mesh p = Some mi \<Longrightarrow> vz (owner_location h) < world_floor_z \<Longrightarrow>
   check_distance_to_player p h = [DestroyOwner] \<and>
   \<not> owner_alive (apply_calls h (check_distance_to_player p h)) \<and>
   meshes (apply_calls h (check_distance_to_player p h)) = meshes h"
  by (simp add: check_distance_to_player_def)

lemma proximity_fell_out_of_world_witness:
  "managed_mesh (new_prop\<lparr>managed_mesh := Some 0\<rparr>) = Some 0 \<and>
   vz (owner_location (idle_host\<lparr>owner_location := Vec 0 0 (-25000), first_view := Some zero_vec\<rparr>)) < world_floor_z \<and>
   check_distance_to_player (new_prop\<lparr>managed_mesh := Some 0\<rparr>)
     (idle_host\<lparr>owner_location := Vec 0 0 (-25000), first_view := Some zero_vec\<rparr>) = [DestroyOwner]"
  using proximity_fell_out_of_world [of "new_prop\<lparr>managed_mesh := Some 0\<rparr>" 0
      "idle_host\<lparr>owner_location := Vec 0 0 (-25000), first_view := Some zero_vec\<rparr>"]
  by (simp add: world_floor_z_def)

text \<open>C37: The proximity timer only throttles the mesh tick rate: it never enables or disables the component's or the actor's ticking, nor movement replication.\<close>

lemma proximity_never_toggles_ticking:
  "comp_tick (apply_calls h (check_distance_to_player p h)) = comp_tick h \<and>
   actor_tick (apply_calls h (check_distance_to_player p h)) = actor_tick h \<and>
   replicate_movement (apply_calls h (check_distance_to_player p h)) = replicate_movement h"
  by (auto simp: check_distance_to_player_def Let_def split: option.splits)

end
