(* ===== verification/Lifecycle.thy ===== *)
theory Lifecycle
  imports Prop_Component
begin

text \<open>
  The lifecycle of \<open>UPhysicsPropComponent\<close>: \<open>Physicalize\<close> (simulation and hit
  notifications on, overlaps off, actor tick off, the mesh's sleep, wake and hit
  delegates bound, a sensitive sleep family and damping when the body instance exists, the
  jittered distance-check timer when culling is enabled, the owner's damage delegates
  bound), \<open>BeginPlay\<close> (physicalizes the owner's first simulating static mesh when no mesh
  is managed yet) and the sleep and wake callbacks, which are the only place where
  ticking is switched on and off after physicalization. The lemmas give the host after
  physicalization, the timer period bounds, and the effect of the callbacks.
\<close>

section \<open>Operations\<close>

definition physicalize :: "prop_comp \<Rightarrow> host \<Rightarrow> mesh_id option \<Rightarrow> real \<Rightarrow> prop_comp \<times> ecall list" where
  "physicalize p h target r =
     (case target of None \<Rightarrow> (p, [])
      | Some mi \<Rightarrow>
          (p\<lparr>managed_mesh := Some mi\<rparr>,
           [MeshCall mi (SetSimulatePhysics True), MeshCall mi (SetNotifyRigidBodyCollision True),
            MeshCall mi (SetGenerateOverlapEvents False), SetActorTickEnabled False,
            MeshCall mi (BindMesh OnSleep), MeshCall mi (BindMesh OnWake), MeshCall mi (BindMesh OnHit)] @
           (if m_has_body (meshes h mi)
            then [MeshCall mi SetSleepFamilySensitive, MeshCall mi (SetLinearDamping (1 / 2)),
                  MeshCall mi (SetAngularDamping (1 / 2))]
            else []) @
           (if 0 < physics_cull_distance p
            then [SetTimer (distance_check_interval p + rand_range 0 (1 / 2) r) True]
            else []) @
           [BindOwner OnAnyDamage, BindOwner OnPointDamage, BindOwner OnRadialDamage]))"

definition begin_play :: "prop_comp \<Rightarrow> host \<Rightarrow> real \<Rightarrow> prop_comp \<times> ecall list" where
  "begin_play p h r =
     (if managed_mesh p = None
      then (case owner_static_mesh h of
              None \<Rightarrow> (p, [])
            | Some mi \<Rightarrow> if m_simulating (meshes h mi) then physicalize p h (Some mi) r else (p, []))
      else (p, []))"

definition on_physics_sleep :: "host \<Rightarrow> ecall list" where
  "on_physics_sleep h =
     [SetComponentTickEnabled False, SetActorTickEnabled False] @
     (if owner_authority h then [SetReplicateMovement False] else [])"

definition on_physics_wake :: "host \<Rightarrow> ecall list" where
  "on_physics_wake h =
     [SetComponentTickEnabled True, SetActorTickEnabled True] @
     (if owner_authority h then [SetReplicateMovement True] else [])"

text \<open>The four groups of calls \<open>Physicalize\<close> makes on a mesh, in order: the
  collision settings and the delegates, the body-instance tuning, the distance-check
  timer, the owner's damage delegates.\<close>

definition physicalize_head :: "mesh_id \<Rightarrow> ecall list" where
  "physicalize_head mi =
     [MeshCall mi (SetSimulatePhysics True), MeshCall mi (SetNotifyRigidBodyCollision True),
      MeshCall mi (SetGenerateOverlapEvents False), SetActorTickEnabled False,
      MeshCall mi (BindMesh OnSleep), MeshCall mi (BindMesh OnWake), MeshCall mi (BindMesh OnHit)]"

definition physicalize_body :: "host \<Rightarrow> mesh_id \<Rightarrow> ecall list" where
  "physicalize_body h mi =
     (if m_has_body (meshes h mi)
      then [MeshCall mi SetSleepFamilySensitive, MeshCall mi (SetLinearDamping (1 / 2)),
            MeshCall mi (SetAngularDamping (1 / 2))]
      else [])"

definition physicalize_timer :: "prop_comp \<Rightarrow> real \<Rightarrow> ecall list" where
  "physicalize_timer p r =
     (if 0 < physics_cull_distance p
      then [SetTimer (distance_check_interval p + rand_range 0 (1 / 2) r) True]
      else [])"

definition physicalize_tail :: "ecall list" where
  "physicalize_tail = [BindOwner OnAnyDamage, BindOwner OnPointDamage, BindOwner OnRadialDamage]"

lemmas lifecycle_defs [handler_defs] =
  physicalize_def begin_play_def on_physics_sleep_def on_physics_wake_def

section \<open>Lemmas\<close>

lemma fst_physicalize:
  "fst (physicalize p h target r) = (case target of None \<Rightarrow> p | Some mi \<Rightarrow> p\<lparr>managed_mesh := Some mi\<rparr>)"
  by (simp add: physicalize_def split: option.split)

lemma timer_apply_calls_no_timer:
  "(\<forall>per l. SetTimer per l \<notin> set cs) \<Longrightarrow> timer (apply_calls h cs) = timer h"
proof (induction cs arbitrary: h)
  case (Cons c cs)
  then show ?case by (cases c) auto
qed simp

lemma timer_apply_calls_last:
  "(\<forall>per l. SetTimer per l \<notin> set ds) \<Longrightarrow>
   timer (apply_calls h (cs @ SetTimer per l # ds)) = (if 0 < per then Some (per, l) else None)"
  by (simp add: timer_apply_calls_no_timer)

lemma owner_bindings_mono: "owner_bindings h \<subseteq> owner_bindings (apply_calls h cs)"
proof (induction cs arbitrary: h)
  case (Cons c cs)
  then show ?case by (cases c) fastforce+
qed simp

lemma m_bindings_mono: "m_bindings (meshes h mi) \<subseteq> m_bindings (meshes (apply_calls h cs) mi)"
proof (induction cs arbitrary: h)
  case (Cons c cs)
  show ?case
  proof (cases c)
    case (MeshCall mj op)
    then show ?thesis
      using Cons [of "apply_call h c"] by (cases op) fastforce+
  qed (use Cons in fastforce)+
qed simp

lemma owner_bindings_apply_calls:
  "BindOwner d \<in> set cs \<Longrightarrow> d \<in> owner_bindings (apply_calls h cs)"
proof (induction cs arbitrary: h)
  case (Cons c cs)
  from Cons show ?case
    using owner_bindings_mono [of "apply_call h c" cs] by (cases "c = BindOwner d") auto
qed simp

lemma physicalize_calls:
  "physicalize p h (Some mi) r = (p\<lparr>managed_mesh := Some mi\<rparr>,
     physicalize_head mi @ physicalize_body h mi @ physicalize_timer p r @ physicalize_tail)"
  by (simp add: physicalize_def physicalize_head_def physicalize_body_def physicalize_timer_def
      physicalize_tail_def)

lemma physicalize_mesh_on:
  "m_simulating (meshes (apply_calls h (snd (physicalize p h (Some mi) r))) mi) \<and>
   m_notify_hit (meshes (apply_calls h (snd (physicalize p h (Some mi) r))) mi) \<and>
   \<not> m_overlap_events (meshes (apply_calls h (snd (physicalize p h (Some mi) r))) mi)"
  by (simp add: physicalize_calls meshes_apply_calls physicalize_head_def physicalize_body_def
      physicalize_timer_def physicalize_tail_def)

lemma physicalize_wires:
  fixes p :: prop_comp and h :: host and mi :: mesh_id
  assumes "0 \<le> r" and "r \<le> 1"
  defines "h' \<equiv> apply_calls h (snd (physicalize p h (Some mi) r))"
  shows "{OnSleep, OnWake, OnHit} \<subseteq> m_bindings (meshes h' mi) \<and>
    {OnAnyDamage, OnPointDamage, OnRadialDamage} \<subseteq> owner_bindings h' \<and>
    (0 < physics_cull_distance p \<longrightarrow>
       timer h' = (if 0 < distance_check_interval p + rand_range 0 (1 / 2) r
                   then Some (distance_check_interval p + rand_range 0 (1 / 2) r, True) else None) \<and>
       distance_check_interval p \<le> distance_check_interval p + rand_range 0 (1 / 2) r \<and>
       distance_check_interval p + rand_range 0 (1 / 2) r \<le> distance_check_interval p + 1 / 2)"
proof (intro conjI impI)
  show "{OnSleep, OnWake, OnHit} \<subseteq> m_bindings (meshes h' mi)"
    by (simp add: h'_def physicalize_calls meshes_apply_calls physicalize_head_def
        physicalize_body_def physicalize_timer_def physicalize_tail_def)
  show "{OnAnyDamage, OnPointDamage, OnRadialDamage} \<subseteq> owner_bindings h'"
    using owner_bindings_apply_calls
    by (simp add: h'_def physicalize_calls physicalize_tail_def)
  assume c: "0 < physics_cull_distance p"
  show "timer h' = (if 0 < distance_check_interval p + rand_range 0 (1 / 2) r
      then Some (distance_check_interval p + rand_range 0 (1 / 2) r, True) else None)"
    using c timer_apply_calls_last [of physicalize_tail]
    by (simp add: h'_def physicalize_calls physicalize_timer_def physicalize_tail_def)
  have "0 \<le> rand_range 0 (1 / 2) r \<and> rand_range 0 (1 / 2) r \<le> 1 / 2"
    using rand_range_bounds [of 0 "1 / 2" r] assms(1,2) by simp
  then show "distance_check_interval p \<le> distance_check_interval p + rand_range 0 (1 / 2) r"
    "distance_check_interval p + rand_range 0 (1 / 2) r \<le> distance_check_interval p + 1 / 2"
    by simp_all
qed


section \<open>Properties\<close>

text \<open>C26: Physicalize on a mesh makes it the managed mesh, turns simulation and hit notifications on and overlaps and actor tick off, binds the mesh's sleep, wake and hit delegates and the owner's three damage delegates. With PhysicsCullDistance > 0 it calls SetTimer with the jittered period DistanceCheckInterval + RandRange(0, 0.5): for DistanceCheckInterval > 0 a repeating distance-check timer runs with a period in [DistanceCheckInterval, DistanceCheckInterval + 0.5]; for DistanceCheckInterval <= -0.5 the engine rejects the period and no timer runs although culling is on. With PhysicsCullDistance <= 0 the timer is left as it was.\<close>

lemma physicalize_sets_up:
  assumes "0 \<le> r" and "r \<le> 1"
    and "physicalize p h (Some mi) r = (p', cs)"
  shows "managed_mesh p' = Some mi \<and>
    m_simulating (meshes (apply_calls h cs) mi) \<and> m_notify_hit (meshes (apply_calls h cs) mi) \<and>
    \<not> m_overlap_events (meshes (apply_calls h cs) mi) \<and> \<not> actor_tick (apply_calls h cs) \<and>
    {OnSleep, OnWake, OnHit} \<subseteq> m_bindings (meshes (apply_calls h cs) mi) \<and>
    {OnAnyDamage, OnPointDamage, OnRadialDamage} \<subseteq> owner_bindings (apply_calls h cs) \<and>
    (0 < physics_cull_distance p \<longrightarrow> 0 < distance_check_interval p \<longrightarrow>
       (\<exists>per. timer (apply_calls h cs) = Some (per, True) \<and>
          distance_check_interval p \<le> per \<and> per \<le> distance_check_interval p + 1 / 2)) \<and>
    (0 < physics_cull_distance p \<longrightarrow> distance_check_interval p \<le> - 1 / 2 \<longrightarrow>
       timer (apply_calls h cs) = None) \<and>
    (physics_cull_distance p \<le> 0 \<longrightarrow> timer (apply_calls h cs) = timer h)"
proof -
  note parts = physicalize_head_def physicalize_body_def physicalize_timer_def physicalize_tail_def
  define per where "per = distance_check_interval p + rand_range 0 (1 / 2) r"
  have p': "p' = p\<lparr>managed_mesh := Some mi\<rparr>" and
    cs: "cs = physicalize_head mi @ physicalize_body h mi @ physicalize_timer p r @ physicalize_tail"
    using assms(3) by (simp_all add: physicalize_calls)
  have mesh: "m_simulating (meshes (apply_calls h cs) mi) \<and> m_notify_hit (meshes (apply_calls h cs) mi) \<and>
      \<not> m_overlap_events (meshes (apply_calls h cs) mi)"
    using physicalize_mesh_on [of h p mi r] assms(3) by simp
  have tick: "\<not> actor_tick (apply_calls h cs)"
  proof -
    have "\<not> actor_tick (apply_calls h (physicalize_head mi))" by (simp add: parts)
    moreover have "actor_tick (apply_calls h' (physicalize_body h mi @ physicalize_timer p r @
        physicalize_tail)) = actor_tick h'" for h'
      by (simp add: parts)
    ultimately show ?thesis by (simp add: cs)
  qed
  have w: "{OnSleep, OnWake, OnHit} \<subseteq> m_bindings (meshes (apply_calls h cs) mi) \<and>
    {OnAnyDamage, OnPointDamage, OnRadialDamage} \<subseteq> owner_bindings (apply_calls h cs) \<and>
    (0 < physics_cull_distance p \<longrightarrow>
       timer (apply_calls h cs) = (if 0 < per then Some (per, True) else None) \<and>
       distance_check_interval p \<le> per \<and> per \<le> distance_check_interval p + 1 / 2)"
    using physicalize_wires [OF assms(1,2), of h p mi] assms(3) by (simp add: per_def)
  have timer_off: "physics_cull_distance p \<le> 0 \<Longrightarrow> timer (apply_calls h cs) = timer h"
    by (rule timer_apply_calls_no_timer) (auto simp: cs parts)
  show ?thesis
    using p' mesh tick w timer_off by auto
qed

lemma physicalize_sets_up_witness:
  "(0::real) \<le> 1 / 2 \<and> (1 / 2 :: real) \<le> 1 \<and>
   physicalize new_prop idle_host (Some 0) (1 / 2) =
     (fst (physicalize new_prop idle_host (Some 0) (1 / 2)), snd (physicalize new_prop idle_host (Some 0) (1 / 2))) \<and>
   timer (apply_calls idle_host (snd (physicalize new_prop idle_host (Some 0) (1 / 2)))) = Some (5 / 4, True) \<and>
   managed_mesh (fst (physicalize new_prop idle_host (Some 0) (1 / 2))) = Some 0 \<and>
   physicalize (new_prop\<lparr>distance_check_interval := -1\<rparr>) idle_host (Some 0) (1 / 2) =
     (fst (physicalize (new_prop\<lparr>distance_check_interval := -1\<rparr>) idle_host (Some 0) (1 / 2)),
      snd (physicalize (new_prop\<lparr>distance_check_interval := -1\<rparr>) idle_host (Some 0) (1 / 2))) \<and>
   timer (apply_calls idle_host (snd (physicalize (new_prop\<lparr>distance_check_interval := -1\<rparr>) idle_host (Some 0) (1 / 2)))) = None"
proof -
  have t: "timer (apply_calls idle_host (snd (physicalize new_prop idle_host (Some 0) (1 / 2)))) = Some (5 / 4, True)"
    by (simp add: physicalize_def rand_range_def timer_apply_calls_no_timer)
  have n: "timer (apply_calls idle_host (snd (physicalize (new_prop\<lparr>distance_check_interval := -1\<rparr>) idle_host (Some 0) (1 / 2)))) = None"
    using physicalize_sets_up [of "1 / 2" "new_prop\<lparr>distance_check_interval := -1\<rparr>" idle_host 0
        "fst (physicalize (new_prop\<lparr>distance_check_interval := -1\<rparr>) idle_host (Some 0) (1 / 2))"
        "snd (physicalize (new_prop\<lparr>distance_check_interval := -1\<rparr>) idle_host (Some 0) (1 / 2))"]
    by (simp add: new_prop_def)
  show ?thesis
    using physicalize_sets_up [of "1 / 2" new_prop idle_host 0
        "fst (physicalize new_prop idle_host (Some 0) (1 / 2))" "snd (physicalize new_prop idle_host (Some 0) (1 / 2))"] t n
    by simp
qed

text \<open>C27: The sleep callback disables the component's and the actor's ticking (and, with authority, movement replication), the wake callback enables them again; neither touches any mesh.\<close>

lemma sleep_wake_tick:
  "\<not> comp_tick (apply_calls h (on_physics_sleep h)) \<and> \<not> actor_tick (apply_calls h (on_physics_sleep h)) \<and>
   comp_tick (apply_calls h (on_physics_wake h)) \<and> actor_tick (apply_calls h (on_physics_wake h)) \<and>
   replicate_movement (apply_calls h (on_physics_wake h)) = (owner_authority h \<or> replicate_movement h) \<and>
   replicate_movement (apply_calls h (on_physics_sleep h)) = (\<not> owner_authority h \<and> replicate_movement h) \<and>
   meshes (apply_calls h (on_physics_sleep h)) = meshes h \<and> meshes (apply_calls h (on_physics_wake h)) = meshes h"
  by (simp add: on_physics_sleep_def on_physics_wake_def)

end
