(* ===== verification/Prop_Controller.thy ===== *)
theory Prop_Controller
  imports Tick Damage_Impulse Impact_Audio Proximity Lifecycle
begin

text \<open>
  The component as the engine drives it. \<open>dispatch\<close> routes each engine event to its
  handler under the condition on which the engine calls it: the tick only while the
  component's tick is enabled, the distance check only once its timer is set, the mesh
  delegates only when bound on that mesh, the owner's damage delegates through
  \<open>AActor::TakeDamage\<close> (\<open>take_damage\<close>), which broadcasts the point or radial delegate and
  then the generic one. \<open>reachable\<close> is the set of states (component and host) reached
  from a freshly constructed component by events and by the world's own moves (physics,
  clock, holders, view). The lemmas show the invariants of reachable states: the grab
  state is consistent, and a physicalized component stays wired to its delegates and to
  its distance timer.
\<close>

section \<open>Events\<close>

datatype damage_event =
    DmgAny real damage_type "rot option" "vec option"
  | DmgPoint real vec bone vec damage_type "rot option" "vec option"
  | DmgRadial real damage_type vec "rot option" "vec option"

datatype event =
    EvBeginPlay real
  | EvPhysicalize "mesh_id option" real
  | EvTick real
  | EvDistanceTimer
  | EvGrab "holder_id option"
  | EvDrop
  | EvThrow vec real
  | EvSleep mesh_id
  | EvWake mesh_id
  | EvDamage damage_event
  | EvHit mesh_id vec "physmat_id option" vec real

text \<open>The random draws an event carries (the timer jitter, the impact pitch) are unit
  fractions of their ranges.\<close>

fun rand_ok :: "event \<Rightarrow> bool" where
  "rand_ok (EvBeginPlay r) = (0 \<le> r \<and> r \<le> 1)"
| "rand_ok (EvPhysicalize t r) = (0 \<le> r \<and> r \<le> 1)"
| "rand_ok (EvHit mi ni mat pt r) = (0 \<le> r \<and> r \<le> 1)"
| "rand_ok ev = True"

text \<open>\<open>OnTakeAnyDamage\<close> as \<open>AActor::TakeDamage\<close> broadcasts it: for non-zero damage and
  only when bound.\<close>

definition broadcast_any ::
  "prop_comp \<Rightarrow> host \<Rightarrow> real \<Rightarrow> damage_type \<Rightarrow> rot option \<Rightarrow> vec option \<Rightarrow> ecall list" where
  "broadcast_any p h dmg dt ins cau =
     (if dmg \<noteq> 0 \<and> OnAnyDamage \<in> owner_bindings h then on_take_any_damage p h dmg dt ins cau else [])"

definition take_damage :: "prop_comp \<Rightarrow> host \<Rightarrow> damage_event \<Rightarrow> ecall list" where
  "take_damage p h de =
     (case de of
        DmgAny dmg dt ins cau \<Rightarrow> broadcast_any p h dmg dt ins cau
      | DmgPoint dmg loc b dir dt ins cau \<Rightarrow>
          let cs = (if dmg \<noteq> 0 \<and> OnPointDamage \<in> owner_bindings h
                    then on_take_point_damage p h dmg loc b dir dt else [])
          in cs @ broadcast_any p (apply_calls h cs) dmg dt ins cau
      | DmgRadial dmg dt org ins cau \<Rightarrow>
          let cs = (if dmg \<noteq> 0 \<and> OnRadialDamage \<in> owner_bindings h
                    then on_take_radial_damage p h dmg dt org else [])
          in cs @ broadcast_any p (apply_calls h cs) dmg dt ins cau)"

fun dispatch :: "prop_comp \<Rightarrow> host \<Rightarrow> event \<Rightarrow> prop_comp \<times> ecall list" where
  "dispatch p h (EvBeginPlay r) = begin_play p h r"
| "dispatch p h (EvPhysicalize t r) = physicalize p h t r"
| "dispatch p h (EvTick dt) = (p, if comp_tick h then tick_component p h dt else [])"
| "dispatch p h EvDistanceTimer = (p, if timer h \<noteq> None then check_distance_to_player p h else [])"
| "dispatch p h (EvGrab hopt) = grab p h hopt"
| "dispatch p h EvDrop = drop_prop p h"
| "dispatch p h (EvThrow d f) = throw p h d f"
| "dispatch p h (EvSleep mi) = (p, if OnSleep \<in> m_bindings (meshes h mi) then on_physics_sleep h else [])"
| "dispatch p h (EvWake mi) = (p, if OnWake \<in> m_bindings (meshes h mi) then on_physics_wake h else [])"
| "dispatch p h (EvDamage de) = (p, take_damage p h de)"
| "dispatch p h (EvHit mi ni mat pt r) =
     (if OnHit \<in> m_bindings (meshes h mi) then on_component_hit p h ni mat pt r else (p, []))"

section \<open>The world\<close>

text \<open>What changes the host outside the component: the physics of a mesh (velocity,
  location, sleep state), the owner moved by something else, the clock advancing by a
  frame, a holder, the
  player's view point and the scene the sweeps see.\<close>

datatype world_event =
    Physics mesh_id vec vec bool
  | OwnerMoved vec rot
  | Clock real
  | HolderMoved holder_id holder_info
  | ViewMoved "vec option"
  | SceneChanged "vec \<Rightarrow> vec \<Rightarrow> real \<Rightarrow> actor set \<Rightarrow> (vec \<times> vec) option"

fun world_step :: "host \<Rightarrow> world_event \<Rightarrow> host" where
  "world_step h (Physics mi v l a) =
     h\<lparr>meshes := (meshes h)(mi := (meshes h mi)\<lparr>m_velocity := v, m_location := l, m_awake := a\<rparr>)\<rparr>"
| "world_step h (OwnerMoved l rt) = h\<lparr>owner_location := l, owner_rotation := rt\<rparr>"
| "world_step h (Clock d) = h\<lparr>world_time := world_time h + d, delta_seconds := d\<rparr>"
| "world_step h (HolderMoved hid hi) = h\<lparr>holders := (holders h)(hid := hi)\<rparr>"
| "world_step h (ViewMoved v) = h\<lparr>first_view := v\<rparr>"
| "world_step h (SceneChanged sw) = h\<lparr>sweep := sw\<rparr>"

text \<open>The world's clock only advances, by the frame's positive delta time.\<close>

fun world_ok :: "world_event \<Rightarrow> bool" where
  "world_ok (Clock d) = (0 < d)"
| "world_ok w = True"

text \<open>A component as placed in a level: the constructor's state with the designer's
  values of the \<open>EditAnywhere\<close> properties.\<close>

definition configured ::
  "real \<Rightarrow> real \<Rightarrow> real \<Rightarrow> impact_data option \<Rightarrow> real \<Rightarrow> real \<Rightarrow> prop_comp" where
  "configured cull interval ccd tbl thr cooldown =
     new_prop\<lparr>physics_cull_distance := cull, distance_check_interval := interval,
       ccd_speed_threshold := ccd, impact_table := tbl, min_impact_threshold := thr,
       impact_cooldown := cooldown\<rparr>"

text \<open>Reachable states start from a configured component in a world whose clock has not
  run backwards and where the component's distance-check timer handle is not yet set.\<close>

inductive reachable :: "prop_comp \<Rightarrow> host \<Rightarrow> bool" where
  init: "0 \<le> world_time h \<Longrightarrow> timer h = None \<Longrightarrow>
    reachable (configured cull interval ccd tbl thr cooldown) h"
| event: "reachable p h \<Longrightarrow> rand_ok ev \<Longrightarrow> dispatch p h ev = (p', cs) \<Longrightarrow> reachable p' (apply_calls h cs)"
| world: "reachable p h \<Longrightarrow> world_ok w \<Longrightarrow> reachable p (world_step h w)"

text \<open>A sequence of events delivered in order, each handler's calls applied before the
  next event.\<close>

fun run_events :: "prop_comp \<Rightarrow> host \<Rightarrow> event list \<Rightarrow> prop_comp \<times> host" where
  "run_events p h [] = (p, h)"
| "run_events p h (e # es) = (case dispatch p h e of (p', cs) \<Rightarrow> run_events p' (apply_calls h cs) es)"

section \<open>Invariants\<close>

definition grab_inv :: "prop_comp \<Rightarrow> bool" where
  "grab_inv p =
     ((is_grabbed p \<longleftrightarrow> current_holder p \<noteq> None) \<and>
      (is_grabbed p \<longrightarrow> managed_mesh p \<noteq> None \<and> 50 \<le> hold_distance p \<and> hold_distance p \<le> 250))"

definition wired :: "prop_comp \<Rightarrow> host \<Rightarrow> bool" where
  "wired p h =
     (case managed_mesh p of None \<Rightarrow> True
      | Some mi \<Rightarrow>
          {OnSleep, OnWake, OnHit} \<subseteq> m_bindings (meshes h mi) \<and>
          {OnAnyDamage, OnPointDamage, OnRadialDamage} \<subseteq> owner_bindings h \<and>
          (0 < physics_cull_distance p \<and> 0 < distance_check_interval p \<longrightarrow>
             (\<exists>per. timer h = Some (per, True) \<and>
                distance_check_interval p \<le> per \<and> per \<le> distance_check_interval p + 1 / 2)))"

section \<open>Lemmas\<close>

lemma configured_fields [simp]:
  "managed_mesh (configured cull interval ccd tbl thr cooldown) = None"
  "is_grabbed (configured cull interval ccd tbl thr cooldown) = False"
  "current_holder (configured cull interval ccd tbl thr cooldown) = None"
  "hold_distance (configured cull interval ccd tbl thr cooldown) = 0"
  "last_impact_time (configured cull interval ccd tbl thr cooldown) = 0"
  "physics_cull_distance (configured cull interval ccd tbl thr cooldown) = cull"
  "distance_check_interval (configured cull interval ccd tbl thr cooldown) = interval"
  "ccd_speed_threshold (configured cull interval ccd tbl thr cooldown) = ccd"
  "impact_table (configured cull interval ccd tbl thr cooldown) = tbl"
  "min_impact_threshold (configured cull interval ccd tbl thr cooldown) = thr"
  "impact_cooldown (configured cull interval ccd tbl thr cooldown) = cooldown"
  by (simp_all add: configured_def)

lemma reachable_new_prop: "0 \<le> world_time h \<Longrightarrow> timer h = None \<Longrightarrow> reachable new_prop h"
  using reachable.init [of h 3000 1 500 None 10000 "1 / 10"]
  by (simp add: configured_def new_prop_def)

lemma fst_dispatch_config:
  "physics_cull_distance (fst (dispatch p h ev)) = physics_cull_distance p \<and>
   distance_check_interval (fst (dispatch p h ev)) = distance_check_interval p"
  by (cases ev) (auto simp: handler_defs Let_def split: option.split prod.split)

lemma fst_dispatch_managed:
  "\<not> (\<exists>r. ev = EvBeginPlay r) \<Longrightarrow> \<not> (\<exists>t r. ev = EvPhysicalize t r) \<Longrightarrow>
   managed_mesh (fst (dispatch p h ev)) = managed_mesh p"
  by (cases ev) (auto simp: handler_defs Let_def split: option.split prod.split)

lemma on_take_any_damage_no_timer: "SetTimer per l \<notin> set (on_take_any_damage p h dmg dt ins cau)"
  by (auto simp: on_take_any_damage_def split: option.split prod.split)

lemma dispatch_no_timer:
  "\<not> (\<exists>r. ev = EvBeginPlay r) \<Longrightarrow> \<not> (\<exists>t r. ev = EvPhysicalize t r) \<Longrightarrow>
   SetTimer per l \<notin> set (snd (dispatch p h ev))"
proof (cases ev)
  case (EvDamage de)
  then show ?thesis
    by (cases de) (auto simp: take_damage_def broadcast_any_def on_take_any_damage_no_timer
        on_take_point_damage_def on_take_radial_damage_def Let_def split: option.split prod.split)
qed (auto simp: handler_defs tick_component_def update_grabbed_position_def Let_def
      split: option.split prod.split)

lemma grab_inv_dispatch:
  assumes "grab_inv p" shows "grab_inv (fst (dispatch p h ev))"
  using assms
proof (cases ev)
  case (EvGrab hopt)
  then show ?thesis
    using assms fclamp_bounds [of 50 250] by (auto simp: grab_inv_def grab_def Let_def split: option.split)
qed (auto simp: grab_inv_def handler_defs Let_def split: option.split prod.split)

lemma wired_apply_calls:
  assumes "wired p h" and "\<forall>per l. SetTimer per l \<notin> set cs"
  shows "wired p (apply_calls h cs)"
proof (cases "managed_mesh p")
  case (Some mi)
  then show ?thesis
    using assms m_bindings_mono [where h = h and cs = cs and mi = mi]
      owner_bindings_mono [where h = h and cs = cs]
    by (auto simp: wired_def timer_apply_calls_no_timer)
qed (simp add: wired_def)

lemma wired_physicalize:
  assumes r: "0 \<le> r" "r \<le> 1" and "wired p h" and ph: "physicalize p h t r = (p', cs)"
  shows "wired p' (apply_calls h cs)"
proof (cases t)
  case (Some mi)
  then show ?thesis
    using physicalize_wires [OF r, where p = p and h = h and mi = mi] ph
    by (auto simp: wired_def physicalize_calls add_pos_nonneg)
next
  case None
  then show ?thesis using assms by (simp add: physicalize_def)
qed

lemma wired_dispatch:
  assumes "wired p h" and "rand_ok ev" and "dispatch p h ev = (p', cs)"
  shows "wired p' (apply_calls h cs)"
proof (cases "(\<exists>r. ev = EvBeginPlay r) \<or> (\<exists>t r. ev = EvPhysicalize t r)")
  case True
  then show ?thesis
  proof
    assume "\<exists>r. ev = EvBeginPlay r"
    then obtain r where ev: "ev = EvBeginPlay r" ..
    show ?thesis
    proof (cases "begin_play p h r = physicalize p h (owner_static_mesh h) r")
      case True
      then show ?thesis using assms wired_physicalize [of r p h] ev by simp
    next
      case False
      then have "begin_play p h r = (p, [])"
        by (auto simp: begin_play_def split: option.split if_split)
      then show ?thesis using assms ev by simp
    qed
  next
    assume "\<exists>t r. ev = EvPhysicalize t r"
    then show ?thesis using assms wired_physicalize by auto
  qed
next
  case False
  then have "wired p' h"
    using assms(1,3) fst_dispatch_managed [of ev p h] fst_dispatch_config [of p h ev]
    by (auto simp: wired_def split: option.split)
  then show ?thesis
    using False assms(3) dispatch_no_timer [of ev _ _ p h] wired_apply_calls by force
qed

lemma wired_world: "wired p h \<Longrightarrow> wired p (world_step h w)"
  by (cases w) (auto simp: wired_def split: option.split)

lemma reachable_grab_inv: "reachable p h \<Longrightarrow> grab_inv p"
proof (induction rule: reachable.induct)
  case (event p h ev p' cs)
  then show ?case using grab_inv_dispatch [of p h ev] by simp
qed (simp_all add: grab_inv_def)



lemma run_events_append:
  "run_events p h (es @ fs) = (case run_events p h es of (p', h') \<Rightarrow> run_events p' h' fs)"
  by (induction es arbitrary: p h) (auto split: prod.split)

lemma reachable_wiring: "reachable p h \<Longrightarrow> wired p h"
proof (induction rule: reachable.induct)
  case (event p h ev p' cs)
  then show ?case using wired_dispatch by blast
next
  case (world p h w)
  then show ?case using wired_world by blast
qed (simp add: wired_def)


lemma reachable_run_events:
  "reachable p h \<Longrightarrow> list_all rand_ok es \<Longrightarrow> reachable (fst (run_events p h es)) (snd (run_events p h es))"
proof (induction es arbitrary: p h)
  case (Cons e es)
  obtain p' cs where d: "dispatch p h e = (p', cs)" by fastforce
  then show ?case
    using Cons.IH [of p' "apply_calls h cs"] reachable.event [OF _ _ d] Cons.prems by simp
qed simp

section \<open>Properties\<close>

text \<open>C1: In every reachable state the grab state is consistent: the prop is grabbed exactly when it has a holder, and while grabbed its hold distance lies in [50, 250].\<close>

lemma grab_state_invariant:
  "reachable p h \<Longrightarrow>
   (is_grabbed p \<longleftrightarrow> current_holder p \<noteq> None) \<and>
   (is_grabbed p \<longrightarrow> 50 \<le> hold_distance p \<and> hold_distance p \<le> 250)"
  using reachable_grab_inv by (simp add: grab_inv_def)

lemma grab_state_invariant_witness:
  "reachable (fst (run_events new_prop (idle_host\<lparr>owner_static_mesh := Some 0\<rparr>) [EvBeginPlay (1 / 2), EvGrab (Some 0)]))
     (snd (run_events new_prop (idle_host\<lparr>owner_static_mesh := Some 0\<rparr>) [EvBeginPlay (1 / 2), EvGrab (Some 0)])) \<and>
   current_holder (fst (run_events new_prop (idle_host\<lparr>owner_static_mesh := Some 0\<rparr>) [EvBeginPlay (1 / 2), EvGrab (Some 0)])) = Some 0 \<and>
   is_grabbed (fst (run_events new_prop (idle_host\<lparr>owner_static_mesh := Some 0\<rparr>) [EvBeginPlay (1 / 2), EvGrab (Some 0)])) \<and>
   50 \<le> hold_distance (fst (run_events new_prop (idle_host\<lparr>owner_static_mesh := Some 0\<rparr>) [EvBeginPlay (1 / 2), EvGrab (Some 0)]))"
proof -
  let ?s = "run_events new_prop (idle_host\<lparr>owner_static_mesh := Some 0\<rparr>) [EvBeginPlay (1 / 2), EvGrab (Some 0)]"
  have r: "reachable (fst ?s) (snd ?s)"
    by (rule reachable_run_events [OF reachable_new_prop]) simp_all
  have "current_holder (fst ?s) = Some 0"
    by (simp add: begin_play_def physicalize_def grab_def Let_def)
  then show ?thesis
    using grab_state_invariant [OF r] r by simp
qed

text \<open>C11: In every reachable state, a component that manages a mesh has the mesh's sleep, wake and hit delegates and the owner's any, point and radial damage delegates bound, and, when PhysicsCullDistance > 0 and DistanceCheckInterval > 0, a repeating distance-check timer whose period lies in [DistanceCheckInterval, DistanceCheckInterval + 0.5].\<close>

lemma reachable_wired: "reachable p h \<Longrightarrow> wired p h"
  by (rule reachable_wiring)

lemma reachable_wired_witness:
  "reachable (fst (dispatch new_prop (idle_host\<lparr>owner_static_mesh := Some 0\<rparr>) (EvBeginPlay (1 / 2))))
     (apply_calls (idle_host\<lparr>owner_static_mesh := Some 0\<rparr>)
        (snd (dispatch new_prop (idle_host\<lparr>owner_static_mesh := Some 0\<rparr>) (EvBeginPlay (1 / 2))))) \<and>
   OnHit \<in> m_bindings (meshes (apply_calls (idle_host\<lparr>owner_static_mesh := Some 0\<rparr>)
        (snd (dispatch new_prop (idle_host\<lparr>owner_static_mesh := Some 0\<rparr>) (EvBeginPlay (1 / 2))))) 0) \<and>
   OnRadialDamage \<in> owner_bindings (apply_calls (idle_host\<lparr>owner_static_mesh := Some 0\<rparr>)
        (snd (dispatch new_prop (idle_host\<lparr>owner_static_mesh := Some 0\<rparr>) (EvBeginPlay (1 / 2)))))"
proof -
  let ?h = "idle_host\<lparr>owner_static_mesh := Some 0\<rparr>"
  let ?e = "EvBeginPlay (1 / 2)"
  have r: "reachable (fst (dispatch new_prop ?h ?e)) (apply_calls ?h (snd (dispatch new_prop ?h ?e)))"
    by (rule reachable.event [OF reachable_new_prop, where ev = ?e]) simp_all
  have m: "managed_mesh (fst (dispatch new_prop ?h ?e)) = Some 0"
    by (simp add: begin_play_def fst_physicalize)
  show ?thesis
    using reachable_wired [OF r] r m by (simp add: wired_def)
qed



text \<open>C32: Physicalize does not look at the grab state: in every reachable state where the prop is held, Physicalize of its mesh turns simulation back on while the component still reports the prop grabbed by the same holder, and that inconsistent state is reachable.\<close>

lemma physicalize_while_grabbed:
  assumes "reachable p h" and "is_grabbed p" and "managed_mesh p = Some mi" and "0 \<le> r" and "r \<le> 1"
  shows "reachable (fst (dispatch p h (EvPhysicalize (Some mi) r)))
           (apply_calls h (snd (dispatch p h (EvPhysicalize (Some mi) r)))) \<and>
    is_grabbed (fst (dispatch p h (EvPhysicalize (Some mi) r))) \<and>
    current_holder (fst (dispatch p h (EvPhysicalize (Some mi) r))) = current_holder p \<and>
    m_simulating (meshes (apply_calls h (snd (dispatch p h (EvPhysicalize (Some mi) r)))) mi)"
proof -
  have "reachable (fst (dispatch p h (EvPhysicalize (Some mi) r)))
      (apply_calls h (snd (dispatch p h (EvPhysicalize (Some mi) r))))"
    by (rule reachable.event [OF assms(1), where ev = "EvPhysicalize (Some mi) r"]) (simp_all add: assms(4,5))
  then show ?thesis
    using assms(2) physicalize_mesh_on [of h p mi r] by (simp add: fst_physicalize)
qed

lemma physicalize_while_grabbed_witness:
  "reachable (fst (run_events new_prop (idle_host\<lparr>owner_static_mesh := Some 0\<rparr>) [EvBeginPlay (1 / 2), EvGrab (Some 0)]))
     (snd (run_events new_prop (idle_host\<lparr>owner_static_mesh := Some 0\<rparr>) [EvBeginPlay (1 / 2), EvGrab (Some 0)])) \<and>
   is_grabbed (fst (run_events new_prop (idle_host\<lparr>owner_static_mesh := Some 0\<rparr>) [EvBeginPlay (1 / 2), EvGrab (Some 0)])) \<and>
   managed_mesh (fst (run_events new_prop (idle_host\<lparr>owner_static_mesh := Some 0\<rparr>) [EvBeginPlay (1 / 2), EvGrab (Some 0)])) = Some 0 \<and>
   \<not> m_simulating (meshes (snd (run_events new_prop (idle_host\<lparr>owner_static_mesh := Some 0\<rparr>) [EvBeginPlay (1 / 2), EvGrab (Some 0)])) 0) \<and>
   is_grabbed (fst (run_events new_prop (idle_host\<lparr>owner_static_mesh := Some 0\<rparr>)
       [EvBeginPlay (1 / 2), EvGrab (Some 0), EvPhysicalize (Some 0) (1 / 2)])) \<and>
   m_simulating (meshes (snd (run_events new_prop (idle_host\<lparr>owner_static_mesh := Some 0\<rparr>)
       [EvBeginPlay (1 / 2), EvGrab (Some 0), EvPhysicalize (Some 0) (1 / 2)])) 0)"
proof -
  let ?s = "run_events new_prop (idle_host\<lparr>owner_static_mesh := Some 0\<rparr>) [EvBeginPlay (1 / 2), EvGrab (Some 0)]"
  have r: "reachable (fst ?s) (snd ?s)"
    by (rule reachable_run_events [OF reachable_new_prop]) simp_all
  have g: "is_grabbed (fst ?s)" and m: "managed_mesh (fst ?s) = Some 0" and ns: "\<not> m_simulating (meshes (snd ?s) 0)"
    by (simp_all add: begin_play_def physicalize_def grab_def Let_def idle_holder_def)
  have e: "run_events new_prop (idle_host\<lparr>owner_static_mesh := Some 0\<rparr>)
       [EvBeginPlay (1 / 2), EvGrab (Some 0), EvPhysicalize (Some 0) (1 / 2)] =
     (fst (dispatch (fst ?s) (snd ?s) (EvPhysicalize (Some 0) (1 / 2))),
      apply_calls (snd ?s) (snd (dispatch (fst ?s) (snd ?s) (EvPhysicalize (Some 0) (1 / 2)))))"
    using run_events_append [of new_prop "idle_host\<lparr>owner_static_mesh := Some 0\<rparr>"
        "[EvBeginPlay (1 / 2), EvGrab (Some 0)]" "[EvPhysicalize (Some 0) (1 / 2)]"]
    by (simp only: append.simps case_prod_beta run_events.simps prod.case)
  show ?thesis
    using physicalize_while_grabbed [OF r g m, of "1 / 2"] r g m ns e by simp
qed

end
