(* ===== verification/Grab_Spec.thy ===== *)
theory Grab_Spec
  imports Prop_Controller Rotator
begin

text \<open>
  The grab controller against the state machine of its specification. The specification
  has two states, \<open>Idle\<close> and \<open>Held\<close> (with the holder), and two transitions:
  \<^item> \<open>Idle \<rightarrow> Held\<close> by a grab with a holder on a physicalized body;
  \<^item> \<open>Held \<rightarrow> Idle\<close> by a drop or a throw.
  Everything else leaves the state as it is. \<open>abs_grab\<close> reads the abstract state off the
  component's \<open>CurrentHolder\<close>. The refinement lemma shows that every event the engine
  delivers moves the abstract state as the specification does, except a second grab of a
  held prop.

  The second part is the liveness of the hold. While a prop is held and ticking, and the
  holder and the scene stand still, the ticks move the owner to the grab target and turn
  it to the holder's rotation in finitely many steps, and keep it there, because
  \<open>VInterpTo\<close> and \<open>RInterpTo\<close> shrink the remaining distance and angle geometrically
  until they snap.
\<close>

section \<open>The abstract machine\<close>

datatype grab_state = Idle | Held holder_id

datatype grab_op = OpGrab holder_id | OpRelease | OpNone

fun spec_step :: "grab_state \<Rightarrow> grab_op \<Rightarrow> grab_state" where
  "spec_step Idle (OpGrab hid) = Held hid"
| "spec_step (Held x) OpRelease = Idle"
| "spec_step s op = s"

definition abs_grab :: "prop_comp \<Rightarrow> grab_state" where
  "abs_grab p = (case current_holder p of None \<Rightarrow> Idle | Some hid \<Rightarrow> Held hid)"

text \<open>The abstract operation an engine event is: a grab needs a holder and a
  physicalized body; a drop and a throw release.\<close>

fun op_of :: "prop_comp \<Rightarrow> event \<Rightarrow> grab_op" where
  "op_of p (EvGrab (Some hid)) = (if managed_mesh p \<noteq> None then OpGrab hid else OpNone)"
| "op_of p EvDrop = OpRelease"
| "op_of p (EvThrow d f) = OpRelease"
| "op_of p ev = OpNone"

section \<open>Runs of ticks\<close>

text \<open>The location and the rotation one tick of \<open>UpdateGrabbedPosition\<close> gives the owner,
  as functions of the owner's current ones.\<close>

definition hold_step :: "prop_comp \<Rightarrow> host \<Rightarrow> holder_id \<Rightarrow> vec \<Rightarrow> vec" where
  "hold_step p h hid c = vinterp_to c (grab_target p h hid) (delta_seconds h) 20"

definition hold_turn :: "host \<Rightarrow> holder_id \<Rightarrow> rot \<Rightarrow> rot" where
  "hold_turn h hid r = rinterp_to r (h_rotation (holders h hid)) (delta_seconds h) 20"

section \<open>Lemmas\<close>

lemma fst_dispatch_holder:
  "\<not> (\<exists>hopt. ev = EvGrab hopt) \<Longrightarrow> ev \<noteq> EvDrop \<Longrightarrow> \<not> (\<exists>d f. ev = EvThrow d f) \<Longrightarrow>
   current_holder (fst (dispatch p h ev)) = current_holder p"
  by (cases ev) (auto simp: handler_defs Let_def split: option.split prod.split)

lemma sweep_apply_calls [simp]: "sweep (apply_calls h cs) = sweep h"
proof (induction cs arbitrary: h)
  case (Cons c cs)
  then show ?case by (cases c) auto
qed simp

lemma grab_target_apply_calls [simp]: "grab_target p (apply_calls h cs) hid = grab_target p h hid"
  by (simp add: grab_target_def)

lemma hold_step_apply_calls [simp]: "hold_step p (apply_calls h cs) hid = hold_step p h hid"
  by (simp add: hold_step_def fun_eq_iff)

lemma hold_turn_apply_calls [simp]: "hold_turn (apply_calls h cs) hid = hold_turn h hid"
  by (simp add: hold_turn_def fun_eq_iff)

lemma held_tick:
  assumes "managed_mesh p = Some mi" and "0 < ccd_speed_threshold p" and "is_grabbed p"
    and "current_holder p = Some hid" and "comp_tick h"
  shows "dispatch p h (EvTick dt) = (p, tick_component p h dt) \<and>
    owner_location (apply_calls h (tick_component p h dt)) = hold_step p h hid (owner_location h) \<and>
    owner_rotation (apply_calls h (tick_component p h dt)) = hold_turn h hid (owner_rotation h) \<and>
    comp_tick (apply_calls h (tick_component p h dt))"
  using assms
  by (simp add: tick_component_active update_grabbed_position_def hold_step_def hold_turn_def)

lemma held_ticks:
  assumes "managed_mesh p = Some mi" and "0 < ccd_speed_threshold p" and "is_grabbed p"
    and "current_holder p = Some hid" and "comp_tick h"
  shows "owner_location (snd (run_events p h (replicate n (EvTick dt)))) =
      (hold_step p h hid ^^ n) (owner_location h) \<and>
    owner_rotation (snd (run_events p h (replicate n (EvTick dt)))) =
      (hold_turn h hid ^^ n) (owner_rotation h)"
  using assms(5)
proof (induction n arbitrary: h)
  case (Suc n)
  define cs where "cs = tick_component p h dt"
  have d: "dispatch p h (EvTick dt) = (p, cs)" and "comp_tick (apply_calls h cs)" and
    "owner_location (apply_calls h cs) = hold_step p h hid (owner_location h)" and
    "owner_rotation (apply_calls h cs) = hold_turn h hid (owner_rotation h)"
    using held_tick [OF assms(1-4) Suc.prems, where dt = dt] by (simp_all add: cs_def)
  then show ?case
    using Suc.IH [of "apply_calls h cs"] by (simp add: funpow_Suc_right del: funpow.simps)
qed simp

lemma spec_step_OpNone [simp]: "spec_step s OpNone = s"
  by (cases s) simp_all

section \<open>Properties\<close>

text \<open>C2: Every event delivered to a reachable component moves the abstract grab state (Idle, or Held with the holder) exactly as the specification's state machine does: Grab with a holder on a physicalized body goes from Idle to Held, Drop and Throw return to Idle, and all other events leave the state unchanged; the only exception is a second Grab of a held prop.\<close>

lemma grab_refines_spec:
  assumes "reachable p h" and "\<not> (is_grabbed p \<and> (\<exists>hid. ev = EvGrab (Some hid)))"
  shows "abs_grab (fst (dispatch p h ev)) = spec_step (abs_grab p) (op_of p ev)"
proof -
  have inv: "grab_inv p" using reachable_grab_inv [OF assms(1)] .
  have keep: "abs_grab (fst (dispatch p h ev)) = abs_grab p"
    if "\<not> (\<exists>hopt. ev = EvGrab hopt)" "ev \<noteq> EvDrop" "\<not> (\<exists>d f. ev = EvThrow d f)"
    using fst_dispatch_holder [OF that] by (simp add: abs_grab_def)
  show ?thesis
  proof (cases ev)
    case (EvGrab hopt)
    then show ?thesis
      using inv assms(2)
      by (cases hopt) (auto simp: abs_grab_def grab_inv_def grab_def Let_def split: option.split)
  next
    case EvDrop
    then show ?thesis
      using inv by (auto simp: abs_grab_def grab_inv_def drop_prop_def Let_def split: option.split)
  next
    case (EvThrow d f)
    then show ?thesis
      using inv by (auto simp: abs_grab_def grab_inv_def throw_def drop_prop_def Let_def split: option.split)
  qed (use keep in auto)
qed

lemma grab_refines_spec_witness:
  "reachable new_prop idle_host \<and> \<not> is_grabbed new_prop \<and>
   abs_grab (fst (dispatch new_prop idle_host (EvGrab (Some 0)))) = Idle \<and>
   reachable (fst (run_events new_prop (idle_host\<lparr>owner_static_mesh := Some 0\<rparr>) [EvBeginPlay (1 / 2)]))
     (snd (run_events new_prop (idle_host\<lparr>owner_static_mesh := Some 0\<rparr>) [EvBeginPlay (1 / 2)])) \<and>
   abs_grab (fst (dispatch (fst (run_events new_prop (idle_host\<lparr>owner_static_mesh := Some 0\<rparr>) [EvBeginPlay (1 / 2)]))
       (snd (run_events new_prop (idle_host\<lparr>owner_static_mesh := Some 0\<rparr>) [EvBeginPlay (1 / 2)])) (EvGrab (Some 0))))
     = Held 0"
proof -
  let ?s = "run_events new_prop (idle_host\<lparr>owner_static_mesh := Some 0\<rparr>) [EvBeginPlay (1 / 2)]"
  have r0: "reachable new_prop idle_host" by (rule reachable_new_prop) simp_all
  have r1: "reachable (fst ?s) (snd ?s)"
    by (rule reachable_run_events [OF reachable_new_prop]) simp_all
  have g: "\<not> is_grabbed (fst ?s)" and m: "managed_mesh (fst ?s) = Some 0"
    by (simp_all add: begin_play_def physicalize_def)
  show ?thesis
    using grab_refines_spec [OF r0, of "EvGrab (Some 0)"] grab_refines_spec [OF r1, of "EvGrab (Some 0)"]
      r0 r1 g m by (simp add: abs_grab_def begin_play_def physicalize_def)
qed

text \<open>C13: While a prop is held and its tick is enabled (with CCDSpeedThreshold > 0, since otherwise the tick returns before the grab logic), and the holder and the scene stand still, after finitely many ticks the owner stands exactly at the grab target with the holder's rotation, and every later tick keeps it there.\<close>

lemma hold_reaches_target:
  assumes "managed_mesh p = Some mi" and "0 < ccd_speed_threshold p" and "is_grabbed p"
    and "current_holder p = Some hid" and "comp_tick h" and "0 < delta_seconds h"
  shows "\<exists>n. \<forall>k.
    owner_location (snd (run_events p h (replicate (n + k) (EvTick dt)))) = grab_target p h hid \<and>
    owner_rotation (snd (run_events p h (replicate (n + k) (EvTick dt)))) = h_rotation (holders h hid)"
proof -
  have "\<exists>n. \<forall>k. (hold_step p h hid ^^ (n + k)) (owner_location h) = grab_target p h hid"
    using vinterp_to_stays [where speed = 20 and dt = "delta_seconds h" and tgt = "grab_target p h hid"
        and cur = "owner_location h"] assms(6) by (simp add: hold_step_def [abs_def])
  then obtain n1 where n1: "\<forall>k. (hold_step p h hid ^^ (n1 + k)) (owner_location h) = grab_target p h hid" ..
  have "\<exists>n. \<forall>k. (hold_turn h hid ^^ (n + k)) (owner_rotation h) = h_rotation (holders h hid)"
    using rinterp_to_reaches [where speed = 20 and dt = "delta_seconds h" and tgt = "h_rotation (holders h hid)"
        and cur = "owner_rotation h"] assms(6) by (simp add: hold_turn_def [abs_def])
  then obtain n2 where n2: "\<forall>k. (hold_turn h hid ^^ (n2 + k)) (owner_rotation h) = h_rotation (holders h hid)" ..
  have "owner_location (snd (run_events p h (replicate (n1 + n2 + k) (EvTick dt)))) = grab_target p h hid \<and>
    owner_rotation (snd (run_events p h (replicate (n1 + n2 + k) (EvTick dt)))) = h_rotation (holders h hid)" for k
    using held_ticks [OF assms(1-5), of "n1 + n2 + k" dt] spec [OF n1, of "n2 + k"] spec [OF n2, of "n1 + k"]
    by (simp add: ac_simps)
  then show ?thesis by blast
qed

lemma hold_reaches_target_witness:
  "managed_mesh (new_prop\<lparr>managed_mesh := Some 0, is_grabbed := True, current_holder := Some 0, hold_distance := 50\<rparr>) = Some 0 \<and>
   0 < ccd_speed_threshold (new_prop\<lparr>managed_mesh := Some 0, is_grabbed := True, current_holder := Some 0, hold_distance := 50\<rparr>) \<and>
   is_grabbed (new_prop\<lparr>managed_mesh := Some 0, is_grabbed := True, current_holder := Some 0, hold_distance := 50\<rparr>) \<and>
   current_holder (new_prop\<lparr>managed_mesh := Some 0, is_grabbed := True, current_holder := Some 0, hold_distance := 50\<rparr>) = Some 0 \<and>
   comp_tick (idle_host\<lparr>comp_tick := True, holders := (\<lambda>_. idle_holder\<lparr>h_rotation := Rot 0 90 0\<rparr>)\<rparr>) \<and>
   0 < delta_seconds (idle_host\<lparr>comp_tick := True, holders := (\<lambda>_. idle_holder\<lparr>h_rotation := Rot 0 90 0\<rparr>)\<rparr>) \<and>
   (\<exists>n. \<forall>k.
     owner_location (snd (run_events (new_prop\<lparr>managed_mesh := Some 0, is_grabbed := True, current_holder := Some 0, hold_distance := 50\<rparr>)
       (idle_host\<lparr>comp_tick := True, holders := (\<lambda>_. idle_holder\<lparr>h_rotation := Rot 0 90 0\<rparr>)\<rparr>) (replicate (n + k) (EvTick (1 / 60))))) = Vec 50 0 0 \<and>
     owner_rotation (snd (run_events (new_prop\<lparr>managed_mesh := Some 0, is_grabbed := True, current_holder := Some 0, hold_distance := 50\<rparr>)
       (idle_host\<lparr>comp_tick := True, holders := (\<lambda>_. idle_holder\<lparr>h_rotation := Rot 0 90 0\<rparr>)\<rparr>) (replicate (n + k) (EvTick (1 / 60))))) = Rot 0 90 0)"
proof -
  have "grab_target (new_prop\<lparr>managed_mesh := Some 0, is_grabbed := True, current_holder := Some 0, hold_distance := 50\<rparr>)
      (idle_host\<lparr>comp_tick := True, holders := (\<lambda>_. idle_holder\<lparr>h_rotation := Rot 0 90 0\<rparr>)\<rparr>) 0 = Vec 50 0 0"
    by (simp add: grab_target_def idle_holder_def zero_vec_def)
  then show ?thesis
    using hold_reaches_target [where p = "new_prop\<lparr>managed_mesh := Some 0, is_grabbed := True, current_holder := Some 0, hold_distance := 50\<rparr>"
        and mi = 0 and hid = 0 and h = "idle_host\<lparr>comp_tick := True, holders := (\<lambda>_. idle_holder\<lparr>h_rotation := Rot 0 90 0\<rparr>)\<rparr>" and dt = "1 / 60"]
    by simp
qed

end
