(* ===== verification/Scheduling.thy ===== *)
theory Scheduling
  imports Prop_Controller
begin

text \<open>
  The component over time, following the concurrency model of the specification: ticks,
  timer callbacks and physics notifications are delivered one at a time on one thread, in
  an order the engine chooses. \<open>runtime_wf\<close> states the ranges of the runtime fields
  (\<open>LastImpactTime\<close>, \<open>HoldDistance\<close>) that every reachable state keeps. The lemmas show:
  \<^item> the sleep and wake callbacks undo each other;
  \<^item> a tick and a distance-check callback commute when the prop is not held, because
    they then touch different fields of the mesh (the held case is in \<open>Composition\<close>);
  \<^item> over any run, impact sounds are spaced by at least the cooldown.
\<close>

section \<open>Definitions\<close>

definition runtime_wf :: "prop_comp \<Rightarrow> host \<Rightarrow> bool" where
  "runtime_wf p h =
     (0 \<le> last_impact_time p \<and> last_impact_time p \<le> world_time h \<and>
      0 \<le> hold_distance p \<and> hold_distance p \<le> 250)"

text \<open>A run mixes engine events with world steps; \<open>sound_times\<close> lists the world times at
  which it plays an impact sound.\<close>

datatype step = SEv event | SWorld world_event

fun is_sound :: "ecall \<Rightarrow> bool" where
  "is_sound (PlaySoundAtLocation s l v pt) = True"
| "is_sound c = False"

fun sound_times :: "prop_comp \<Rightarrow> host \<Rightarrow> step list \<Rightarrow> real list" where
  "sound_times p h [] = []"
| "sound_times p h (SEv e # ss) =
     (case dispatch p h e of (p', cs) \<Rightarrow>
        (if list_ex is_sound cs then [world_time h] else []) @ sound_times p' (apply_calls h cs) ss)"
| "sound_times p h (SWorld w # ss) = sound_times p (world_step h w) ss"

section \<open>Lemmas\<close>

lemma fst_dispatch_last_impact:
  "last_impact_time (fst (dispatch p h ev)) = last_impact_time p \<or>
     last_impact_time (fst (dispatch p h ev)) = world_time h"
  by (cases ev) (auto simp: handler_defs Let_def split: option.split prod.split)

lemma fst_dispatch_hold:
  "hold_distance (fst (dispatch p h ev)) = hold_distance p \<or>
     (50 \<le> hold_distance (fst (dispatch p h ev)) \<and> hold_distance (fst (dispatch p h ev)) \<le> 250)"
proof (cases "\<exists>hid. ev = EvGrab (Some hid)")
  case True
  then obtain hid where ev: "ev = EvGrab (Some hid)" by blast
  show ?thesis
  proof (cases "managed_mesh p")
    case None
    then show ?thesis using ev by (simp add: grab_None_mesh)
  next
    case (Some mi)
    then show ?thesis using ev fclamp_bounds [of 50 250] by (simp add: grab_Some)
  qed
next
  case False
  then show ?thesis
    by (cases ev) (auto simp: grab_None_holder handler_defs Let_def split: option.split prod.split)
qed

lemma runtime_wf_dispatch:
  "0 \<le> world_time h \<Longrightarrow> runtime_wf p h \<Longrightarrow> runtime_wf (fst (dispatch p h ev)) (apply_calls h (snd (dispatch p h ev)))"
  using fst_dispatch_last_impact [of p h ev] fst_dispatch_hold [of p h ev] by (auto simp: runtime_wf_def)

lemma runtime_wf_world:
  "0 \<le> world_time h \<Longrightarrow> runtime_wf p h \<Longrightarrow> world_ok w \<Longrightarrow> 0 \<le> world_time (world_step h w) \<and> runtime_wf p (world_step h w)"
  by (cases w) (auto simp: runtime_wf_def)

lemma mesh_ccd_update_swap:
  "m\<lparr>m_use_ccd := b, m_awake := a\<rparr> = m\<lparr>m_awake := a, m_use_ccd := b\<rparr>"
  "m\<lparr>m_use_ccd := b, m_tick_interval := x\<rparr> = m\<lparr>m_tick_interval := x, m_use_ccd := b\<rparr>"
  by (cases m, simp)+

lemma ccd_call_commutes:
  "d = DestroyOwner \<or> d = MeshCall mj PutAllRigidBodiesToSleep \<or> d = MeshCall mj (SetComponentTickInterval x) \<Longrightarrow>
   apply_call (apply_call h (MeshCall mi (SetUseCCD b))) d = apply_call (apply_call h d) (MeshCall mi (SetUseCCD b))"
  by (cases "mi = mj") (auto simp: fun_upd_twist mesh_ccd_update_swap)

lemma ccd_calls_commute:
  assumes "set ds \<subseteq> {DestroyOwner, MeshCall mj PutAllRigidBodiesToSleep,
      MeshCall mj (SetComponentTickInterval 1), MeshCall mj (SetComponentTickInterval 0)}"
  shows "apply_calls (apply_call h (MeshCall mi (SetUseCCD b))) ds =
    apply_call (apply_calls h ds) (MeshCall mi (SetUseCCD b))"
  using assms
proof (induction ds arbitrary: h)
  case (Cons d ds)
  from Cons.prems have d: "d = DestroyOwner \<or> d = MeshCall mj PutAllRigidBodiesToSleep \<or>
      d = MeshCall mj (SetComponentTickInterval (if d = MeshCall mj (SetComponentTickInterval 1) then 1 else 0))"
    and ds: "set ds \<subseteq> {DestroyOwner, MeshCall mj PutAllRigidBodiesToSleep,
      MeshCall mj (SetComponentTickInterval 1), MeshCall mj (SetComponentTickInterval 0)}"
    by auto
  have "apply_calls (apply_call h (MeshCall mi (SetUseCCD b))) (d # ds) =
      apply_calls (apply_call (apply_call h d) (MeshCall mi (SetUseCCD b))) ds"
    by (simp only: apply_calls_Cons ccd_call_commutes [OF d])
  also have "\<dots> = apply_call (apply_calls (apply_call h d) ds) (MeshCall mi (SetUseCCD b))"
    by (rule Cons.IH [OF ds])
  finally show ?case by (simp only: apply_calls_Cons)
qed simp

lemma tick_component_ungrabbed:
  "\<not> is_grabbed p \<Longrightarrow> tick_component p h dt =
     (case managed_mesh p of None \<Rightarrow> []
      | Some mi \<Rightarrow> if ccd_speed_threshold p \<le> 0 then []
          else if m_use_ccd (meshes h mi) \<noteq> want_ccd p (m_velocity (meshes h mi))
          then [MeshCall mi (SetUseCCD (want_ccd p (m_velocity (meshes h mi))))] else [])"
  by (simp add: tick_component_def Let_def split: option.split)

lemma check_distance_ccd_call:
  "check_distance_to_player p (h\<lparr>meshes := (meshes h)(mi := meshes h mi\<lparr>m_use_ccd := b\<rparr>)\<rparr>) =
   check_distance_to_player p h"
  by (auto simp: check_distance_to_player_def Let_def split: option.split)

lemma proximity_calls_keep:
  assumes "set ds \<subseteq> {DestroyOwner, MeshCall mj PutAllRigidBodiesToSleep,
      MeshCall mj (SetComponentTickInterval 1), MeshCall mj (SetComponentTickInterval 0)}"
  shows "m_use_ccd (meshes (apply_calls h ds) mi) = m_use_ccd (meshes h mi) \<and>
    m_velocity (meshes (apply_calls h ds) mi) = m_velocity (meshes h mi) \<and>
    comp_tick (apply_calls h ds) = comp_tick h \<and> timer (apply_calls h ds) = timer h"
  using assms
proof (induction ds arbitrary: h)
  case (Cons d ds)
  then show ?case by (cases d) auto
qed simp

lemma on_take_any_damage_silent: "c \<in> set (on_take_any_damage p h dmg dt ins cau) \<Longrightarrow> \<not> is_sound c"
  by (auto simp: on_take_any_damage_def split: option.split prod.split if_splits)

lemma take_damage_silent: "c \<in> set (take_damage p h de) \<Longrightarrow> \<not> is_sound c"
  by (cases de) (auto simp: take_damage_def broadcast_any_def on_take_point_damage_def
      on_take_radial_damage_def Let_def dest: on_take_any_damage_silent split: option.split prod.split if_splits)

lemma dispatch_sound:
  "list_ex is_sound (snd (dispatch p h ev)) \<Longrightarrow>
     last_impact_time p + impact_cooldown p \<le> world_time h \<and> last_impact_time (fst (dispatch p h ev)) = world_time h"
  "\<not> list_ex is_sound (snd (dispatch p h ev)) \<Longrightarrow> last_impact_time (fst (dispatch p h ev)) = last_impact_time p"
  "impact_cooldown (fst (dispatch p h ev)) = impact_cooldown p"
proof -
  have "(list_ex is_sound (snd (dispatch p h ev)) \<longrightarrow>
     last_impact_time p + impact_cooldown p \<le> world_time h \<and> last_impact_time (fst (dispatch p h ev)) = world_time h) \<and>
    (\<not> list_ex is_sound (snd (dispatch p h ev)) \<longrightarrow> last_impact_time (fst (dispatch p h ev)) = last_impact_time p) \<and>
    impact_cooldown (fst (dispatch p h ev)) = impact_cooldown p"
  proof (cases ev)
    case (EvDamage de)
    then show ?thesis
      using take_damage_silent [of _ p h de] by (auto simp: list_ex_iff)
  qed (auto simp: handler_defs tick_component_def update_grabbed_position_def list_ex_iff Let_def
      split: option.split prod.split if_splits)
  then show "list_ex is_sound (snd (dispatch p h ev)) \<Longrightarrow>
     last_impact_time p + impact_cooldown p \<le> world_time h \<and> last_impact_time (fst (dispatch p h ev)) = world_time h"
    "\<not> list_ex is_sound (snd (dispatch p h ev)) \<Longrightarrow> last_impact_time (fst (dispatch p h ev)) = last_impact_time p"
    "impact_cooldown (fst (dispatch p h ev)) = impact_cooldown p"
    by simp_all
qed

section \<open>Properties\<close>

text \<open>C15: In every reachable state the runtime fields stay in the ranges their declarations imply: the world time is non-negative, LastImpactTime lies between 0 and the current world time, and HoldDistance lies in [0, 250].\<close>

lemma reachable_runtime_wf: "reachable p h \<Longrightarrow> 0 \<le> world_time h \<and> runtime_wf p h"
proof (induction rule: reachable.induct)
  case (event p h ev p' cs)
  then show ?case using runtime_wf_dispatch [of h p ev] by simp
next
  case (world p h w)
  then show ?case using runtime_wf_world by blast
qed (simp add: runtime_wf_def)

lemma reachable_runtime_wf_witness:
  "reachable new_prop (world_step idle_host (Clock (1 / 60))) \<and>
   last_impact_time new_prop = 0 \<and> world_time (world_step idle_host (Clock (1 / 60))) = 1 / 60 \<and>
   hold_distance new_prop = 0"
proof -
  have r: "reachable new_prop (world_step idle_host (Clock (1 / 60)))"
    by (rule reachable.world [OF reachable_new_prop]) simp_all
  show ?thesis using reachable_runtime_wf [OF r] r by simp
qed

text \<open>C28: A sleep notification followed by a wake notification on the managed mesh restores the host exactly when the component and the actor were ticking and, with authority, movement was replicated: the callbacks are inverse to each other.\<close>

lemma sleep_wake_roundtrip:
  assumes "OnSleep \<in> m_bindings (meshes h mi)" and "OnWake \<in> m_bindings (meshes h mi)"
    and "comp_tick h" and "actor_tick h" and "owner_authority h \<longrightarrow> replicate_movement h"
  shows "run_events p h [EvSleep mi, EvWake mi] = (p, h)"
  using assms by (cases h) (auto simp: on_physics_sleep_def on_physics_wake_def)

lemma sleep_wake_roundtrip_witness:
  "OnSleep \<in> m_bindings (meshes (idle_host\<lparr>comp_tick := True, meshes := (\<lambda>_. idle_mesh\<lparr>m_bindings := {OnSleep, OnWake}\<rparr>)\<rparr>) 0) \<and>
   OnWake \<in> m_bindings (meshes (idle_host\<lparr>comp_tick := True, meshes := (\<lambda>_. idle_mesh\<lparr>m_bindings := {OnSleep, OnWake}\<rparr>)\<rparr>) 0) \<and>
   comp_tick (idle_host\<lparr>comp_tick := True, meshes := (\<lambda>_. idle_mesh\<lparr>m_bindings := {OnSleep, OnWake}\<rparr>)\<rparr>) \<and>
   actor_tick (idle_host\<lparr>comp_tick := True, meshes := (\<lambda>_. idle_mesh\<lparr>m_bindings := {OnSleep, OnWake}\<rparr>)\<rparr>) \<and>
   replicate_movement (idle_host\<lparr>comp_tick := True, meshes := (\<lambda>_. idle_mesh\<lparr>m_bindings := {OnSleep, OnWake}\<rparr>)\<rparr>) \<and>
   run_events new_prop (idle_host\<lparr>comp_tick := True, meshes := (\<lambda>_. idle_mesh\<lparr>m_bindings := {OnSleep, OnWake}\<rparr>)\<rparr>) [EvSleep 0, EvWake 0] =
     (new_prop, idle_host\<lparr>comp_tick := True, meshes := (\<lambda>_. idle_mesh\<lparr>m_bindings := {OnSleep, OnWake}\<rparr>)\<rparr>)"
  using sleep_wake_roundtrip [where h = "idle_host\<lparr>comp_tick := True, meshes := (\<lambda>_. idle_mesh\<lparr>m_bindings := {OnSleep, OnWake}\<rparr>)\<rparr>"
      and mi = 0 and p = new_prop]
  by (simp add: idle_host_def)

text \<open>C14: For a prop that is not held, a tick and a distance-check timer callback commute: delivering them in either order yields the same component and host, as the spec's concurrency model requires.\<close>

lemma tick_timer_commute:
  assumes "\<not> is_grabbed p"
  shows "run_events p h [EvTick dt, EvDistanceTimer] = run_events p h [EvDistanceTimer, EvTick dt]"
proof (cases "managed_mesh p")
  case None
  then show ?thesis
    using assms by (simp add: tick_component_ungrabbed check_distance_to_player_def)
next
  case (Some mi)
  define D where "D = (if timer h \<noteq> None then check_distance_to_player p h else [])"
  define T where "T = (if comp_tick h then tick_component p h dt else [])"
  have Dset: "set D \<subseteq> {DestroyOwner, MeshCall mi PutAllRigidBodiesToSleep,
      MeshCall mi (SetComponentTickInterval 1), MeshCall mi (SetComponentTickInterval 0)}"
    using check_distance_calls_cases [of p h] Some by (auto simp: D_def)
  have T: "T = [] \<or> (\<exists>b. T = [MeshCall mi (SetUseCCD b)])"
    using assms Some by (simp add: T_def tick_component_ungrabbed)
  have keepD: "(if timer (apply_calls h T) \<noteq> None then check_distance_to_player p (apply_calls h T) else []) = D"
    using T by (auto simp: D_def check_distance_ccd_call)
  have keepT: "(if comp_tick (apply_calls h D) then tick_component p (apply_calls h D) dt else []) = T"
    using proximity_calls_keep [OF Dset, of h mi] assms Some by (simp add: T_def tick_component_ungrabbed)
  have c: "apply_calls (apply_calls h T) D = apply_calls (apply_calls h D) T"
    using T ccd_calls_commute [OF Dset] by auto
  have e1: "dispatch p h (EvTick dt) = (p, T)" and e3: "dispatch p h EvDistanceTimer = (p, D)"
    by (simp_all add: T_def D_def)
  have e2: "dispatch p (apply_calls h T) EvDistanceTimer = (p, D)"
    using keepD by simp
  have e4: "dispatch p (apply_calls h D) (EvTick dt) = (p, T)"
    using keepT by simp
  show ?thesis
    by (simp only: run_events.simps e1 e2 e3 e4 prod.case c)
qed

lemma tick_timer_commute_witness:
  "\<not> is_grabbed (new_prop\<lparr>managed_mesh := Some 0\<rparr>) \<and>
   run_events (new_prop\<lparr>managed_mesh := Some 0\<rparr>)
       (idle_host\<lparr>comp_tick := True, timer := Some (1, True), first_view := Some (Vec 3020 0 0),
          meshes := (\<lambda>_. idle_mesh\<lparr>m_velocity := Vec 600 0 0\<rparr>)\<rparr>) [EvTick (1 / 60), EvDistanceTimer] =
   run_events (new_prop\<lparr>managed_mesh := Some 0\<rparr>)
       (idle_host\<lparr>comp_tick := True, timer := Some (1, True), first_view := Some (Vec 3020 0 0),
          meshes := (\<lambda>_. idle_mesh\<lparr>m_velocity := Vec 600 0 0\<rparr>)\<rparr>) [EvDistanceTimer, EvTick (1 / 60)]"
  using tick_timer_commute [where p = "new_prop\<lparr>managed_mesh := Some 0\<rparr>" and dt = "1 / 60"
      and h = "idle_host\<lparr>comp_tick := True, timer := Some (1, True), first_view := Some (Vec 3020 0 0),
          meshes := (\<lambda>_. idle_mesh\<lparr>m_velocity := Vec 600 0 0\<rparr>)\<rparr>"]
  by simp

text \<open>C16: Over every run that mixes engine events and world steps, impact sounds play at world times that are at least ImpactCooldown apart, and the first comes at least ImpactCooldown after the recorded LastImpactTime.\<close>

lemma impact_sounds_spaced:
  "successively (\<lambda>a b. a + impact_cooldown p \<le> b) (last_impact_time p # sound_times p h ss)"
proof (induction ss arbitrary: p h)
  case (Cons s ss)
  show ?case
  proof (cases s)
    case (SEv e)
    obtain p' cs where d: "dispatch p h e = (p', cs)" by fastforce
    have c: "impact_cooldown p' = impact_cooldown p" using dispatch_sound(3) [of p h e] d by simp
    have ih: "successively (\<lambda>a b. a + impact_cooldown p \<le> b) (last_impact_time p' # sound_times p' (apply_calls h cs) ss)"
      using Cons.IH [of p' "apply_calls h cs"] c by simp
    show ?thesis
    proof (cases "list_ex is_sound cs")
      case True
      then show ?thesis
        using dispatch_sound(1) [of p h e] d ih SEv by simp
    next
      case False
      then show ?thesis
        using dispatch_sound(2) [of p h e] d ih SEv by simp
    qed
  next
    case (SWorld w)
    then show ?thesis using Cons.IH [of p "world_step h w"] by simp
  qed
qed simp

end
