(* ===== verification/Composition.thy ===== *)
theory Composition
  imports Grab_Spec Scheduling
begin

text \<open>
  How the components interact in reachable runs.
  \<^item> \<open>PhysicsCullDistance = 0\<close> disables the proximity scheduler: \<open>Physicalize\<close> then
    starts no timer, so the check never runs.
  \<^item> The grab controller and the damage translator: a held prop's mesh does not simulate,
    so every damage handler returns at its guard. This holds in runs without a
    \<open>Physicalize\<close> on a held prop, the one event that turns simulation back on; the
    restricted reachability \<open>reachable_under\<close> follows AWN's reachability under a
    predicate on the actions.
  \<^item> The grab controller and the proximity scheduler: for a held prop the tick moves the
    owner and the distance check measures the owner, so the tick interval the check
    leaves depends on which of the two the engine runs first.
\<close>

section \<open>Definitions\<close>

text \<open>The one engine event that can turn simulation back on under a held prop: a
  \<open>Physicalize\<close> while it is grabbed.\<close>

fun rephysicalize :: "prop_comp \<Rightarrow> event \<Rightarrow> bool" where
  "rephysicalize p (EvPhysicalize t r) = is_grabbed p"
| "rephysicalize p ev = False"

text \<open>Reachability restricted to runs whose events satisfy \<open>allowed\<close>.\<close>

inductive reachable_under :: "(prop_comp \<Rightarrow> event \<Rightarrow> bool) \<Rightarrow> prop_comp \<Rightarrow> host \<Rightarrow> bool"
  for allowed :: "prop_comp \<Rightarrow> event \<Rightarrow> bool" where
  init: "0 \<le> world_time h \<Longrightarrow> timer h = None \<Longrightarrow>
    reachable_under allowed (configured cull interval ccd tbl thr cooldown) h"
| event: "reachable_under allowed p h \<Longrightarrow> allowed p ev \<Longrightarrow> rand_ok ev \<Longrightarrow> dispatch p h ev = (p', cs) \<Longrightarrow>
    reachable_under allowed p' (apply_calls h cs)"
| world: "reachable_under allowed p h \<Longrightarrow> world_ok w \<Longrightarrow> reachable_under allowed p (world_step h w)"

text \<open>A held prop's managed mesh does not simulate.\<close>

definition held_still :: "prop_comp \<Rightarrow> host \<Rightarrow> bool" where
  "held_still p h =
     (case managed_mesh p of None \<Rightarrow> True | Some mi \<Rightarrow> is_grabbed p \<longrightarrow> \<not> m_simulating (meshes h mi))"

section \<open>Lemmas\<close>

lemma reachable_under_reachable: "reachable_under allowed p h \<Longrightarrow> reachable p h"
  by (induction rule: reachable_under.induct) (auto intro: reachable.intros)

lemma begin_play_cases:
  "begin_play p h r = physicalize p h (owner_static_mesh h) r \<or> begin_play p h r = (p, [])"
  by (auto simp: begin_play_def split: option.split)

lemma physicalize_no_timer:
  "physics_cull_distance p \<le> 0 \<Longrightarrow> SetTimer per l \<notin> set (snd (physicalize p h t r))"
  by (auto simp: physicalize_def split: option.split)

lemma dispatch_timer_culling_off:
  assumes "physics_cull_distance p \<le> 0"
  shows "timer (apply_calls h (snd (dispatch p h ev))) = timer h"
proof (rule timer_apply_calls_no_timer, intro allI)
  fix per l
  show "SetTimer per l \<notin> set (snd (dispatch p h ev))"
  proof (cases "(\<exists>r. ev = EvBeginPlay r) \<or> (\<exists>t r. ev = EvPhysicalize t r)")
    case True
    then show ?thesis
    proof
      assume "\<exists>r. ev = EvBeginPlay r"
      then obtain r where "ev = EvBeginPlay r" ..
      then show ?thesis
        using begin_play_cases [of p h r] physicalize_no_timer [OF assms, of per l h] by auto
    next
      assume "\<exists>t r. ev = EvPhysicalize t r"
      then show ?thesis using physicalize_no_timer [OF assms] by auto
    qed
  next
    case False
    then show ?thesis using dispatch_no_timer by blast
  qed
qed

lemma reachable_culling_off: "reachable p h \<Longrightarrow> physics_cull_distance p \<le> 0 \<Longrightarrow> timer h = None"
proof (induction rule: reachable.induct)
  case (event p h ev p' cs)
  then show ?case
    using dispatch_timer_culling_off [of p h ev] fst_dispatch_config [of p h ev] by simp
next
  case (world p h w)
  then show ?case by (cases w) simp_all
qed simp

lemma mesh_ops_member: "op \<in> set (mesh_ops mi cs) \<Longrightarrow> MeshCall mi op \<in> set cs"
  by (induction mi cs rule: mesh_ops.induct) (auto split: if_splits)

lemma simulating_apply_calls:
  "(\<forall>b. MeshCall mi (SetSimulatePhysics b) \<notin> set cs) \<Longrightarrow>
   m_simulating (meshes (apply_calls h cs) mi) = m_simulating (meshes h mi)"
proof -
  assume a: "\<forall>b. MeshCall mi (SetSimulatePhysics b) \<notin> set cs"
  have "m_simulating (foldl apply_mesh_op m ops) = m_simulating m"
    if "\<forall>b. SetSimulatePhysics b \<notin> set ops" for m ops
    using that
  proof (induction ops arbitrary: m)
    case (Cons op ops)
    then show ?case by (cases op) auto
  qed simp
  then show ?thesis
    using a mesh_ops_member [of _ mi cs] by (auto simp: meshes_apply_calls)
qed

lemma on_take_any_damage_no_simulate:
  "MeshCall mi (SetSimulatePhysics b) \<notin> set (on_take_any_damage p h dmg dt ins cau)"
  by (auto simp: on_take_any_damage_def split: option.split prod.split)

lemma dispatch_no_simulate:
  "\<not> (\<exists>r. ev = EvBeginPlay r) \<Longrightarrow> \<not> (\<exists>t r. ev = EvPhysicalize t r) \<Longrightarrow>
   \<not> (\<exists>hopt. ev = EvGrab hopt) \<Longrightarrow> ev \<noteq> EvDrop \<Longrightarrow> \<not> (\<exists>d f. ev = EvThrow d f) \<Longrightarrow>
   MeshCall mi (SetSimulatePhysics b) \<notin> set (snd (dispatch p h ev))"
proof (cases ev)
  case (EvDamage de)
  then show ?thesis
    by (cases de) (auto simp: take_damage_def broadcast_any_def on_take_any_damage_no_simulate
        on_take_point_damage_def on_take_radial_damage_def Let_def split: option.split prod.split)
qed (auto simp: handler_defs tick_component_def update_grabbed_position_def Let_def
      split: option.split prod.split)

lemma fst_dispatch_grabbed:
  "\<not> (\<exists>hopt. ev = EvGrab hopt) \<Longrightarrow> ev \<noteq> EvDrop \<Longrightarrow> \<not> (\<exists>d f. ev = EvThrow d f) \<Longrightarrow>
   is_grabbed (fst (dispatch p h ev)) = is_grabbed p"
  by (cases ev) (auto simp: handler_defs Let_def split: option.split prod.split)

lemma held_still_other:
  assumes "held_still p h" and "\<not> (\<exists>r. ev = EvBeginPlay r)" and "\<not> (\<exists>t r. ev = EvPhysicalize t r)"
    and "\<not> (\<exists>hopt. ev = EvGrab hopt)" and "ev \<noteq> EvDrop" and "\<not> (\<exists>d f. ev = EvThrow d f)"
  shows "held_still (fst (dispatch p h ev)) (apply_calls h (snd (dispatch p h ev)))"
proof -
  have g: "is_grabbed (fst (dispatch p h ev)) = is_grabbed p"
    using fst_dispatch_grabbed assms(4-6) by blast
  have m: "managed_mesh (fst (dispatch p h ev)) = managed_mesh p"
    using fst_dispatch_managed assms(2,3) by blast
  have s: "m_simulating (meshes (apply_calls h (snd (dispatch p h ev))) mi) = m_simulating (meshes h mi)" for mi
    using simulating_apply_calls dispatch_no_simulate [OF assms(2-6)] by blast
  show ?thesis
    using assms(1) g m s by (auto simp: held_still_def split: option.split)
qed

lemma held_still_dispatch:
  assumes "grab_inv p" and "held_still p h" and "\<not> rephysicalize p ev"
  shows "held_still (fst (dispatch p h ev)) (apply_calls h (snd (dispatch p h ev)))"
proof (cases ev)
  case (EvBeginPlay r)
  then show ?thesis
    using assms(1,2) by (auto simp: held_still_def grab_inv_def begin_play_def fst_physicalize
        split: option.split)
next
  case (EvPhysicalize t r)
  then show ?thesis
    using assms(3) by (auto simp: held_still_def fst_physicalize split: option.split)
next
  case (EvGrab hopt)
  then show ?thesis
    using assms(2)
    by (cases hopt; cases "managed_mesh p")
       (auto simp: held_still_def grab_None_holder grab_None_mesh grab_Some meshes_apply_calls
         split: option.split)
next
  case EvDrop
  then show ?thesis
    using assms(2) by (auto simp: held_still_def drop_prop_def Let_def split: option.split)
next
  case (EvThrow d f)
  then show ?thesis
    using assms(2) by (auto simp: held_still_def throw_def drop_prop_def Let_def split: option.split prod.split)
qed (auto intro!: held_still_other [OF assms(2)] simp del: dispatch.simps)

lemma reachable_under_held_still:
  "reachable_under (\<lambda>p ev. \<not> rephysicalize p ev) p h \<Longrightarrow> held_still p h"
proof (induction rule: reachable_under.induct)
  case (event p h ev p' cs)
  have "grab_inv p" using reachable_grab_inv [OF reachable_under_reachable [OF event.hyps(1)]] .
  then show ?case
    using held_still_dispatch [of p h ev] event by simp
next
  case (world p h w)
  then show ?case by (cases w) (auto simp: held_still_def split: option.split)
qed (simp add: held_still_def)

lemma tick_keeps_interval:
  "m_tick_interval (meshes (apply_calls h (tick_component p h dt)) mi) = m_tick_interval (meshes h mi)"
  by (auto simp: tick_component_def update_grabbed_position_def meshes_apply_calls Let_def
      split: option.split)

lemma tick_no_timer: "SetTimer per l \<notin> set (tick_component p h dt)"
  by (auto simp: tick_component_def update_grabbed_position_def Let_def split: option.split)

section \<open>Properties\<close>

text \<open>C18: With PhysicsCullDistance = 0 (or negative), the feature-disabled sentinel, the distance-check timer is never set in any reachable state, so the proximity scheduler never runs.\<close>

lemma cull_disabled_no_scheduler:
  assumes "reachable p h" and "physics_cull_distance p \<le> 0"
  shows "timer h = None \<and> snd (dispatch p h EvDistanceTimer) = []"
  using reachable_culling_off [OF assms] by simp

lemma cull_disabled_no_scheduler_witness:
  "reachable (fst (run_events (configured 0 1 500 None 10000 (1 / 10)) (idle_host\<lparr>owner_static_mesh := Some 0\<rparr>) [EvBeginPlay (1 / 2)]))
     (snd (run_events (configured 0 1 500 None 10000 (1 / 10)) (idle_host\<lparr>owner_static_mesh := Some 0\<rparr>) [EvBeginPlay (1 / 2)])) \<and>
   physics_cull_distance (fst (run_events (configured 0 1 500 None 10000 (1 / 10)) (idle_host\<lparr>owner_static_mesh := Some 0\<rparr>) [EvBeginPlay (1 / 2)])) = 0 \<and>
   managed_mesh (fst (run_events (configured 0 1 500 None 10000 (1 / 10)) (idle_host\<lparr>owner_static_mesh := Some 0\<rparr>) [EvBeginPlay (1 / 2)])) = Some 0 \<and>
   timer (snd (run_events (configured 0 1 500 None 10000 (1 / 10)) (idle_host\<lparr>owner_static_mesh := Some 0\<rparr>) [EvBeginPlay (1 / 2)])) = None"
proof -
  let ?s = "run_events (configured 0 1 500 None 10000 (1 / 10)) (idle_host\<lparr>owner_static_mesh := Some 0\<rparr>) [EvBeginPlay (1 / 2)]"
  have r: "reachable (fst ?s) (snd ?s)"
    by (rule reachable_run_events [OF reachable.init]) simp_all
  have c: "physics_cull_distance (fst ?s) = 0" and m: "managed_mesh (fst ?s) = Some 0"
    by (simp_all add: begin_play_def physicalize_def)
  show ?thesis using cull_disabled_no_scheduler [OF r] r c m by simp
qed

text \<open>C17: In every state reached without a Physicalize on a held prop, a held prop's mesh does not simulate, so a damage event of any shape leaves it untouched: no wake, no impulse, no tick-interval reset.\<close>

lemma held_prop_ignores_damage:
  assumes "reachable_under (\<lambda>p ev. \<not> rephysicalize p ev) p h"
    and "is_grabbed p" and "managed_mesh p = Some mi"
  shows "\<not> m_simulating (meshes h mi) \<and> snd (dispatch p h (EvDamage de)) = []"
proof -
  have s: "\<not> m_simulating (meshes h mi)"
    using reachable_under_held_still [OF assms(1)] assms(2,3) by (simp add: held_still_def)
  then show ?thesis
    using assms(3)
    by (cases de) (simp_all add: take_damage_def broadcast_any_def on_take_any_damage_def
        on_take_point_damage_def on_take_radial_damage_def)
qed

lemma held_prop_ignores_damage_witness:
  "reachable_under (\<lambda>p ev. \<not> rephysicalize p ev)
     (fst (run_events new_prop (idle_host\<lparr>owner_static_mesh := Some 0\<rparr>) [EvBeginPlay (1 / 2), EvGrab (Some 0)]))
     (snd (run_events new_prop (idle_host\<lparr>owner_static_mesh := Some 0\<rparr>) [EvBeginPlay (1 / 2), EvGrab (Some 0)])) \<and>
   is_grabbed (fst (run_events new_prop (idle_host\<lparr>owner_static_mesh := Some 0\<rparr>) [EvBeginPlay (1 / 2), EvGrab (Some 0)])) \<and>
   managed_mesh (fst (run_events new_prop (idle_host\<lparr>owner_static_mesh := Some 0\<rparr>) [EvBeginPlay (1 / 2), EvGrab (Some 0)])) = Some 0 \<and>
   snd (dispatch (fst (run_events new_prop (idle_host\<lparr>owner_static_mesh := Some 0\<rparr>) [EvBeginPlay (1 / 2), EvGrab (Some 0)]))
     (snd (run_events new_prop (idle_host\<lparr>owner_static_mesh := Some 0\<rparr>) [EvBeginPlay (1 / 2), EvGrab (Some 0)]))
     (EvDamage (DmgPoint 10 zero_vec [] (Vec 1 0 0) OtherDamageType None None))) = []"
proof -
  let ?h0 = "idle_host\<lparr>owner_static_mesh := Some 0\<rparr>"
  let ?s1 = "dispatch new_prop ?h0 (EvBeginPlay (1 / 2))"
  let ?s2 = "dispatch (fst ?s1) (apply_calls ?h0 (snd ?s1)) (EvGrab (Some 0))"
  have r0: "reachable_under (\<lambda>p ev. \<not> rephysicalize p ev) new_prop ?h0"
    using reachable_under.init [of ?h0 _ 3000 1 500 None 10000 "1 / 10"]
    by (simp add: configured_def new_prop_def)
  have r1: "reachable_under (\<lambda>p ev. \<not> rephysicalize p ev) (fst ?s1) (apply_calls ?h0 (snd ?s1))"
    by (rule reachable_under.event [OF r0, where ev = "EvBeginPlay (1 / 2)"]) simp_all
  have r2: "reachable_under (\<lambda>p ev. \<not> rephysicalize p ev) (fst ?s2) (apply_calls (apply_calls ?h0 (snd ?s1)) (snd ?s2))"
    by (rule reachable_under.event [OF r1, where ev = "EvGrab (Some 0)"]) simp_all
  have e: "run_events new_prop ?h0 [EvBeginPlay (1 / 2), EvGrab (Some 0)] =
      (fst ?s2, apply_calls (apply_calls ?h0 (snd ?s1)) (snd ?s2))"
    by (simp split: prod.split)
  have g: "is_grabbed (fst ?s2)" and m: "managed_mesh (fst ?s2) = Some 0"
    by (simp_all add: begin_play_def physicalize_def grab_def Let_def)
  show ?thesis
    using held_prop_ignores_damage [OF r2 g m, of "DmgPoint 10 zero_vec [] (Vec 1 0 0) OtherDamageType None None"]
      r2 g m e by simp
qed


text \<open>C33: For a held, ticking prop the order of a tick and the distance-check callback matters, against the spec's claim that they touch independent state: when the tick runs first it moves the owner one interpolation step towards the grab target and the check then throttles the mesh (tick interval 1) exactly when that new location is beyond PhysicsCullDistance from the viewer; when the check runs first it decides on the old location, and the tick leaves the interval alone.\<close>

lemma held_tick_timer_order:
  assumes "managed_mesh p = Some mi" and "0 < ccd_speed_threshold p" and "is_grabbed p"
    and "current_holder p = Some hid" and "comp_tick h" and "timer h \<noteq> None" and "first_view h = Some obs"
    and "world_floor_z \<le> vz (owner_location h)" and "world_floor_z \<le> vz (hold_step p h hid (owner_location h))"
  shows "m_tick_interval (meshes (snd (run_events p h [EvTick dt, EvDistanceTimer])) mi) =
      (if physics_cull_distance p * physics_cull_distance p < vdist_sq obs (hold_step p h hid (owner_location h))
       then 1 else 0) \<and>
    m_tick_interval (meshes (snd (run_events p h [EvDistanceTimer, EvTick dt])) mi) =
      (if physics_cull_distance p * physics_cull_distance p < vdist_sq obs (owner_location h) then 1 else 0)"
proof
  define T where "T = tick_component p h dt"
  have t: "dispatch p h (EvTick dt) = (p, T)" and loc: "owner_location (apply_calls h T) = hold_step p h hid (owner_location h)"
    using held_tick [OF assms(1-5), where dt = dt] by (simp_all add: T_def)
  have "timer (apply_calls h T) = timer h"
    by (rule timer_apply_calls_no_timer) (simp add: T_def tick_no_timer)
  then have "dispatch p (apply_calls h T) EvDistanceTimer = (p, check_distance_to_player p (apply_calls h T))"
    using assms(6) by simp
  then show "m_tick_interval (meshes (snd (run_events p h [EvTick dt, EvDistanceTimer])) mi) =
      (if physics_cull_distance p * physics_cull_distance p < vdist_sq obs (hold_step p h hid (owner_location h))
       then 1 else 0)"
    using t check_distance_tick_interval [OF assms(1), of "apply_calls h T" obs] loc assms(7,9) by simp
next
  define D where "D = check_distance_to_player p h"
  have d: "dispatch p h EvDistanceTimer = (p, D)" using assms(6) by (simp add: D_def)
  have "set D \<subseteq> {DestroyOwner, MeshCall mi PutAllRigidBodiesToSleep,
      MeshCall mi (SetComponentTickInterval 1), MeshCall mi (SetComponentTickInterval 0)}"
    using check_distance_calls_cases [of p h] assms(1) by (auto simp: D_def)
  then have "comp_tick (apply_calls h D)" using proximity_calls_keep [of D mi h mi] assms(5) by simp
  then have "dispatch p (apply_calls h D) (EvTick dt) = (p, tick_component p (apply_calls h D) dt)"
    using held_tick [OF assms(1-4)] by blast
  then show "m_tick_interval (meshes (snd (run_events p h [EvDistanceTimer, EvTick dt])) mi) =
      (if physics_cull_distance p * physics_cull_distance p < vdist_sq obs (owner_location h) then 1 else 0)"
    using d tick_keeps_interval check_distance_tick_interval [OF assms(1,8,7)] by (simp add: D_def)
qed

lemma held_tick_timer_order_witness:
  "managed_mesh (new_prop\<lparr>managed_mesh := Some 0, is_grabbed := True, current_holder := Some 0, hold_distance := 50\<rparr>) = Some 0 \<and>
   0 < ccd_speed_threshold (new_prop\<lparr>managed_mesh := Some 0, is_grabbed := True, current_holder := Some 0, hold_distance := 50\<rparr>) \<and>
   is_grabbed (new_prop\<lparr>managed_mesh := Some 0, is_grabbed := True, current_holder := Some 0, hold_distance := 50\<rparr>) \<and>
   m_tick_interval (meshes (snd (run_events
      (new_prop\<lparr>managed_mesh := Some 0, is_grabbed := True, current_holder := Some 0, hold_distance := 50\<rparr>)
      (idle_host\<lparr>comp_tick := True, timer := Some (1, True), first_view := Some (Vec 3020 0 0),
         holders := (\<lambda>_. idle_holder\<lparr>h_location := Vec 100 0 0\<rparr>)\<rparr>)
      [EvTick (1 / 60), EvDistanceTimer])) 0) = 0 \<and>
   m_tick_interval (meshes (snd (run_events
      (new_prop\<lparr>managed_mesh := Some 0, is_grabbed := True, current_holder := Some 0, hold_distance := 50\<rparr>)
      (idle_host\<lparr>comp_tick := True, timer := Some (1, True), first_view := Some (Vec 3020 0 0),
         holders := (\<lambda>_. idle_holder\<lparr>h_location := Vec 100 0 0\<rparr>)\<rparr>)
      [EvDistanceTimer, EvTick (1 / 60)])) 0) = 1"
proof -
  let ?p = "new_prop\<lparr>managed_mesh := Some 0, is_grabbed := True, current_holder := Some 0, hold_distance := 50\<rparr>"
  let ?h = "idle_host\<lparr>comp_tick := True, timer := Some (1, True), first_view := Some (Vec 3020 0 0),
         holders := (\<lambda>_. idle_holder\<lparr>h_location := Vec 100 0 0\<rparr>)\<rparr>"
  have hs: "hold_step ?p ?h 0 (owner_location ?h) = Vec 50 0 0"
    by (simp add: hold_step_def grab_target_def vinterp_to_def idle_holder_def zero_vec_def fclamp_def
        kinda_small_number_def Let_def)
  show ?thesis
    using held_tick_timer_order [where p = ?p and h = ?h and mi = 0 and hid = 0 and obs = "Vec 3020 0 0"
        and dt = "1 / 60"] hs
    by (simp add: new_prop_def world_floor_z_def vdist_sq_def zero_vec_def)
qed

end
