(* ===== verification/Spec2Isabelle.thy ===== *)
theory Spec2Isabelle
  imports Grab_Spec Scheduling Composition
begin

text \<open>
  \<^bold>\<open>A verification library for GenericPhysicPropSystem.\<close>

  The repository is an Unreal Engine plugin with one component,
  \<open>UPhysicsPropComponent\<close> (\<open>src/Source/GenericPhysicPropSystem/Public/PhysicsPropComponent.h\<close>,
  \<open>Private/PhysicsPropComponent.cpp\<close>), that turns a static mesh into an interactive
  physics prop, a damage type (\<open>Public/PhysicsPropDamageType.h\<close>) and an impact-sound
  table (\<open>Public/PropPhysicsImpactData.h\<close>). Its parts: the grab controller (\<open>Grab\<close>,
  \<open>Drop\<close>, \<open>Throw\<close>, \<open>UpdateGrabbedPosition\<close>), the CCD gate and the per-tick driver
  (\<open>TickComponent\<close>), the proximity scheduler (\<open>CheckDistanceToPlayer\<close>, run by a repeating
  timer), the damage-to-impulse translator (\<open>OnTakeAnyDamage\<close>, \<open>OnTakePointDamage\<close>,
  \<open>OnTakeRadialDamage\<close>), the impact-audio trigger (\<open>OnComponentHit\<close>) and the lifecycle
  that wires them to the engine (\<open>Physicalize\<close>, \<open>BeginPlay\<close>, the sleep and wake
  callbacks).

  \<^bold>\<open>Modelling.\<close> The component is a record (\<open>Prop_Component.prop_comp\<close>) of the fields the
  header declares, \<open>new_prop\<close> its constructor and initialisers. Everything the component
  reads or changes outside itself (the mesh and its body instance, the owning actor, the
  holders, the world's time, view point, sweep query and timer) is the record
  \<open>Host.host\<close>. Every handler is a function that reads the component and the host and
  returns the new component and the list of engine calls it makes, in source order
  (\<open>Host.ecall\<close>). \<open>Host.apply_calls\<close> gives the documented effect of those calls on the
  host, so a property about the world after a handler is stated on
  \<open>apply_calls h cs\<close>. Floats are \<open>real\<close>. Engine routines (\<open>FMath::Clamp\<close>,
  \<open>GetSafeNormal\<close>, \<open>VInterpTo\<close>, \<open>RInterpTo\<close>, \<open>GetMappedRangeValueClamped\<close>,
  \<open>RandRange\<close>, \<open>FRotator::Vector\<close>) follow their engine definitions. The random draws
  (\<open>FRand\<close>) are parameters \<open>r\<close> with \<open>0 \<le> r \<le> 1\<close>, so each statement holds for every
  possible draw.

  \<^bold>\<open>Theories.\<close>
  \<^item> \<open>Prelude\<close>: object identities, \<open>FVector\<close> arithmetic, shared lemmas.
  \<^item> \<open>Engine_Math\<close>: the engine routines with their bounds.
  \<^item> \<open>Rotator\<close>: \<open>FRotator::NormalizeAxis\<close> as the re-centred remainder modulo a
    whole turn, and the convergence of repeated \<open>RInterpTo\<close> steps.
  \<^item> \<open>Host\<close>: host state, engine calls and their effect, an idle host for concrete instances.
  \<^item> \<open>Prop_Component\<close>: the component, damage-type and sound-table data.
  \<^item> \<open>Grab\<close>: the grab controller. The lemmas cover:
    \<^item> the hold-distance clamp;
    \<^item> Grab then Drop restoring the state;
    \<^item> Throw as Drop plus one impulse;
    \<^item> the regrab leak;
    \<^item> the per-tick move closing the gap to the target by the interpolation factor;
    \<^item> the guards;
    \<^item> the per-tick rotation turning the short way round without overshooting.
  \<^item> \<open>Tick\<close>: \<open>TickComponent\<close> and runs of ticks. The lemmas cover:
    \<^item> one tick settling the CCD flag;
    \<^item> the CCD requests of a run being exactly the changes of the wanted flag;
    \<^item> the early return skipping the grab logic.
  \<^item> \<open>Damage_Impulse\<close>: the three damage handlers and the damage-type resolution. The
    lemmas cover:
    \<^item> the shared multiplier rule;
    \<^item> the guard on simulation;
    \<^item> the any-damage direction.
  \<^item> \<open>Impact_Audio\<close>: \<open>OnComponentHit\<close>. The lemmas cover:
    \<^item> the cooldown;
    \<^item> the volume and pitch ranges;
    \<^item> the inclusive threshold;
    \<^item> the mass normalisation.
  \<^item> \<open>Proximity\<close>: \<open>CheckDistanceToPlayer\<close>. The lemmas cover:
    \<^item> the near and far effects;
    \<^item> idempotence of the force sleep;
    \<^item> the re-issued tick interval;
    \<^item> the world-floor cull;
    \<^item> the fact that the timer never touches tick enablement.
  \<^item> \<open>Lifecycle\<close>: \<open>Physicalize\<close>, \<open>BeginPlay\<close>, the sleep and wake callbacks. The lemmas give
    the host after physicalization and the jittered timer period.
  \<^item> \<open>Prop_Controller\<close>: the composition root.
    \<^item> \<open>dispatch\<close> delivers each engine event to its handler under the engine's
      conditions: tick enabled, timer set, delegate bound.
    \<^item> \<open>take_damage\<close> models \<open>AActor::TakeDamage\<close>.
    \<^item> \<open>world_step\<close> models what changes outside the component.
    \<^item> \<open>reachable\<close> is the set of component and host states that events and world steps
      reach from a new component.
    \<^item> The lemmas are the invariants of reachable states (grab-state consistency,
      delegates and timer wired), the two impulses every point or radial damage event
      delivers to a physicalized prop, and \<open>Physicalize\<close> re-enabling simulation under
      any reachable held prop.
  \<^item> \<open>Grab_Spec\<close>: the Idle/Held state machine of the specification.
    \<^item> The refinement lemma: the abstraction of the component's \<open>CurrentHolder\<close> follows
      the machine on every event, except a second grab of a held prop.
    \<^item> Liveness of the hold: ticks bring a held prop to its target location and to the
      holder's rotation, and keep it there.
  \<^item> \<open>Scheduling\<close>: the component over time.
    \<^item> The ranges of the runtime fields in reachable states.
    \<^item> The sleep/wake round trip.
    \<^item> Tick and timer callbacks commute for a prop that is not held.
    \<^item> Impact sounds are spaced by the cooldown along every run of events and world steps.
  \<^item> \<open>Composition\<close>: interactions between components in reachable runs.
    \<^item> \<open>PhysicsCullDistance = 0\<close> switches the scheduler off. The header documents this
      as "0 = Infinite".
    \<^item> A held prop ignores damage in every run without a re-physicalization.
    \<^item> For a held prop the order of tick and timer callback decides the throttling: the
      check measures the owner where the tick has moved it.
  \<^item> This theory: the reach of the grab target in every reachable held state.

  \<^bold>\<open>Bounds.\<close>
  \<^item> No loop of the component can fail to terminate, so no fuel is needed. Runs of ticks
    (\<open>Tick.tick_run\<close>) and runs of events (\<open>Prop_Controller.run_events\<close>) are structural
    recursion over the given list.
  \<^item> The timer jitter is \<open>RandRange(0, 0.5)\<close>, hence periods in
    \<open>[DistanceCheckInterval, DistanceCheckInterval + 0.5]\<close>. The engine's
    \<open>SetTimer\<close> starts no timer for a period \<open>\<le> 0\<close> (\<open>Host.apply_call\<close>), so the
    timer invariants assume \<open>DistanceCheckInterval > 0\<close>, as the spec requires; the
    designer may set any value, and \<open>Lifecycle.physicalize_sets_up\<close> shows that an
    interval \<open>\<le> -0.5\<close> leaves culling on without a scheduler.
  \<^item> The pitch is \<open>RandRange(0.85, 1.1)\<close>.
  \<^item> The number of ticks the hold needs is not bounded in advance. It exists because each
    tick multiplies the squared distance to the target by \<open>(1 - min(1, 20 \<cdot> dt))\<^sup>2 < 1\<close>
    until it falls below the snapping tolerance \<open>1e-4\<close> of \<open>VInterpTo\<close>. Likewise each
    tick multiplies the remaining angle on every axis, normalised into \<open>(-180, 180]\<close>, by
    \<open>1 - min(1, 20 \<cdot> dt)\<close> until all three are within the tolerance \<open>1e-4\<close> of
    \<open>RInterpTo\<close>.
  \<^item> The world's clock advances by a positive frame delta and starts at a non-negative
    time.

  \<^bold>\<open>Not modelled.\<close>
  \<^item> The module file \<open>Private/GenericPhysicPropSystem.cpp\<close>, which only registers the module.
  \<^item> The rigid-body solver. Its effect on velocities, locations and sleep is an arbitrary
    world step, and impulses leave the modelled mesh state unchanged.
  \<^item> Audio playback.
  \<^item> Network replication beyond the authority flag.
  \<^item> Float rounding.
  \<^item> Geometry blocking a sweeping \<open>SetActorLocationAndRotation\<close>. The owner lands at the
    requested location.
  \<^item> Blueprint writes to the \<open>BlueprintReadWrite\<close> configuration during play.
    Reachable states start from any designer-set values of the \<open>EditAnywhere\<close>
    properties (\<open>Prop_Controller.configured\<close>), and no handler changes them.
  \<^item> No termination property is stated, because the component has no loops. Every
    handler is a straight-line function, and runs are structural recursion over the list
    of events.
  \<^item> \<open>UGenericDamageType\<close>, which is referenced but not in the repository. It is modelled by
    its \<open>ImpulseModifier\<close>.
\<close>

section \<open>Properties across components\<close>

text \<open>C12: In every reachable state where the prop is held, the component manages a mesh and its hold distance lies in [50, 250]; when the holder faces a unit direction and the sweep ahead is clear, the grab target is exactly that far from the holder, so the controller never pulls the prop closer than 50 or farther than 250 units.\<close>

lemma grabbed_target_within_reach:
  assumes "reachable p h" and "is_grabbed p" and "current_holder p = Some hid"
    and "vsize_sq (h_forward (holders h hid)) = 1"
    and "sweep h (h_location (holders h hid))
           (vadd (h_location (holders h hid)) (vscale (hold_distance p) (h_forward (holders h hid)))) 10
           (insert (owner h) (set_option (h_owner (holders h hid)))) = None"
  shows "managed_mesh p \<noteq> None \<and> 50 \<le> hold_distance p \<and> hold_distance p \<le> 250 \<and>
         vdist (h_location (holders h hid)) (grab_target p h hid) = hold_distance p"
proof -
  have inv: "managed_mesh p \<noteq> None \<and> 50 \<le> hold_distance p \<and> hold_distance p \<le> 250"
    using reachable_grab_inv [OF assms(1)] assms(2) by (simp add: grab_inv_def)
  then show ?thesis
    using assms(4,5) by (simp add: grab_target_def Let_def vdist_vadd vsize_scale vsize_unit)
qed

lemma grabbed_target_within_reach_witness:
  "reachable (fst (run_events new_prop (idle_host\<lparr>owner_static_mesh := Some 0\<rparr>) [EvBeginPlay (1 / 2), EvGrab (Some 0)]))
     (snd (run_events new_prop (idle_host\<lparr>owner_static_mesh := Some 0\<rparr>) [EvBeginPlay (1 / 2), EvGrab (Some 0)])) \<and>
   is_grabbed (fst (run_events new_prop (idle_host\<lparr>owner_static_mesh := Some 0\<rparr>) [EvBeginPlay (1 / 2), EvGrab (Some 0)])) \<and>
   current_holder (fst (run_events new_prop (idle_host\<lparr>owner_static_mesh := Some 0\<rparr>) [EvBeginPlay (1 / 2), EvGrab (Some 0)])) = Some 0 \<and>
   vsize_sq (h_forward (holders (snd (run_events new_prop (idle_host\<lparr>owner_static_mesh := Some 0\<rparr>)
     [EvBeginPlay (1 / 2), EvGrab (Some 0)])) 0)) = 1 \<and>
   sweep (snd (run_events new_prop (idle_host\<lparr>owner_static_mesh := Some 0\<rparr>) [EvBeginPlay (1 / 2), EvGrab (Some 0)]))
     = (\<lambda>_ _ _ _. None) \<and>
   vdist (h_location idle_holder)
     (grab_target (fst (run_events new_prop (idle_host\<lparr>owner_static_mesh := Some 0\<rparr>) [EvBeginPlay (1 / 2), EvGrab (Some 0)]))
        (snd (run_events new_prop (idle_host\<lparr>owner_static_mesh := Some 0\<rparr>) [EvBeginPlay (1 / 2), EvGrab (Some 0)])) 0) = 50"
proof -
  let ?s = "run_events new_prop (idle_host\<lparr>owner_static_mesh := Some 0\<rparr>) [EvBeginPlay (1 / 2), EvGrab (Some 0)]"
  have r: "reachable (fst ?s) (snd ?s)"
    by (rule reachable_run_events [OF reachable_new_prop]) simp_all
  have s: "fst ?s = new_prop\<lparr>managed_mesh := Some 0, current_holder := Some 0, is_grabbed := True,
      hold_distance := 50\<rparr>" and "holders (snd ?s) = (\<lambda>_. idle_holder)" and "sweep (snd ?s) = (\<lambda>_ _ _ _. None)"
    by (simp_all add: begin_play_def physicalize_def grab_def Let_def idle_holder_def fclamp_def
        vdist_def vdist_sq_def zero_vec_def)
  then show ?thesis
    using grabbed_target_within_reach [OF r, of 0] r by (simp add: idle_holder_def)
qed

end
